(* ===== verification/Prelude.thy ===== *)
theory Prelude
  imports Complex_Main "HOL-Library.Word" "HOL-Library.List_Lexorder"
    "HOL-Library.Product_Lexorder" "HOL-Library.Multiset"
begin

text \<open>
  Shared vocabulary of the crawler development: the types that stand for Python's
  values, the conversion of ASCII literals into Python strings, the collections of
  lemmas the component theories feed their automation with, and generic list lemmas
  the components share.

  A Python \<open>str\<close> is a sequence of Unicode code points; it is modelled as a list of
  natural numbers (\<open>pystr\<close>), so that UTF-8 encoding, percent-decoding and sorting by
  code point are exact. Literals of the source are written \<open>py ''...''\<close>.
  Python's \<open>bytes\<close> is a list of naturals below 256 (\<open>bytes\<close>); SHA-256 turns them
  into 8- and 32-bit words where the arithmetic wraps.
\<close>

named_theorems py_simps "characteristic equations of the Python builtins of the model"
named_theorems frame_simps "fields of the world state that an operation leaves unchanged"

type_synonym pystr = "nat list"
type_synonym bytes = "nat list"

text \<open>The Python values the crawler puts in dicts it hands to libraries
  (\<open>model_dump()\<close> rows): \<open>None\<close>, \<open>str\<close>, pydantic's \<open>Url\<close> object,
  \<open>datetime\<close> (kept as its ISO text) and lists.\<close>

datatype pyval = PyNone | PyStr pystr | PyUrl pystr | PyDatetime pystr | PyList "pyval list"

definition py :: "string \<Rightarrow> pystr" where
  "py s = map of_char s"

lemma py_Nil [simp]: "py [] = []"
  and py_Cons [simp]: "py (c # s) = of_char c # py s"
  and py_append [simp]: "py (s @ t) = py s @ py t"
  by (simp_all add: py_def)

lemma length_py [simp]: "length (py s) = length s"
  by (simp add: py_def)

lemma py_below_256: "c \<in> set (py s) \<Longrightarrow> c < 256"
  by (auto simp: py_def)

subsection \<open>Generic list lemmas\<close>

lemma replicate_pow2_sum: "(\<Sum>k\<leftarrow>[0..<n]. (2::nat) ^ k) = 2 ^ n - 1"
  by (induction n) auto

end
