(* ===== verification/Fetch.thy ===== *)
theory Fetch
  imports Prelude
begin

text \<open>
  The Fetch Engine, \<^verbatim>\<open>src/crawler/core/fetch.py\<close>. One request is \<open>_get\<close>: a
  \<open>client.get\<close>, \<open>raise_for_status\<close>, then a politeness sleep drawn from
  \<open>random.uniform(0.15, 0.6)\<close>. The \<^verbatim>\<open>backoff.on_exception\<close> decorator retries it on
  three httpx exception classes, at most five tries, sleeping \<open>expo\<close> seconds
  (1, 2, 4, 8, no jitter) between tries.

  The network is an oracle in the world state \<open>net\<close>: the reply to the \<open>n\<close>-th
  \<open>client.get\<close> is \<open>replies s n\<close>, and the \<open>n\<close>-th value of \<open>random.random()\<close> is
  \<open>rng s n\<close>. The state logs the URLs requested, the durations passed to
  \<open>asyncio.sleep\<close> and the number of \<open>AsyncClient\<close>s opened. It is an extensible
  record, so the batch drivers of the CLI extend it and reuse every lemma here.
\<close>

subsection \<open>Configuration and client\<close>

definition DEFAULT_TIMEOUT :: real where
  "DEFAULT_TIMEOUT = 30"

definition USER_AGENT :: pystr where
  "USER_AGENT = py ''AdvancedCrawler/1.0 (+contact@example.org)''"

definition MAX_CONCURRENCY :: nat where
  "MAX_CONCURRENCY = 8"

text \<open>The keyword arguments \<open>http_client\<close> passes to \<open>httpx.AsyncClient\<close>.\<close>

record client_config =
  timeout :: real
  user_agent :: pystr
  follow_redirects :: bool
  max_keepalive_connections :: nat
  max_connections :: nat
  proxy :: "pystr option"

subsection \<open>httpx values\<close>

text \<open>
  The exceptions \<open>client.get\<close> can raise (the subclasses of \<open>httpx.RequestError\<close>),
  the response fields the crawler reads, and the two ways \<open>_get\<close> can fail.
\<close>

datatype httpx_error =
    ConnectError | ConnectTimeout | ReadTimeout | WriteTimeout | PoolTimeout
  | ReadError | WriteError | CloseError | RemoteProtocolError | LocalProtocolError
  | ProxyError | UnsupportedProtocol | DecodingError | TooManyRedirects

record response =
  status_code :: nat
  response_text :: pystr
  headers :: "(pystr \<times> pystr) list"

datatype get_outcome = Reply response | Raises httpx_error

datatype fetch_error = Transport httpx_error | HTTPStatusError nat

type_synonym fetch_result = "fetch_error + response"

record net =
  replies :: "nat \<Rightarrow> get_outcome"
  requested :: "pystr list"
  rng :: "nat \<Rightarrow> real"
  draws :: nat
  slept :: "real list"
  clients :: nat

subsection \<open>Operations\<close>

definition http_client :: "'a net_scheme \<Rightarrow> client_config \<times> 'a net_scheme" where
  "http_client s =
     (\<lparr>timeout = DEFAULT_TIMEOUT, user_agent = USER_AGENT, follow_redirects = True,
       max_keepalive_connections = MAX_CONCURRENCY, max_connections = MAX_CONCURRENCY,
       proxy = None\<rparr>,
      s\<lparr>clients := Suc (clients s)\<rparr>)"

definition client_get :: "pystr \<Rightarrow> 'a net_scheme \<Rightarrow> get_outcome \<times> 'a net_scheme" where
  "client_get url s = (replies s (length (requested s)), s\<lparr>requested := requested s @ [url]\<rparr>)"

text \<open>\<open>Response.is_success\<close> of httpx: \<open>200 <= status_code <= 299\<close>.\<close>

definition is_success :: "response \<Rightarrow> bool" where
  "is_success r \<longleftrightarrow> 200 \<le> status_code r \<and> status_code r < 300"

definition raise_for_status :: "response \<Rightarrow> fetch_result" where
  "raise_for_status r = (if is_success r then Inr r else Inl (HTTPStatusError (status_code r)))"

text \<open>\<open>random.uniform(a, b)\<close> is \<open>a + (b - a) * random()\<close>.\<close>

definition uniform :: "real \<Rightarrow> real \<Rightarrow> real \<Rightarrow> real" where
  "uniform a b u = a + (b - a) * u"

definition polite_delay :: "'a net_scheme \<Rightarrow> real \<times> 'a net_scheme" where
  "polite_delay s = (uniform 0.15 0.6 (rng s (draws s)), s\<lparr>draws := Suc (draws s)\<rparr>)"

definition sleep :: "real \<Rightarrow> 'a net_scheme \<Rightarrow> 'a net_scheme" where
  "sleep d s = s\<lparr>slept := slept s @ [d]\<rparr>"

text \<open>The body of \<open>_get\<close>, one try.\<close>

definition get_once :: "pystr \<Rightarrow> 'a net_scheme \<Rightarrow> fetch_result \<times> 'a net_scheme" where
  "get_once url s =
     (case client_get url s of
        (Raises e, s1) \<Rightarrow> (Inl (Transport e), s1)
      | (Reply r, s1) \<Rightarrow>
          (case raise_for_status r of
             Inl err \<Rightarrow> (Inl err, s1)
           | Inr r' \<Rightarrow> (let (d, s2) = polite_delay s1 in (Inr r', sleep d s2))))"

subsection \<open>The retry decorator\<close>

text \<open>
  \<open>on_exception(expo, (ConnectError, ReadTimeout, RemoteProtocolError), max_tries=5,
  jitter=None)\<close>. The exception tuple matches by class, and none of the three classes
  has a subclass in httpx.
\<close>

definition retry_on :: "httpx_error \<Rightarrow> bool" where
  "retry_on e \<longleftrightarrow> e = ConnectError \<or> e = ReadTimeout \<or> e = RemoteProtocolError"

definition MAX_TRIES :: nat where
  "MAX_TRIES = 5"

text \<open>\<open>backoff.expo()\<close> with \<open>base=2, factor=1\<close>: its \<open>n\<close>-th value, from 0.\<close>

definition expo :: "nat \<Rightarrow> nat" where
  "expo n = 2 ^ n"

text \<open>
  The decorator's loop, \<open>tries\<close> being the number of the try about to run (the loop
  increments it first). It gives up when \<open>tries == max_tries\<close>, and the \<open>n\<close>-th
  back-off waits \<open>expo n\<close> seconds. With \<open>max_tries = 0\<close> the check never fires, so
  the loop may run forever: it is a \<open>partial_function\<close> into \<open>option\<close>.
\<close>

partial_function (option) on_exception_get ::
  "nat \<Rightarrow> nat \<Rightarrow> pystr \<Rightarrow> 'a net_scheme \<Rightarrow> (fetch_result \<times> 'a net_scheme) option" where
  "on_exception_get max_tries tries url s =
     (let (r, s1) = get_once url s in
      case r of
        Inl (Transport e) \<Rightarrow>
          (if retry_on e then
             (if tries = max_tries then Some (r, s1)
              else on_exception_get max_tries (Suc tries) url (sleep (real (expo (tries - 1))) s1))
           else Some (r, s1))
      | _ \<Rightarrow> Some (r, s1))"

definition get :: "pystr \<Rightarrow> 'a net_scheme \<Rightarrow> (fetch_result \<times> 'a net_scheme) option" where
  "get url s = on_exception_get MAX_TRIES 1 url s"

text \<open>
  \<open>fetch(url, client)\<close>: with a client, \<open>_get\<close> on it; without one, an ephemeral
  client is opened (and closed) around \<open>_get\<close>.
\<close>

definition fetch :: "pystr \<Rightarrow> client_config option \<Rightarrow> 'a net_scheme \<Rightarrow> (fetch_result \<times> 'a net_scheme) option" where
  "fetch url client s =
     (case client of
        Some c \<Rightarrow> get url s
      | None \<Rightarrow> (let (c, s1) = http_client s in get url s1))"

subsection \<open>The contract of \<open>_get\<close>\<close>

text \<open>
  What the decorated \<open>_get\<close> promises, as a pure function of the reply stream:
  \<open>tries_used left rs n\<close> is the number of tries made when the reply to try \<open>i\<close> is
  \<open>rs (n + i)\<close> and \<open>left\<close> more tries are allowed after the first. The result is the
  outcome of the last try, the state has one request per try, one back-off sleep
  \<open>expo (b + i)\<close> between tries, and a politeness sleep after a success.
\<close>

definition retriable :: "get_outcome \<Rightarrow> bool" where
  "retriable g = (case g of Raises e \<Rightarrow> retry_on e | Reply r \<Rightarrow> False)"

definition outcome_result :: "get_outcome \<Rightarrow> fetch_result" where
  "outcome_result g = (case g of Raises e \<Rightarrow> Inl (Transport e) | Reply r \<Rightarrow> raise_for_status r)"

fun tries_used :: "nat \<Rightarrow> (nat \<Rightarrow> get_outcome) \<Rightarrow> nat \<Rightarrow> nat" where
  "tries_used 0 rs n = 1"
| "tries_used (Suc l) rs n = (if retriable (rs n) then Suc (tries_used l rs (Suc n)) else 1)"

definition loop_spec :: "nat \<Rightarrow> nat \<Rightarrow> pystr \<Rightarrow> 'a net_scheme \<Rightarrow> fetch_result \<times> 'a net_scheme" where
  "loop_spec left b url s =
     (let n = length (requested s); k = tries_used left (replies s) n;
          res = outcome_result (replies s (n + k - 1));
          s1 = s\<lparr>requested := requested s @ replicate k url,
                 slept := slept s @ map (\<lambda>i. real (expo (b + i))) [0..<k - 1]\<rparr>
      in (res, case res of Inl _ \<Rightarrow> s1
                 | Inr _ \<Rightarrow> s1\<lparr>draws := Suc (draws s),
                              slept := slept s1 @ [uniform 0.15 0.6 (rng s (draws s))]\<rparr>))"

definition get_spec :: "pystr \<Rightarrow> 'a net_scheme \<Rightarrow> fetch_result \<times> 'a net_scheme" where
  "get_spec url s = loop_spec (MAX_TRIES - 1) 0 url s"

subsection \<open>Test fixtures\<close>

text \<open>
  The mock transports of the spec's fetch tests: a 200 response, a 500 response, and
  a client that raises a given exception a given number of times before answering.
\<close>

definition ok_response :: response where
  "ok_response = \<lparr>status_code = 200, response_text = py ''ok'', headers = []\<rparr>"

definition error_response :: response where
  "error_response = \<lparr>status_code = 500, response_text = py ''boom'', headers = []\<rparr>"

definition mock_net :: "nat \<Rightarrow> httpx_error \<Rightarrow> response \<Rightarrow> net" where
  "mock_net k e r = \<lparr>replies = (\<lambda>n. if n < k then Raises e else Reply r),
     requested = [], rng = (\<lambda>_. 1 / 2), draws = 0, slept = [], clients = 0\<rparr>"


subsection \<open>One try\<close>

lemma get_once_raises:
  "replies s (length (requested s)) = Raises e \<Longrightarrow>
   get_once url s = (Inl (Transport e), s\<lparr>requested := requested s @ [url]\<rparr>)"
  by (simp add: get_once_def client_get_def)

lemma get_once_reply:
  "replies s (length (requested s)) = Reply r \<Longrightarrow>
   get_once url s = (raise_for_status r,
     if is_success r then s\<lparr>requested := requested s @ [url], draws := Suc (draws s),
                            slept := slept s @ [uniform 0.15 0.6 (rng s (draws s))]\<rparr>
     else s\<lparr>requested := requested s @ [url]\<rparr>)"
  by (simp add: get_once_def client_get_def raise_for_status_def polite_delay_def sleep_def)

lemmas outcome_simps = outcome_result_def retriable_def raise_for_status_def

subsection \<open>Counting tries\<close>

lemma tries_used_pos: "0 < tries_used l rs n"
  by (induction l arbitrary: n) auto

lemma tries_used_le: "tries_used l rs n \<le> Suc l"
  by (induction l arbitrary: n) auto

lemma tries_used_all:
  "\<forall>i<l. retriable (rs (n + i)) \<Longrightarrow> tries_used l rs n = Suc l"
proof (induction l arbitrary: n)
  case 0
  then show ?case by simp
next
  case (Suc l)
  from Suc.prems have "retriable (rs n)" by (metis add_0_right zero_less_Suc)
  moreover from Suc.prems have "\<forall>i<l. retriable (rs (Suc n + i))" by auto
  ultimately show ?case using Suc.IH by simp
qed

lemma tries_used_not_retriable:
  "\<not> retriable (rs n) \<Longrightarrow> tries_used l rs n = 1"
  by (cases l) auto

lemma tries_used_stop:
  "k \<le> l \<Longrightarrow> \<forall>i<k. retriable (rs (n + i)) \<Longrightarrow> \<not> retriable (rs (n + k)) \<Longrightarrow>
   tries_used l rs n = Suc k"
proof (induction k arbitrary: n l)
  case 0
  then show ?case by (cases l) auto
next
  case (Suc k)
  then obtain l' where l: "l = Suc l'" by (cases l) auto
  from Suc.prems have "retriable (rs n)" by (metis add_0_right zero_less_Suc)
  moreover have "tries_used l' rs (Suc n) = Suc k"
    using Suc.prems l by (intro Suc.IH) auto
  ultimately show ?case by (simp add: l)
qed

lemma tries_used_prefix:
  "i < tries_used l rs n - 1 \<Longrightarrow> retriable (rs (n + i))"
proof (induction l arbitrary: n i)
  case 0
  then show ?case by simp
next
  case (Suc l)
  then have r: "retriable (rs n)" by (auto split: if_splits)
  show ?case
  proof (cases i)
    case 0
    with r show ?thesis by simp
  next
    case (Suc j)
    with Suc.prems r have "j < tries_used l rs (Suc n) - 1"
      using tries_used_pos [of l rs "Suc n"] by simp
    then show ?thesis using Suc.IH Suc by fastforce
  qed
qed

subsection \<open>The loop implements its contract\<close>

lemma map_expo_shift:
  "0 < k \<Longrightarrow> map (\<lambda>i. f (b + i)) [0..<k] = f b # map (\<lambda>i. f (Suc b + i)) [0..<k - 1]"
  by (cases k) (simp_all add: map_upt_Suc del: upt_Suc)

lemma loop_spec_step:
  assumes "retriable (replies s (length (requested s)))"
  shows "loop_spec (Suc l) b url s =
    loop_spec l (Suc b) url (s\<lparr>requested := requested s @ [url], slept := slept s @ [real (expo b)]\<rparr>)"
proof -
  let ?n = "length (requested s)"
  define k where "k = tries_used l (replies s) (Suc ?n)"
  have k: "0 < k" by (simp add: k_def tries_used_pos)
  have used: "tries_used (Suc l) (replies s) ?n = Suc k"
    using assms by (simp add: k_def)
  have idx: "?n + Suc k - 1 = Suc ?n + k - 1" using k by simp
  have sl: "map (\<lambda>i. real (expo (b + i))) [0..<k] =
      real (expo b) # map (\<lambda>i. real (expo (Suc b + i))) [0..<k - 1]"
    using k by (rule map_expo_shift)
  show ?thesis
    unfolding loop_spec_def Let_def used
    by (simp add: k_def[symmetric] idx sl replicate_append_same[symmetric] split: sum.split)
qed

lemma on_exception_get_spec:
  "0 < t \<Longrightarrow> t \<le> m \<Longrightarrow> on_exception_get m t url s = Some (loop_spec (m - t) (t - 1) url s)"
proof (induction "m - t" arbitrary: t s)
  case 0
  then have mt: "m = t" by simp
  show ?case
  proof (cases "replies s (length (requested s))")
    case (Reply r)
    then show ?thesis
      by (subst on_exception_get.simps) (auto simp: mt get_once_reply loop_spec_def outcome_simps)
  next
    case (Raises e)
    then show ?thesis
      by (subst on_exception_get.simps) (auto simp: mt get_once_raises loop_spec_def outcome_simps)
  qed
next
  case (Suc d)
  then have tm: "t \<noteq> m" "m - t = Suc (m - Suc t)" by auto
  show ?case
  proof (cases "replies s (length (requested s))")
    case (Reply r)
    then show ?thesis
      by (subst on_exception_get.simps) (auto simp: tm get_once_reply loop_spec_def outcome_simps)
  next
    case (Raises e)
    show ?thesis
    proof (cases "retry_on e")
      case True
      let ?s1 = "s\<lparr>requested := requested s @ [url], slept := slept s @ [real (expo (t - 1))]\<rparr>"
      have "on_exception_get m (Suc t) url ?s1 = Some (loop_spec (m - Suc t) (Suc t - 1) url ?s1)"
        using Suc by (intro Suc.hyps) auto
      moreover have "loop_spec (m - t) (t - 1) url s = loop_spec (m - Suc t) (Suc (t - 1)) url ?s1"
        unfolding tm(2) using Raises True by (intro loop_spec_step) (simp add: retriable_def)
      ultimately show ?thesis
        using Raises True tm Suc.prems
        by (subst on_exception_get.simps) (simp add: get_once_raises sleep_def)
    next
      case False
      with Raises show ?thesis
        by (subst on_exception_get.simps) (auto simp: tm get_once_raises loop_spec_def outcome_simps)
    qed
  qed
qed

text \<open>C1. Refinement: the decorated \<open>_get\<close> always returns, and what it returns is its
  contract \<open>get_spec\<close>: one request per try, at most five tries, back-off sleeps of
  1, 2, 4, 8 seconds, the last try's outcome as the result.\<close>

theorem get_refines_spec: "get url s = Some (get_spec url s)"
  unfolding get_def get_spec_def MAX_TRIES_def
  by (simp add: on_exception_get_spec)

lemma get_eq_loop_spec: "get url s = Some (loop_spec 4 0 url s)"
  unfolding get_def MAX_TRIES_def by (simp add: on_exception_get_spec)

lemma get_effect:
  assumes "get url s = Some (res, s')"
  shows "\<exists>k. 1 \<le> k \<and> k \<le> MAX_TRIES \<and> requested s' = requested s @ replicate k url \<and>
           clients s' = clients s \<and> replies s' = replies s \<and> rng s' = rng s \<and> net.more s' = net.more s"
proof -
  let ?k = "tries_used 4 (replies s) (length (requested s))"
  have "1 \<le> ?k" "?k \<le> MAX_TRIES"
    using tries_used_pos [of 4] tries_used_le [of 4] by (auto simp: MAX_TRIES_def Suc_le_eq)
  moreover have "requested s' = requested s @ replicate ?k url \<and> clients s' = clients s \<and>
      replies s' = replies s \<and> rng s' = rng s \<and> net.more s' = net.more s"
    using assms by (auto simp: get_eq_loop_spec loop_spec_def Let_def split: sum.splits)
  ultimately show ?thesis by blast
qed

text \<open>A try that fails with one of the three retried exceptions is repeated: after
  \<open>k < 5\<close> such failures and then a 2xx response, \<open>_get\<close> returns that response, having
  sent \<open>k + 1\<close> requests, slept \<open>1, 2, \<dots>, 2^(k-1)\<close> seconds between them and one
  politeness delay after the success.\<close>

theorem get_retries_then_succeeds:
  assumes "k < MAX_TRIES"
    and "\<forall>i<k. retriable (replies s (length (requested s) + i))"
    and "replies s (length (requested s) + k) = Reply r" and "is_success r"
  shows "get url s = Some (Inr r, s\<lparr>requested := requested s @ replicate (Suc k) url,
           draws := Suc (draws s),
           slept := slept s @ map (\<lambda>i. real (2 ^ i)) [0..<k] @ [uniform 0.15 0.6 (rng s (draws s))]\<rparr>)"
proof -
  have "tries_used 4 (replies s) (length (requested s)) = Suc k"
    using assms by (intro tries_used_stop) (auto simp: MAX_TRIES_def retriable_def)
  with assms(3,4) show ?thesis
    by (simp add: get_eq_loop_spec loop_spec_def outcome_simps expo_def)
qed

theorem get_retries_then_succeeds_witness:
  "get (py ''https://example.com'') (mock_net 2 ConnectError ok_response) =
   Some (Inr ok_response, (mock_net 2 ConnectError ok_response)\<lparr>requested := replicate 3 (py ''https://example.com''),
     draws := 1, slept := [1, 2, 3 / 8]\<rparr>)"
  using get_retries_then_succeeds [of 2 "mock_net 2 ConnectError ok_response" ok_response "py ''https://example.com''"]
  by (simp add: mock_net_def ok_response_def MAX_TRIES_def retriable_def retry_on_def is_success_def
      uniform_def numeral_eq_Suc less_Suc_eq)

text \<open>C26. A completed response whose status is not 2xx raises \<open>HTTPStatusError\<close> with
  its status at the first try: one request, no retry, no sleep.\<close>

theorem get_http_error_not_retried:
  assumes "replies s (length (requested s)) = Reply r" and "\<not> is_success r"
  shows "get url s = Some (Inl (HTTPStatusError (status_code r)), s\<lparr>requested := requested s @ [url]\<rparr>)"
proof -
  have "tries_used 4 (replies s) (length (requested s)) = 1"
    using assms by (intro tries_used_not_retriable) (simp add: retriable_def)
  with assms show ?thesis
    by (simp add: get_eq_loop_spec loop_spec_def outcome_simps)
qed

theorem get_http_error_not_retried_witness:
  "get (py ''https://example.com'') (mock_net 0 ConnectError error_response) =
   Some (Inl (HTTPStatusError 500), (mock_net 0 ConnectError error_response)\<lparr>requested := [py ''https://example.com'']\<rparr>)"
  using get_http_error_not_retried [of "mock_net 0 ConnectError error_response" error_response]
  by (simp add: mock_net_def error_response_def is_success_def)

text \<open>After five retried failures in a row \<open>_get\<close> gives up and raises the last
  transport error, having sent five requests and slept 1, 2, 4 and 8 seconds.\<close>

theorem get_gives_up_after_max_tries:
  assumes "\<forall>i<MAX_TRIES. retriable (replies s (length (requested s) + i))"
    and "replies s (length (requested s) + 4) = Raises e"
  shows "get url s = Some (Inl (Transport e),
           s\<lparr>requested := requested s @ replicate 5 url, slept := slept s @ [1, 2, 4, 8]\<rparr>)"
proof -
  have "tries_used 4 (replies s) (length (requested s)) = 5"
    using assms(1) by (subst tries_used_all) (auto simp: MAX_TRIES_def)
  moreover have "replies s (4 + length (requested s)) = Raises e"
    using assms(2) by (simp add: add.commute)
  ultimately show ?thesis
    by (simp add: get_eq_loop_spec loop_spec_def outcome_simps expo_def upt_rec)
qed

theorem get_gives_up_after_max_tries_witness:
  "get (py ''https://example.com'') (mock_net 5 ReadTimeout ok_response) =
   Some (Inl (Transport ReadTimeout), (mock_net 5 ReadTimeout ok_response)\<lparr>
     requested := replicate 5 (py ''https://example.com''), slept := [1, 2, 4, 8]\<rparr>)"
  using get_gives_up_after_max_tries [of "mock_net 5 ReadTimeout ok_response" ReadTimeout]
  by (simp add: mock_net_def MAX_TRIES_def retriable_def retry_on_def)

text \<open>A transport error outside \<open>(ConnectError, ReadTimeout, RemoteProtocolError)\<close>,
  e.g. \<open>ConnectTimeout\<close> or \<open>ReadError\<close> (a connection reset), is raised at the first
  try without retry.\<close>

theorem get_non_retriable_raised:
  assumes "replies s (length (requested s)) = Raises e" and "\<not> retry_on e"
  shows "get url s = Some (Inl (Transport e), s\<lparr>requested := requested s @ [url]\<rparr>)"
proof -
  have "tries_used 4 (replies s) (length (requested s)) = 1"
    using assms by (intro tries_used_not_retriable) (simp add: retriable_def)
  with assms show ?thesis
    by (simp add: get_eq_loop_spec loop_spec_def outcome_simps)
qed

theorem get_non_retriable_raised_witness:
  "get (py ''https://example.com'') (mock_net 1 ConnectTimeout ok_response) =
   Some (Inl (Transport ConnectTimeout),
     (mock_net 1 ConnectTimeout ok_response)\<lparr>requested := [py ''https://example.com'']\<rparr>)"
  using get_non_retriable_raised [of "mock_net 1 ConnectTimeout ok_response" ConnectTimeout]
  by (simp add: mock_net_def retry_on_def)

text \<open>C27. Whatever the network does, \<open>_get\<close> sends between one and five requests, all
  for the same URL; every try but the last failed with a retried exception, and the
  result is the outcome of the last try alone.\<close>

theorem get_attempts_bounded:
  assumes "get url s = Some (res, s')"
  shows "\<exists>k. 1 \<le> k \<and> k \<le> MAX_TRIES \<and> requested s' = requested s @ replicate k url \<and>
           (\<forall>i<k - 1. retriable (replies s (length (requested s) + i))) \<and>
           res = outcome_result (replies s (length (requested s) + k - 1))"
proof -
  let ?k = "tries_used 4 (replies s) (length (requested s))"
  have "1 \<le> ?k" "?k \<le> MAX_TRIES"
    using tries_used_pos [of 4] tries_used_le [of 4] by (auto simp: MAX_TRIES_def Suc_le_eq)
  moreover have "\<forall>i<?k - 1. retriable (replies s (length (requested s) + i))"
    by (auto intro: tries_used_prefix)
  moreover have "requested s' = requested s @ replicate ?k url \<and>
      res = outcome_result (replies s (length (requested s) + ?k - 1))"
    using assms by (auto simp: get_eq_loop_spec loop_spec_def Let_def split: sum.splits)
  ultimately show ?thesis by blast
qed

theorem get_attempts_bounded_witness:
  "\<exists>k. 1 \<le> k \<and> k \<le> MAX_TRIES \<and> replicate 3 (py ''https://example.com'') = replicate k (py ''https://example.com'') \<and>
      (\<forall>i<k - 1. retriable (replies (mock_net 2 ConnectError ok_response) i)) \<and>
      Inr ok_response = outcome_result (replies (mock_net 2 ConnectError ok_response) (k - 1))"
proof -
  have "get (py ''https://example.com'') (mock_net 2 ConnectError ok_response) =
    Some (Inr ok_response, (mock_net 2 ConnectError ok_response)\<lparr>requested := replicate 3 (py ''https://example.com''),
     draws := 1, slept := [1, 2, 3 / 8]\<rparr>)"
    by (simp add: get_eq_loop_spec loop_spec_def mock_net_def ok_response_def outcome_simps
        retry_on_def is_success_def uniform_def expo_def numeral_eq_Suc)
  from get_attempts_bounded [OF this] show ?thesis by (simp add: mock_net_def)
qed

text \<open>A successful \<open>_get\<close> returns a 2xx response and its last sleep is the
  politeness delay, within [0.15, 0.6] seconds whenever \<open>random()\<close> is in [0, 1].\<close>

theorem get_success_polite_delay:
  assumes "get url s = Some (Inr r, s')" and "0 \<le> rng s (draws s)" and "rng s (draws s) \<le> 1"
  shows "is_success r \<and> (\<exists>pre d. slept s' = slept s @ pre @ [d] \<and> 0.15 \<le> d \<and> d \<le> 0.6)"
proof -
  let ?n = "length (requested s)" and ?k = "tries_used 4 (replies s) (length (requested s))"
  have res: "outcome_result (replies s (?n + ?k - 1)) = Inr r"
    and st: "s' = s\<lparr>requested := requested s @ replicate ?k url,
                 slept := slept s @ map (\<lambda>i. real (expo i)) [0..<?k - 1] @ [uniform 0.15 0.6 (rng s (draws s))],
                 draws := Suc (draws s)\<rparr>"
    using assms(1) by (auto simp: get_eq_loop_spec loop_spec_def Let_def split: sum.splits)
  from res have "is_success r"
    by (auto simp: outcome_simps split: get_outcome.splits if_splits)
  moreover have "0.15 \<le> uniform 0.15 0.6 (rng s (draws s))" "uniform 0.15 0.6 (rng s (draws s)) \<le> 0.6"
    using assms(2,3) by (simp_all add: uniform_def)
  ultimately show ?thesis using st by auto
qed

theorem get_success_polite_delay_witness:
  "is_success ok_response \<and> (\<exists>pre d. [1, 2, 3 / 8] = pre @ [d] \<and> 0.15 \<le> d \<and> d \<le> (0.6::real))"
proof -
  have "get (py ''https://example.com'') (mock_net 2 ConnectError ok_response) =
    Some (Inr ok_response, (mock_net 2 ConnectError ok_response)\<lparr>requested := replicate 3 (py ''https://example.com''),
     draws := 1, slept := [1, 2, 3 / 8]\<rparr>)"
    by (simp add: get_eq_loop_spec loop_spec_def mock_net_def ok_response_def outcome_simps
        retry_on_def is_success_def uniform_def expo_def numeral_eq_Suc)
  from get_success_polite_delay [OF this] show ?thesis by (simp add: mock_net_def)
qed

end
