(* ===== verification/PyStr.thy ===== *)
theory PyStr
  imports Prelude
begin

text \<open>
  The builtins of Python's \<open>str\<close> that the crawler and the standard-library code it
  calls use, on strings as lists of code points, following CPython 3.11:
  \<open>isspace\<close>, \<open>strip\<close>, \<open>lower\<close>, \<open>partition\<close>/\<open>split\<close> on a one-character
  separator, \<open>split()\<close> on whitespace, \<open>splitlines\<close>, \<open>startswith\<close>, \<open>in\<close>,
  \<open>join\<close>. Each definition is exact on every code point except \<open>lower\<close>, which is
  exact below U+0100 (ASCII and Latin-1) and leaves other code points unchanged.
\<close>

subsection \<open>Character classes\<close>

text \<open>\<open>str.isspace\<close> on one code point: the 29 code points CPython 3.11 counts.\<close>

definition py_isspace :: "nat \<Rightarrow> bool" where
  "py_isspace c \<longleftrightarrow>
     (9 \<le> c \<and> c \<le> 13) \<or> (28 \<le> c \<and> c \<le> 32) \<or> c = 133 \<or> c = 160 \<or> c = 5760 \<or>
     (8192 \<le> c \<and> c \<le> 8202) \<or> c = 8232 \<or> c = 8233 \<or> c = 8239 \<or> c = 8287 \<or> c = 12288"

text \<open>The line boundaries of \<open>str.splitlines\<close>; \<open>\r\n\<close> counts as one boundary.\<close>

definition line_boundary :: "nat \<Rightarrow> bool" where
  "line_boundary c \<longleftrightarrow> (10 \<le> c \<and> c \<le> 13) \<or> (28 \<le> c \<and> c \<le> 30) \<or> c = 133 \<or> c = 8232 \<or> c = 8233"

definition ascii_alpha :: "nat \<Rightarrow> bool" where
  "ascii_alpha c \<longleftrightarrow> (65 \<le> c \<and> c \<le> 90) \<or> (97 \<le> c \<and> c \<le> 122)"

definition ascii_digit :: "nat \<Rightarrow> bool" where
  "ascii_digit c \<longleftrightarrow> 48 \<le> c \<and> c \<le> 57"

definition py_lower_char :: "nat \<Rightarrow> nat" where
  "py_lower_char c =
     (if (65 \<le> c \<and> c \<le> 90) \<or> (192 \<le> c \<and> c \<le> 222 \<and> c \<noteq> 215) then c + 32 else c)"

definition py_lower :: "pystr \<Rightarrow> pystr" where
  "py_lower s = map py_lower_char s"

subsection \<open>Stripping\<close>

definition lstrip_by :: "(nat \<Rightarrow> bool) \<Rightarrow> pystr \<Rightarrow> pystr" where
  "lstrip_by P s = dropWhile P s"

definition rstrip_by :: "(nat \<Rightarrow> bool) \<Rightarrow> pystr \<Rightarrow> pystr" where
  "rstrip_by P s = rev (dropWhile P (rev s))"

definition py_strip :: "pystr \<Rightarrow> pystr" where
  "py_strip s = rstrip_by py_isspace (lstrip_by py_isspace s)"

subsection \<open>Splitting and joining\<close>

text \<open>\<open>s.partition(sep)\<close> for a one-character separator.\<close>

definition py_partition :: "nat \<Rightarrow> pystr \<Rightarrow> pystr \<times> bool \<times> pystr" where
  "py_partition c s =
     (takeWhile (\<lambda>x. x \<noteq> c) s, c \<in> set s, drop 1 (dropWhile (\<lambda>x. x \<noteq> c) s))"

text \<open>\<open>s.split(sep)\<close> for a one-character separator: never empty, \<open>''.split('&') == ['']\<close>.\<close>

fun py_split :: "nat \<Rightarrow> pystr \<Rightarrow> pystr list" where
  "py_split c [] = [[]]"
| "py_split c (x # xs) =
     (if x = c then [] # py_split c xs
      else (let r = py_split c xs in (x # hd r) # tl r))"

fun py_join :: "pystr \<Rightarrow> pystr list \<Rightarrow> pystr" where
  "py_join sep [] = []"
| "py_join sep [x] = x"
| "py_join sep (x # y # zs) = x @ sep @ py_join sep (y # zs)"

text \<open>\<open>s.split()\<close> with no separator: runs of whitespace separate, empty words dropped.\<close>

definition py_split_ws :: "pystr \<Rightarrow> pystr list" where
  "py_split_ws s = filter (\<lambda>w. w \<noteq> []) (map (filter (\<lambda>c. \<not> py_isspace c)) (py_split 32
     (map (\<lambda>c. if py_isspace c then 32 else c) s)))"

text \<open>
  \<open>s.splitlines()\<close>: lines without their boundaries; a final boundary does not start
  an empty line; \<open>\r\n\<close> is one boundary.
\<close>

fun splitlines_acc :: "pystr \<Rightarrow> pystr \<Rightarrow> pystr list" where
  "splitlines_acc cur [] = (if cur = [] then [] else [rev cur])"
| "splitlines_acc cur (c # cs) =
     (if c = 13 \<and> cs \<noteq> [] \<and> hd cs = 10 then rev cur # splitlines_acc [] (tl cs)
      else if line_boundary c then rev cur # splitlines_acc [] cs
      else splitlines_acc (c # cur) cs)"

definition py_splitlines :: "pystr \<Rightarrow> pystr list" where
  "py_splitlines s = splitlines_acc [] s"

subsection \<open>Tests\<close>

definition starts_with :: "pystr \<Rightarrow> pystr \<Rightarrow> bool" where
  "starts_with p s \<longleftrightarrow> take (length p) s = p"

text \<open>\<open>a in b\<close> for strings: \<open>a\<close> occurs in \<open>b\<close> at some position.\<close>

definition py_contains :: "pystr \<Rightarrow> pystr \<Rightarrow> bool" where
  "py_contains a b \<longleftrightarrow> list_ex (\<lambda>i. starts_with a (drop i b)) [0..<Suc (length b)]"

text \<open>\<open>str(n)\<close> of a non-negative int.\<close>

fun str_nat :: "nat \<Rightarrow> pystr" where
  "str_nat n = (if n < 10 then [48 + n] else str_nat (n div 10) @ [48 + n mod 10])"

declare str_nat.simps [simp del]

subsection \<open>Lemmas\<close>

lemma py_lower_char_idem [simp]: "py_lower_char (py_lower_char c) = py_lower_char c"
  by (simp add: py_lower_char_def)

lemma py_lower_idem [simp]: "py_lower (py_lower s) = py_lower s"
  by (simp add: py_lower_def)

lemma length_py_lower [simp]: "length (py_lower s) = length s"
  by (simp add: py_lower_def)

lemma py_lower_append [simp]: "py_lower (s @ t) = py_lower s @ py_lower t"
  by (simp add: py_lower_def)

lemma py_split_nonempty [simp]: "py_split c s \<noteq> []"
  by (induction s) (auto simp: Let_def)

lemma py_split_join: "py_join [c] (py_split c s) = s"
proof (induction s)
  case Nil
  then show ?case by simp
next
  case (Cons x xs)
  obtain w ws where r: "py_split c xs = w # ws"
    by (cases "py_split c xs") auto
  with Cons show ?case
    by (cases ws) auto
qed

lemma py_split_no_sep: "w \<in> set (py_split c s) \<Longrightarrow> c \<notin> set w"
proof (induction s arbitrary: w)
  case Nil
  then show ?case by simp
next
  case (Cons x xs)
  obtain v vs where r: "py_split c xs = v # vs"
    by (cases "py_split c xs") auto
  with Cons show ?case
    by (auto simp: Let_def split: if_splits)
qed

lemma py_split_no_sep_eq: "c \<notin> set s \<Longrightarrow> py_split c s = [s]"
  by (induction s) (auto simp: Let_def)

lemma py_partition_parts:
  "py_partition c s = (a, h, b) \<Longrightarrow> s = a @ (if h then [c] else []) @ b"
  by (induction s arbitrary: a) (auto simp: py_partition_def split: if_splits)

lemma starts_with_append [simp]: "starts_with p (p @ s)"
  by (simp add: starts_with_def)

lemma starts_with_Nil [simp]: "starts_with [] s"
  by (simp add: starts_with_def)

lemma dropWhile_hd_not: "xs = [] \<or> \<not> P (hd xs) \<Longrightarrow> dropWhile P xs = xs"
  by (cases xs) auto

lemma last_dropWhile: "dropWhile P xs \<noteq> [] \<Longrightarrow> last (dropWhile P xs) = last xs"
  by (induction xs) auto

lemma strip_fixed:
  "s = [] \<or> (\<not> py_isspace (hd s) \<and> \<not> py_isspace (last s)) \<Longrightarrow> py_strip s = s"
  by (cases s rule: rev_cases) (auto simp: py_strip_def lstrip_by_def rstrip_by_def dropWhile_hd_not)

lemma strip_shape:
  "py_strip s = [] \<or> (\<not> py_isspace (hd (py_strip s)) \<and> \<not> py_isspace (last (py_strip s)))"
proof -
  let ?u = "dropWhile py_isspace s"
  let ?v = "dropWhile py_isspace (rev ?u)"
  have ps: "py_strip s = rev ?v"
    by (simp add: py_strip_def lstrip_by_def rstrip_by_def)
  show ?thesis
  proof (cases "?v = []")
    case False
    then have "?u \<noteq> []"
      by (metis Nil_is_rev_conv dropWhile.simps(1))
    then have "\<not> py_isspace (hd ?u)"
      by (simp add: hd_dropWhile)
    moreover have "\<not> py_isspace (hd ?v)"
      using False by (rule hd_dropWhile)
    ultimately show ?thesis
      using False ps \<open>?u \<noteq> []\<close> by (simp add: hd_rev last_rev last_dropWhile)
  qed (simp add: ps)
qed

lemma py_strip_idem [simp]: "py_strip (py_strip s) = py_strip s"
  using strip_shape [of s] by (rule strip_fixed)

end
