(* ===== verification/Utf8.thy ===== *)
theory Utf8
  imports PyStr
begin

text \<open>
  The UTF-8 codec of CPython 3.11 (\<^verbatim>\<open>Objects/stringlib/codecs.h\<close>) as the crawler
  and the standard library use it: \<open>str.encode('utf-8')\<close> with the \<open>strict\<close> and
  \<open>ignore\<close> error handlers (lone surrogates are the only unencodable code points), and
  \<open>bytes.decode('utf-8')\<close> with \<open>strict\<close> and \<open>replace\<close>. The decoder reports
  one error per maximal invalid subpart: an invalid start byte, the valid prefix before
  an invalid continuation byte (decoding resumes at that byte), or a truncated sequence
  at the end.
\<close>

datatype codec_error = UnicodeEncodeError | UnicodeDecodeError

definition is_surrogate :: "nat \<Rightarrow> bool" where
  "is_surrogate c \<longleftrightarrow> 55296 \<le> c \<and> c \<le> 57343"

text \<open>A code point a Python \<open>str\<close> can hold and UTF-8 can encode.\<close>

definition scalar_value :: "nat \<Rightarrow> bool" where
  "scalar_value c \<longleftrightarrow> c < 1114112 \<and> \<not> is_surrogate c"

definition utf8_char :: "nat \<Rightarrow> bytes" where
  "utf8_char c =
     (if c < 128 then [c]
      else if c < 2048 then [192 + c div 64, 128 + c mod 64]
      else if c < 65536 then [224 + c div 4096, 128 + c div 64 mod 64, 128 + c mod 64]
      else [240 + c div 262144, 128 + c div 4096 mod 64, 128 + c div 64 mod 64, 128 + c mod 64])"

definition encode_ignore :: "pystr \<Rightarrow> bytes" where
  "encode_ignore s = concat (map utf8_char (filter (\<lambda>c. \<not> is_surrogate c) s))"

definition encode_strict :: "pystr \<Rightarrow> codec_error + bytes" where
  "encode_strict s =
     (if list_ex is_surrogate s then Inl UnicodeEncodeError else Inr (concat (map utf8_char s)))"

definition cont :: "nat \<Rightarrow> bool" where
  "cont b \<longleftrightarrow> 128 \<le> b \<and> b < 192"

text \<open>
  One step of the decoder on a lead byte \<open>b\<close> and the bytes after it: \<open>Some c\<close> for
  a decoded code point or \<open>None\<close> for one error range, and how many of the bytes
  after \<open>b\<close> the step consumes.
\<close>

definition utf8_step :: "nat \<Rightarrow> bytes \<Rightarrow> nat option \<times> nat" where
  "utf8_step b bs =
     (if b < 128 then (Some b, 0)
      else if b < 194 then (None, 0)
      else if b < 224 then
        (case bs of [] \<Rightarrow> (None, 0)
         | b2 # _ \<Rightarrow> if cont b2 then (Some ((b - 192) * 64 + (b2 - 128)), 1) else (None, 0))
      else if b < 240 then
        (case bs of [] \<Rightarrow> (None, 0)
         | b2 # bs2 \<Rightarrow>
            if \<not> cont b2 \<or> (b = 224 \<and> b2 < 160) \<or> (b = 237 \<and> 160 \<le> b2) then (None, 0)
            else (case bs2 of [] \<Rightarrow> (None, 1)
                  | b3 # _ \<Rightarrow>
                     if cont b3 then (Some ((b - 224) * 4096 + (b2 - 128) * 64 + (b3 - 128)), 2)
                     else (None, 1)))
      else if b < 245 then
        (case bs of [] \<Rightarrow> (None, 0)
         | b2 # bs2 \<Rightarrow>
            if \<not> cont b2 \<or> (b = 240 \<and> b2 < 144) \<or> (b = 244 \<and> 144 \<le> b2) then (None, 0)
            else (case bs2 of [] \<Rightarrow> (None, 1)
                  | b3 # bs3 \<Rightarrow>
                     if \<not> cont b3 then (None, 1)
                     else (case bs3 of [] \<Rightarrow> (None, 2)
                           | b4 # _ \<Rightarrow>
                              if cont b4
                              then (Some ((b - 240) * 262144 + (b2 - 128) * 4096 + (b3 - 128) * 64
                                          + (b4 - 128)), 3)
                              else (None, 2))))
      else (None, 0))"

function utf8_dec :: "bytes \<Rightarrow> nat option list" where
  "utf8_dec [] = []"
| "utf8_dec (b # bs) = (let (x, k) = utf8_step b bs in x # utf8_dec (drop k bs))"
  by pat_completeness auto
termination
  by (relation "measure length") auto

definition decode_replace :: "bytes \<Rightarrow> pystr" where
  "decode_replace bs = map (\<lambda>x. case x of None \<Rightarrow> 65533 | Some c \<Rightarrow> c) (utf8_dec bs)"

definition decode_strict :: "bytes \<Rightarrow> codec_error + pystr" where
  "decode_strict bs = (case those (utf8_dec bs) of None \<Rightarrow> Inl UnicodeDecodeError | Some s \<Rightarrow> Inr s)"

text \<open>The code points a Python \<open>str\<close> can hold: every one is below \<open>0x110000\<close>.\<close>

definition valid_str :: "pystr \<Rightarrow> bool" where
  "valid_str s \<longleftrightarrow> list_all (\<lambda>c. c < 1114112) s"

subsection \<open>Arithmetic of the byte layout\<close>

lemma div_4096: "(c::nat) div 4096 = c div 64 div 64"
  using div_mult2_eq [of c 64 64] by simp
lemma div_262144: "(c::nat) div 262144 = c div 4096 div 64"
  using div_mult2_eq [of c 4096 64] by simp
lemma e3: "(c::nat) div 4096 * 4096 + c div 64 mod 64 * 64 + c mod 64 = c"
  using div_mult_mod_eq [of "c div 64" 64] div_mult_mod_eq [of c 64] div_4096 [of c] by linarith
lemma d3: "(c::nat) < 55296 \<Longrightarrow> c div 4096 = 13 \<Longrightarrow> c div 64 mod 64 < 32"
proof -
  assume "c < 55296" "c div 4096 = 13"
  moreover have "c < 55296 \<Longrightarrow> c div 64 < 864" by (rule less_mult_imp_div_less) simp
  ultimately show ?thesis using div_mult_mod_eq [of "c div 64" 64] div_4096 [of c] by linarith
qed
lemma e4: "(c::nat) div 262144 * 262144 + c div 4096 mod 64 * 4096 + c div 64 mod 64 * 64 + c mod 64 = c"
  using div_mult_mod_eq [of "c div 4096" 64] e3 [of c] div_262144 [of c] by linarith
lemma d4: "(c::nat) < 1114112 \<Longrightarrow> c div 262144 = 4 \<Longrightarrow> c div 4096 mod 64 < 16"
proof -
  assume "c < 1114112" "c div 262144 = 4"
  moreover have "c < 1114112 \<Longrightarrow> c div 4096 < 272" by (rule less_mult_imp_div_less) simp
  ultimately show ?thesis using div_mult_mod_eq [of "c div 4096" 64] div_262144 [of c] by linarith
qed
lemma a4: "(c::nat) < 1114112 \<Longrightarrow> c div 262144 \<le> 4"
  using less_mult_imp_div_less [of c 5 262144] by simp
lemma b4: "65536 \<le> (c::nat) \<Longrightarrow> 16 \<le> c div 4096"
  using div_le_mono [of 65536 c 4096] by simp
lemma b3: "2048 \<le> (c::nat) \<Longrightarrow> 32 \<le> c div 64"
  using div_le_mono [of 2048 c 64] by simp

subsection \<open>Round trips\<close>

lemma utf8_step_char:
  assumes "scalar_value c"
  shows "utf8_dec (utf8_char c @ rest) = Some c # utf8_dec rest"
proof -
  from assms have lt: "c < 1114112" and ns: "\<not> is_surrogate c" by (auto simp: scalar_value_def)
  consider "c < 128" | "128 \<le> c" "c < 2048" | "2048 \<le> c" "c < 65536" | "65536 \<le> c"
    by linarith
  then show ?thesis
  proof cases
    case 1
    then show ?thesis by (simp add: utf8_char_def utf8_step_def)
  next
    case 2
    have "2 \<le> c div 64" "c div 64 < 32" using 2 by auto
    then show ?thesis using 2
      by (simp add: utf8_char_def utf8_step_def cont_def)
  next
    case 3
    have a: "c div 4096 < 16" using 3 by auto
    have b: "0 < c div 4096 \<or> \<not> c div 64 mod 64 < 32"
      using div_mult_mod_eq [of "c div 64" 64] div_4096 [of c] b3 [of c] 3 by linarith
    have d: "c div 4096 = 13 \<longrightarrow> \<not> 32 \<le> c div 64 mod 64"
      using 3 ns d3 [of c] by (auto simp: is_surrogate_def)
    show ?thesis using 3 a b d e3 [of c]
      by (simp add: utf8_char_def utf8_step_def cont_def)
  next
    case 4
    have b: "0 < c div 262144 \<or> \<not> c div 4096 mod 64 < 16"
      using div_mult_mod_eq [of "c div 4096" 64] div_262144 [of c] b4 [of c] 4 by linarith
    have d: "c div 262144 = 4 \<longrightarrow> \<not> 16 \<le> c div 4096 mod 64" using d4 [OF lt] by auto
    show ?thesis using 4 a4 [OF lt] b d e4 [of c]
      by (simp add: utf8_char_def utf8_step_def cont_def)
  qed
qed

lemma utf8_dec_encode:
  "\<forall>c\<in>set s. scalar_value c \<Longrightarrow> utf8_dec (concat (map utf8_char s)) = map Some s"
  by (induction s) (simp_all add: utf8_step_char)

lemma those_Some_map: "those (map Some xs) = Some xs"
  by (induction xs) auto

lemma decode_strict_encode:
  "\<forall>c\<in>set s. scalar_value c \<Longrightarrow> encode_strict s = Inr bs \<Longrightarrow> decode_strict bs = Inr s"
  by (auto simp: encode_strict_def decode_strict_def utf8_dec_encode those_Some_map split: if_splits)

lemma decode_replace_encode_ignore:
  "\<forall>c\<in>set s. c < 1114112 \<Longrightarrow> decode_replace (encode_ignore s) = filter (\<lambda>c. \<not> is_surrogate c) s"
proof -
  assume "\<forall>c\<in>set s. c < 1114112"
  then have "\<forall>c\<in>set (filter (\<lambda>c. \<not> is_surrogate c) s). scalar_value c"
    by (auto simp: scalar_value_def)
  then show ?thesis
    by (simp add: decode_replace_def encode_ignore_def utf8_dec_encode comp_def)
qed

lemma encode_strict_ok:
  "\<not> list_ex is_surrogate s \<Longrightarrow> encode_strict s = Inr (encode_ignore s)"
  by (simp add: encode_strict_def encode_ignore_def list_ex_iff)

lemma utf8_char_below_256: "c < 1114112 \<Longrightarrow> b \<in> set (utf8_char c) \<Longrightarrow> b < 256"
  by (auto simp: utf8_char_def split: if_splits)

lemma decode_replace_ascii: "\<forall>c\<in>set q. c < 128 \<Longrightarrow> decode_replace q = q"
  by (induction q) (simp_all add: decode_replace_def utf8_step_def)

lemma decode_replace_encode:
  "\<forall>c\<in>set s. scalar_value c \<Longrightarrow> decode_replace (concat (map utf8_char s)) = s"
  by (simp add: decode_replace_def utf8_dec_encode comp_def)

lemma utf8_step_bound: "utf8_step b bs = (Some c, k) \<Longrightarrow> c < 1114112"
  by (auto simp: utf8_step_def cont_def split: if_splits list.splits)

lemma utf8_dec_bound: "Some c \<in> set (utf8_dec bs) \<Longrightarrow> c < 1114112"
proof (induction bs rule: utf8_dec.induct)
  case 1
  then show ?case by simp
next
  case (2 b bs)
  obtain x k where st: "utf8_step b bs = (x, k)"
    by fastforce
  with 2 show ?case
    by (auto dest: utf8_step_bound)
qed

lemma decode_replace_valid: "valid_str (decode_replace bs)"
  by (auto simp: decode_replace_def valid_str_def list_all_iff utf8_dec_bound split: option.splits)

end
