(* ===== verification/UrlParse.thy ===== *)
theory UrlParse
  imports Utf8
begin

text \<open>
  The parts of \<^verbatim>\<open>urllib.parse\<close> (and of \<^verbatim>\<open>ipaddress\<close>, which \<open>urlsplit\<close>
  calls on bracketed hosts) that the crawler uses, after CPython 3.11.10:
  \<open>urlsplit\<close>/\<open>urlunsplit\<close>, \<open>urlparse\<close>/\<open>urlunparse\<close>, \<open>unquote\<close>,
  \<open>quote\<close>, \<open>quote_plus\<close>, \<open>urlencode\<close> and \<open>parse_qsl\<close>. The only exception
  \<open>urlsplit\<close> raises is \<open>ValueError\<close>; the only one \<open>quote\<close> raises is the
  \<open>UnicodeEncodeError\<close> of a lone surrogate.

  \<open>_checknetloc\<close> compares a non-ASCII netloc with its NFKC normal form. Canonical
  composition never produces the ASCII characters \<open>/?#@:\<close>, so the check raises
  exactly when the netloc, without \<open>@:#?\<close>, holds one of the 19 code points whose
  compatibility decomposition contains one of them (computed from Unicode 14.0, the
  database of CPython 3.11.10); \<open>nfkc_delim\<close> lists them.
\<close>

datatype url_error = ValueError | EncodeError

record split_result =
  scheme :: pystr
  netloc :: pystr
  path :: pystr
  query :: pystr
  fragment :: pystr

subsection \<open>Character sets\<close>

definition scheme_char :: "nat \<Rightarrow> bool" where
  "scheme_char c \<longleftrightarrow> ascii_alpha c \<or> ascii_digit c \<or> c = 43 \<or> c = 45 \<or> c = 46"

definition hex_digit :: "nat \<Rightarrow> bool" where
  "hex_digit c \<longleftrightarrow> ascii_digit c \<or> (65 \<le> c \<and> c \<le> 70) \<or> (97 \<le> c \<and> c \<le> 102)"

definition nfkc_delim :: "nat \<Rightarrow> bool" where
  "nfkc_delim c \<longleftrightarrow> c \<in> {8263, 8264, 8265, 8448, 8449, 8453, 8454, 10868, 65043, 65046,
     65109, 65110, 65119, 65131, 65283, 65295, 65306, 65311, 65312}"

definition uses_netloc :: "pystr list" where
  "uses_netloc = [] # map py [''ftp'', ''http'', ''gopher'', ''nntp'', ''telnet'',
     ''imap'', ''wais'', ''file'', ''mms'', ''https'', ''shttp'',
     ''snews'', ''prospero'', ''rtsp'', ''rtsps'', ''rtspu'', ''rsync'',
     ''svn'', ''svn+ssh'', ''sftp'', ''nfs'', ''git'', ''git+ssh'', ''ws'', ''wss'']"

definition uses_params :: "pystr list" where
  "uses_params = [] # map py [''ftp'', ''hdl'', ''prospero'', ''http'', ''imap'',
     ''https'', ''shttp'', ''rtsp'', ''rtsps'', ''rtspu'', ''sip'',
     ''sips'', ''mms'', ''sftp'', ''tel'']"

subsection \<open>ipaddress: the addresses \<open>_check_bracketed_host\<close> accepts\<close>

definition dec_value :: "pystr \<Rightarrow> nat" where
  "dec_value ds = foldl (\<lambda>a d. 10 * a + (d - 48)) 0 ds"

text \<open>\<open>IPv4Address._parse_octet\<close> succeeds.\<close>

definition octet_ok :: "pystr \<Rightarrow> bool" where
  "octet_ok d \<longleftrightarrow> d \<noteq> [] \<and> list_all ascii_digit d \<and> length d \<le> 3 \<and>
     (d = [48] \<or> hd d \<noteq> 48) \<and> dec_value d \<le> 255"

text \<open>\<open>IPv4Address(s)\<close> succeeds.\<close>

definition ipv4_ok :: "pystr \<Rightarrow> bool" where
  "ipv4_ok s \<longleftrightarrow> 47 \<notin> set s \<and> s \<noteq> [] \<and>
     (let os = py_split 46 s in length os = 4 \<and> list_all octet_ok os)"

definition hextet_ok :: "pystr \<Rightarrow> bool" where
  "hextet_ok h \<longleftrightarrow> list_all hex_digit h \<and> length h \<le> 4 \<and> h \<noteq> []"

text \<open>
  \<open>IPv6Address._ip_int_from_string\<close> succeeds: at least three parts, an IPv4
  suffix counted as two hextets, at most nine parts, at most one interior \<open>::\<close>,
  and every hextet it reads one to four hex digits.
\<close>

definition ipv6_parts_ok :: "pystr list \<Rightarrow> bool" where
  "ipv6_parts_ok parts \<longleftrightarrow>
     (let n = length parts; empties = filter (\<lambda>i. parts ! i = []) [1..<n - 1] in
      n \<le> 9 \<and>
      (case empties of
         [] \<Rightarrow> n = 8 \<and> parts ! 0 \<noteq> [] \<and> parts ! (n - 1) \<noteq> [] \<and> list_all hextet_ok parts
       | [k] \<Rightarrow>
           (let hi = (if parts ! 0 = [] then k - 1 else k);
                lo = (if parts ! (n - 1) = [] then n - k - 2 else n - k - 1) in
            (parts ! 0 = [] \<longrightarrow> k = 1) \<and> (parts ! (n - 1) = [] \<longrightarrow> n - k - 1 = 1) \<and>
            hi + lo < 8 \<and> list_all hextet_ok (take hi parts) \<and>
            list_all hextet_ok (drop (n - lo) parts))
       | _ \<Rightarrow> False))"

definition ipv6_addr_ok :: "pystr \<Rightarrow> bool" where
  "ipv6_addr_ok a \<longleftrightarrow> a \<noteq> [] \<and>
     (let p0 = py_split 58 a; v4 = 46 \<in> set (last p0) in
      3 \<le> length p0 \<and> (v4 \<longrightarrow> ipv4_ok (last p0)) \<and>
      ipv6_parts_ok (if v4 then butlast p0 @ [[48], [48]] else p0))"

text \<open>\<open>IPv6Address(s)\<close> succeeds (\<open>_split_scope_id\<close>, then the address).\<close>

definition ipv6_ok :: "pystr \<Rightarrow> bool" where
  "ipv6_ok s \<longleftrightarrow> 47 \<notin> set s \<and>
     (case py_partition 37 s of (a, sep, sc) \<Rightarrow>
        (\<not> sep \<or> (sc \<noteq> [] \<and> 37 \<notin> set sc)) \<and> ipv6_addr_ok a)"

text \<open>
  \<open>_check_bracketed_host\<close>: an IPvFuture literal matching \<open>\Av[a-fA-F0-9]+\..+\Z\<close>
  (the final \<open>.+\<close> excludes newlines), or an address \<open>ip_address\<close> accepts that
  is not IPv4.
\<close>

definition ipvfuture_ok :: "pystr \<Rightarrow> bool" where
  "ipvfuture_ok s \<longleftrightarrow>
     (let r = tl s; h = takeWhile hex_digit r; t = dropWhile hex_digit r in
      h \<noteq> [] \<and> t \<noteq> [] \<and> hd t = 46 \<and> tl t \<noteq> [] \<and> 10 \<notin> set (tl t))"

definition check_bracketed_host :: "pystr \<Rightarrow> bool" where
  "check_bracketed_host h =
     (if starts_with [118] h then ipvfuture_ok h else \<not> ipv4_ok h \<and> ipv6_ok h)"

definition checknetloc :: "pystr \<Rightarrow> bool" where
  "checknetloc nl \<longleftrightarrow> \<not> list_ex (\<lambda>c. nfkc_delim c) (filter (\<lambda>c. c \<notin> {64, 58, 35, 63}) nl)"

subsection \<open>urlsplit and urlunsplit\<close>

definition url_delim :: "nat \<Rightarrow> bool" where
  "url_delim c \<longleftrightarrow> c = 47 \<or> c = 63 \<or> c = 35"

text \<open>The scheme test of \<open>urlsplit\<close>: a non-empty run of scheme characters starting
  with an ASCII letter before the first colon is the scheme, lower-cased.\<close>

definition split_scheme :: "pystr \<Rightarrow> pystr \<times> pystr" where
  "split_scheme url =
     (case py_partition 58 url of (pre, has_colon, post) \<Rightarrow>
        if has_colon \<and> pre \<noteq> [] \<and> ascii_alpha (hd pre) \<and> list_all scheme_char pre
        then (py_lower pre, post) else ([], url))"

text \<open>\<open>_splitnetloc(url, 2)\<close>: the network location runs to the first \<open>/?#\<close>.\<close>

definition splitnetloc :: "pystr \<Rightarrow> pystr \<times> pystr" where
  "splitnetloc url =
     (takeWhile (\<lambda>c. \<not> url_delim c) (drop 2 url), dropWhile (\<lambda>c. \<not> url_delim c) (drop 2 url))"

text \<open>The checks that make \<open>urlsplit\<close> raise \<open>ValueError\<close>: unbalanced brackets, a
  bracketed host \<open>_check_bracketed_host\<close> refuses, and \<open>_checknetloc\<close>.\<close>

definition netloc_valid :: "pystr \<Rightarrow> bool" where
  "netloc_valid nl \<longleftrightarrow>
     (let ob = 91 \<in> set nl; cb = 93 \<in> set nl in
      \<not> ((ob \<and> \<not> cb) \<or> (cb \<and> \<not> ob)) \<and>
      (ob \<and> cb \<longrightarrow> check_bracketed_host (fst (py_partition 93 (snd (snd (py_partition 91 nl)))))) \<and>
      checknetloc nl)"

text \<open>\<open>urlsplit(url)\<close>, with \<open>scheme=''\<close> and \<open>allow_fragments=True\<close>.\<close>

definition urlsplit :: "pystr \<Rightarrow> url_error + split_result" where
  "urlsplit url0 =
     (let url1 = filter (\<lambda>c. c \<notin> {9, 13, 10}) (lstrip_by (\<lambda>c. c \<le> 32) url0);
          (sch, url2) = split_scheme url1;
          (nl, url3) = (if take 2 url2 = [47, 47] then splitnetloc url2 else ([], url2));
          (url4, _, frag) = py_partition 35 url3;
          (pth, _, qry) = py_partition 63 url4
      in if \<not> netloc_valid nl then Inl ValueError
         else Inr \<lparr>scheme = sch, netloc = nl, path = pth, query = qry, fragment = frag\<rparr>)"

definition urlunsplit :: "split_result \<Rightarrow> pystr" where
  "urlunsplit r =
     (let u0 = path r;
          u1 = (if netloc r \<noteq> [] \<or> (scheme r \<noteq> [] \<and> scheme r \<in> set uses_netloc) \<or> take 2 u0 = [47, 47]
                then [47, 47] @ netloc r @ (if u0 \<noteq> [] \<and> take 1 u0 \<noteq> [47] then 47 # u0 else u0)
                else u0);
          u2 = (if scheme r \<noteq> [] then scheme r @ [58] @ u1 else u1);
          u3 = (if query r \<noteq> [] then u2 @ [63] @ query r else u2)
      in if fragment r \<noteq> [] then u3 @ [35] @ fragment r else u3)"

text \<open>\<open>urlparse\<close> adds the \<open>;params\<close> of the last path segment (\<open>_splitparams\<close>).\<close>

definition splitparams :: "pystr \<Rightarrow> pystr \<times> pystr" where
  "splitparams u =
     (if 47 \<in> set u then
        (let j = length u - 1 - length (takeWhile (\<lambda>c. c \<noteq> 47) (rev u));
             i = j + length (takeWhile (\<lambda>c. c \<noteq> 59) (drop j u)) in
         if i < length u then (take i u, drop (Suc i) u) else (u, []))
      else (let i = length (takeWhile (\<lambda>c. c \<noteq> 59) u) in
            if i < length u then (take i u, drop (Suc i) u) else (u, [])))"

record parse_result = split_result + params :: pystr

definition urlparse :: "pystr \<Rightarrow> url_error + parse_result" where
  "urlparse url =
     (case urlsplit url of Inl e \<Rightarrow> Inl e
      | Inr r \<Rightarrow>
          (let (p, ps) = (if scheme r \<in> set uses_params \<and> 59 \<in> set (path r) then splitparams (path r)
                          else (path r, [])) in
           Inr \<lparr>scheme = scheme r, netloc = netloc r, path = p, query = query r,
                fragment = fragment r, params = ps\<rparr>))"

definition urlunparse :: "parse_result \<Rightarrow> pystr" where
  "urlunparse r =
     urlunsplit \<lparr>scheme = scheme r, netloc = netloc r,
       path = (if params r \<noteq> [] then path r @ [59] @ params r else path r),
       query = query r, fragment = fragment r\<rparr>"


subsection \<open>Percent-decoding\<close>

definition hex_value :: "nat \<Rightarrow> nat" where
  "hex_value c = (if ascii_digit c then c - 48 else if c \<le> 70 then c - 55 else c - 87)"

text \<open>One \<open>%\<close>-item of \<open>unquote_to_bytes\<close>: two hex digits become a byte, otherwise the
  \<open>%\<close> stays.\<close>

definition unquote_item :: "pystr \<Rightarrow> bytes" where
  "unquote_item it =
     (if 2 \<le> length it \<and> hex_digit (it ! 0) \<and> hex_digit (it ! 1)
      then (16 * hex_value (it ! 0) + hex_value (it ! 1)) # drop 2 it
      else 37 # it)"

text \<open>\<open>unquote_to_bytes\<close> on an ASCII run (its UTF-8 encoding is itself).\<close>

definition unquote_to_bytes :: "pystr \<Rightarrow> bytes" where
  "unquote_to_bytes s = (let bits = py_split 37 s in hd bits @ concat (map unquote_item (tl bits)))"

text \<open>
  \<open>unquote\<close> splits the string into maximal ASCII runs (\<open>_asciire\<close>), decodes the
  percent escapes of each run and decodes the bytes as UTF-8 with \<open>errors='replace'\<close>;
  non-ASCII code points pass through.
\<close>

function unquote_runs :: "pystr \<Rightarrow> pystr" where
  "unquote_runs [] = []"
| "unquote_runs (c # cs) =
     (if c < 128
      then decode_replace (unquote_to_bytes (c # takeWhile (\<lambda>x. x < 128) cs))
           @ unquote_runs (dropWhile (\<lambda>x. x < 128) cs)
      else c # unquote_runs cs)"
  by pat_completeness auto
termination
  by (relation "measure length") (auto simp: le_imp_less_Suc length_dropWhile_le)

definition unquote :: "pystr \<Rightarrow> pystr" where
  "unquote s = (if 37 \<notin> set s then s else unquote_runs s)"

definition unquote_plus :: "pystr \<Rightarrow> pystr" where
  "unquote_plus s = unquote (map (\<lambda>c. if c = 43 then 32 else c) s)"

subsection \<open>Percent-encoding\<close>

definition always_safe :: "nat \<Rightarrow> bool" where
  "always_safe b \<longleftrightarrow> ascii_alpha b \<or> ascii_digit b \<or> b = 95 \<or> b = 46 \<or> b = 45 \<or> b = 126"

definition hex_upper :: "nat \<Rightarrow> nat" where
  "hex_upper d = (if d < 10 then 48 + d else 55 + d)"

text \<open>\<open>quote_from_bytes(bs, safe)\<close>: the \<open>_Quoter\<close> maps a safe byte to itself and
  every other byte to \<open>%XX\<close> in upper-case hex.\<close>

definition quote_from_bytes :: "pystr \<Rightarrow> bytes \<Rightarrow> pystr" where
  "quote_from_bytes safe bs =
     concat (map (\<lambda>b. if always_safe b \<or> b \<in> set safe then [b]
                      else [37, hex_upper (b div 16), hex_upper (b mod 16)]) bs)"

definition quote :: "pystr \<Rightarrow> pystr \<Rightarrow> url_error + pystr" where
  "quote safe s =
     (if s = [] then Inr []
      else case encode_strict s of
             Inl _ \<Rightarrow> Inl EncodeError
           | Inr bs \<Rightarrow> Inr (quote_from_bytes (filter (\<lambda>c. c < 128) safe) bs))"

text \<open>\<open>quote_plus(s, safe='')\<close>: spaces are kept safe, then written \<open>+\<close>.\<close>

definition quote_plus :: "pystr \<Rightarrow> url_error + pystr" where
  "quote_plus s =
     (if 32 \<notin> set s then quote [] s
      else map_sum id (map (\<lambda>c. if c = 32 then 43 else c)) (quote [32] s))"

fun encode_pairs :: "(pystr \<times> pystr) list \<Rightarrow> url_error + pystr list" where
  "encode_pairs [] = Inr []"
| "encode_pairs ((k, v) # ps) =
     (case quote_plus k of Inl e \<Rightarrow> Inl e
      | Inr k' \<Rightarrow> (case quote_plus v of Inl e \<Rightarrow> Inl e
          | Inr v' \<Rightarrow> (case encode_pairs ps of Inl e \<Rightarrow> Inl e
              | Inr r \<Rightarrow> Inr ((k' @ [61] @ v') # r))))"

text \<open>\<open>urlencode(pairs)\<close> with \<open>doseq=False\<close>, \<open>safe=''\<close>, \<open>quote_via=quote_plus\<close>.\<close>

definition urlencode :: "(pystr \<times> pystr) list \<Rightarrow> url_error + pystr" where
  "urlencode ps = map_sum id (py_join [38]) (encode_pairs ps)"

text \<open>\<open>parse_qsl(qs, keep_blank_values)\<close> with \<open>separator='&'\<close>, no field limit and
  non-strict parsing.\<close>

definition parse_qsl :: "bool \<Rightarrow> pystr \<Rightarrow> (pystr \<times> pystr) list" where
  "parse_qsl keep qs =
     (if qs = [] then []
      else concat (map (\<lambda>nv. case py_partition 61 nv of (n, _, v) \<Rightarrow>
                              if v \<noteq> [] \<or> keep then [(unquote_plus n, unquote_plus v)] else [])
                   (filter (\<lambda>nv. nv \<noteq> []) (py_split 38 qs))))"

end
