(* ===== verification/UrlCodec.thy ===== *)
theory UrlCodec
  imports UrlParse
begin

text \<open>
  Round trips of the percent-encoding of \<^verbatim>\<open>urllib.parse\<close>: \<open>unquote_to_bytes\<close>
  inverts \<open>quote_from_bytes\<close>, \<open>unquote_plus\<close> inverts \<open>quote_plus\<close> on every
  string a Python \<open>str\<close> can hold, and \<open>parse_qsl\<close> with blank values kept reads
  back exactly the pairs \<open>urlencode\<close> wrote. The lemmas go through the equations of
  \<open>unquote_to_bytes\<close> on one character and the characters \<open>quote\<close> can produce.
\<close>

text \<open>The characters \<open>quote\<close> writes besides the safe ones.\<close>

definition quote_char :: "nat \<Rightarrow> bool" where
  "quote_char c \<longleftrightarrow> always_safe c \<or> c = 37 \<or> hex_digit c"

subsection \<open>Splitting on a separator\<close>

lemma py_split_hd: "hd (py_split c s) = takeWhile (\<lambda>x. x \<noteq> c) s"
  by (induction s) (auto simp: Let_def)

lemma py_split_append_sep: "c \<notin> set x \<Longrightarrow> py_split c (x @ c # r) = x # py_split c r"
proof (induction x)
  case Nil
  then show ?case by simp
next
  case (Cons a x)
  then show ?case by (simp add: Let_def)
qed

lemma py_split_py_join:
  "ws \<noteq> [] \<Longrightarrow> \<forall>w\<in>set ws. c \<notin> set w \<Longrightarrow> py_split c (py_join [c] ws) = ws"
  by (induction "[c]" ws rule: py_join.induct) (simp_all add: py_split_no_sep_eq py_split_append_sep)

lemma py_partition_sep: "c \<notin> set k \<Longrightarrow> py_partition c (k @ c # v) = (k, True, v)"
  by (induction k) (auto simp: py_partition_def)

subsection \<open>\<open>unquote_to_bytes\<close> one character at a time\<close>

lemma unquote_to_bytes_Nil [simp]: "unquote_to_bytes [] = []"
  by (simp add: unquote_to_bytes_def)

lemma unquote_to_bytes_Cons:
  "c \<noteq> 37 \<Longrightarrow> unquote_to_bytes (c # cs) = c # unquote_to_bytes cs"
proof -
  assume c: "c \<noteq> 37"
  obtain w ws where r: "py_split 37 cs = w # ws"
    by (cases "py_split 37 cs") auto
  with c show ?thesis
    by (simp add: unquote_to_bytes_def Let_def)
qed

lemma hex_digit_not_pct: "hex_digit a \<Longrightarrow> a \<noteq> 37"
  by (auto simp: hex_digit_def ascii_digit_def)

lemma unquote_to_bytes_escape:
  "hex_digit a \<Longrightarrow> hex_digit b \<Longrightarrow>
   unquote_to_bytes (37 # a # b # t) = (16 * hex_value a + hex_value b) # unquote_to_bytes t"
proof -
  assume a: "hex_digit a" and b: "hex_digit b"
  obtain w ws where r: "py_split 37 t = w # ws"
    by (cases "py_split 37 t") auto
  with hex_digit_not_pct [OF a] hex_digit_not_pct [OF b] a b show ?thesis
    by (simp add: unquote_to_bytes_def unquote_item_def Let_def)
qed

subsection \<open>What \<open>quote_from_bytes\<close> produces\<close>

lemma hex_upper_digit: "d < 16 \<Longrightarrow> hex_digit (hex_upper d) \<and> hex_value (hex_upper d) = d"
  by (simp add: hex_upper_def hex_digit_def hex_value_def ascii_digit_def)

lemma unquote_quote_from_bytes:
  "37 \<notin> set safe \<Longrightarrow> \<forall>b\<in>set bs. b < 256 \<Longrightarrow> unquote_to_bytes (quote_from_bytes safe bs) = bs"
proof (induction bs)
  case Nil
  then show ?case by (simp add: quote_from_bytes_def)
next
  case (Cons b bs)
  have IH: "unquote_to_bytes (quote_from_bytes safe bs) = bs"
    using Cons by simp
  have d: "b div 16 < 16" "b mod 16 < 16"
    using Cons.prems(2) by auto
  show ?case
  proof (cases "always_safe b \<or> b \<in> set safe")
    case True
    then have "b \<noteq> 37"
      using Cons.prems(1) by (auto simp: always_safe_def ascii_alpha_def ascii_digit_def)
    with True IH show ?thesis
      by (simp add: quote_from_bytes_def unquote_to_bytes_Cons)
  next
    case False
    with IH hex_upper_digit [OF d(1)] hex_upper_digit [OF d(2)] show ?thesis
      by (simp add: quote_from_bytes_def unquote_to_bytes_escape)
  qed
qed

lemma quote_from_bytes_chars:
  "x \<in> set (quote_from_bytes safe bs) \<Longrightarrow> \<forall>b\<in>set bs. b < 256 \<Longrightarrow> x \<in> set safe \<or> quote_char x"
  by (auto simp: quote_from_bytes_def quote_char_def hex_upper_digit split: if_splits)

lemma quote_char_ascii: "quote_char c \<Longrightarrow> c < 128 \<and> c \<notin> {32, 38, 43, 61}"
  by (auto simp: quote_char_def always_safe_def hex_digit_def ascii_alpha_def ascii_digit_def)

subsection \<open>\<open>unquote\<close> inverts \<open>quote\<close>\<close>

lemma unquote_runs_ascii:
  "q \<noteq> [] \<Longrightarrow> \<forall>c\<in>set q. c < 128 \<Longrightarrow> unquote_runs q = decode_replace (unquote_to_bytes q)"
  by (cases q) (simp_all add: takeWhile_eq_all_conv [THEN iffD2] dropWhile_eq_Nil_conv [THEN iffD2])

lemma unquote_to_bytes_no_pct: "37 \<notin> set q \<Longrightarrow> unquote_to_bytes q = q"
  by (simp add: unquote_to_bytes_def py_split_no_sep_eq)

lemma encode_strict_Inr:
  "encode_strict s = Inr bs \<Longrightarrow> bs = concat (map utf8_char s) \<and> \<not> list_ex is_surrogate s"
  by (simp add: encode_strict_def split: if_splits)

lemma encode_below_256: "valid_str s \<Longrightarrow> \<forall>b\<in>set (concat (map utf8_char s)). b < 256"
  by (auto simp: valid_str_def list_all_iff intro: utf8_char_below_256)

lemma quote_chars:
  "valid_str s \<Longrightarrow> quote safe s = Inr q \<Longrightarrow> x \<in> set q \<Longrightarrow> x \<in> set safe \<or> quote_char x"
  using encode_below_256 [of s]
  by (auto simp: quote_def dest!: encode_strict_Inr quote_from_bytes_chars split: if_splits sum.splits)

lemma unquote_quote:
  assumes v: "valid_str s" and safe: "37 \<notin> set safe" and q: "quote safe s = Inr q"
  shows "unquote q = s"
proof (cases "s = []")
  case True
  with q show ?thesis by (simp add: quote_def unquote_def)
next
  case False
  with q obtain bs where enc: "encode_strict s = Inr bs"
    and qbs: "q = quote_from_bytes (filter (\<lambda>c. c < 128) safe) bs"
    by (auto simp: quote_def split: sum.splits)
  from encode_strict_Inr [OF enc] have bs: "bs = concat (map utf8_char s)"
    and ns: "\<not> list_ex is_surrogate s" by simp_all
  have sc: "\<forall>c\<in>set s. scalar_value c"
    using v ns by (auto simp: valid_str_def scalar_value_def list_all_iff list_ex_iff)
  have b256: "\<forall>b\<in>set bs. b < 256"
    using encode_below_256 [OF v] bs by simp
  have ub: "unquote_to_bytes q = bs"
    using qbs safe b256 by (simp add: unquote_quote_from_bytes)
  have dec: "decode_replace bs = s"
    using bs sc by (simp add: decode_replace_encode)
  have asc: "\<forall>c\<in>set q. c < 128"
    using qbs b256 by (auto dest!: quote_from_bytes_chars quote_char_ascii)
  show ?thesis
  proof (cases "37 \<in> set q")
    case True
    then have "q \<noteq> []" by auto
    with True asc ub dec show ?thesis
      by (simp add: unquote_def unquote_runs_ascii)
  next
    case False
    then have "q = bs"
      using ub by (simp add: unquote_to_bytes_no_pct)
    with False asc dec show ?thesis
      by (simp add: unquote_def decode_replace_ascii)
  qed
qed

lemma quote_plus_chars:
  "valid_str s \<Longrightarrow> quote_plus s = Inr q \<Longrightarrow> x \<in> set q \<Longrightarrow> x = 43 \<or> quote_char x"
proof (cases "32 \<in> set s")
  case True
  assume v: "valid_str s" and q: "quote_plus s = Inr q" and x: "x \<in> set q"
  with True obtain q0 where q0: "quote [32] s = Inr q0"
    and qq: "q = map (\<lambda>c. if c = 32 then 43 else c) q0"
    by (cases "quote [32] s") (auto simp: quote_plus_def)
  from x qq obtain y where "y \<in> set q0" "x = (if y = 32 then 43 else y)"
    by auto
  with quote_chars [OF v q0] show ?thesis
    by auto
qed (auto simp: quote_plus_def dest: quote_chars)

lemma unquote_plus_quote_plus:
  assumes v: "valid_str s" and q: "quote_plus s = Inr q"
  shows "unquote_plus q = s"
proof (cases "32 \<in> set s")
  case False
  with q have q0: "quote [] s = Inr q"
    by (simp add: quote_plus_def)
  have "\<forall>x\<in>set q. x \<noteq> 43"
    using quote_chars [OF v q0] quote_char_ascii by fastforce
  then have "map (\<lambda>c. if c = 43 then 32 else c) q = q"
    by (simp add: map_idI)
  with unquote_quote [OF v _ q0] show ?thesis
    by (simp add: unquote_plus_def)
next
  case True
  with q obtain q0 where q0: "quote [32] s = Inr q0"
    and qq: "q = map (\<lambda>c. if c = 32 then 43 else c) q0"
    by (cases "quote [32] s") (auto simp: quote_plus_def)
  have "\<forall>x\<in>set q0. x \<noteq> 43"
    using quote_chars [OF v q0] quote_char_ascii by fastforce
  then have "map (\<lambda>c. if c = 43 then 32 else c) q = q0"
    unfolding qq by (induction q0) auto
  with unquote_quote [OF v _ q0] show ?thesis
    by (simp add: unquote_plus_def)
qed

subsection \<open>\<open>parse_qsl\<close> reads back what \<open>urlencode\<close> writes\<close>

lemma encode_pairs_parse:
  "encode_pairs ps = Inr ws \<Longrightarrow> list_all (\<lambda>(k, v). valid_str k \<and> valid_str v) ps \<Longrightarrow>
   (\<forall>w\<in>set ws. w \<noteq> [] \<and> 38 \<notin> set w) \<and> length ws = length ps \<and>
   concat (map (\<lambda>nv. case py_partition 61 nv of (n, _, v) \<Rightarrow> [(unquote_plus n, unquote_plus v)]) ws) = ps"
proof (induction ps arbitrary: ws rule: encode_pairs.induct)
  case 1
  then show ?case by simp
next
  case (2 k v ps)
  from "2.prems"(1) obtain k' v' r where k': "quote_plus k = Inr k'" and v': "quote_plus v = Inr v'"
    and r: "encode_pairs ps = Inr r" and ws: "ws = (k' @ [61] @ v') # r"
    by (auto split: sum.splits)
  have vk: "valid_str k" and vv: "valid_str v"
    and vps: "list_all (\<lambda>(k, v). valid_str k \<and> valid_str v) ps"
    using "2.prems"(2) by simp_all
  have "61 \<notin> set k'" "38 \<notin> set k'" "38 \<notin> set v'"
    using quote_plus_chars [OF vk k'] quote_plus_chars [OF vv v'] quote_char_ascii by fastforce+
  with "2.IH" [OF k' v' r vps] ws unquote_plus_quote_plus [OF vk k'] unquote_plus_quote_plus [OF vv v']
  show ?case
    by (simp add: py_partition_sep)
qed

lemma py_join_nonempty: "ws \<noteq> [] \<Longrightarrow> hd ws \<noteq> [] \<Longrightarrow> py_join sep ws \<noteq> []"
  by (induction sep ws rule: py_join.induct) auto

lemma parse_qsl_urlencode:
  assumes v: "list_all (\<lambda>(k, v). valid_str k \<and> valid_str v) ps" and q: "urlencode ps = Inr q"
  shows "parse_qsl True q = ps"
proof -
  from q obtain ws where ws: "encode_pairs ps = Inr ws" and qws: "q = py_join [38] ws"
    by (cases "encode_pairs ps") (auto simp: urlencode_def)
  note e = encode_pairs_parse [OF ws v]
  show ?thesis
  proof (cases "ws = []")
    case True
    with e qws show ?thesis by (simp add: parse_qsl_def)
  next
    case False
    with e have "q \<noteq> []"
      unfolding qws by (intro py_join_nonempty) (auto simp: hd_in_set)
    with False e show ?thesis
      by (simp add: parse_qsl_def qws py_split_py_join filter_True)
  qed
qed

text \<open>The equations that evaluate \<open>urlsplit\<close> and the query functions on literals.\<close>

lemmas urlsplit_eval = urlsplit_def split_scheme_def splitnetloc_def netloc_valid_def py_partition_def ascii_alpha_def scheme_char_def ascii_digit_def
  py_lower_def py_lower_char_def lstrip_by_def url_delim_def checknetloc_def nfkc_delim_def

lemmas query_eval = parse_qsl_def py_partition_def unquote_plus_def unquote_def urlencode_def
  quote_plus_def quote_def encode_strict_def quote_from_bytes_def always_safe_def ascii_alpha_def
  ascii_digit_def utf8_char_def hex_upper_def is_surrogate_def valid_str_def

subsection \<open>The strings \<open>urlsplit\<close> and \<open>parse_qsl\<close> return are Python strings\<close>

lemma valid_str_subset: "valid_str s \<Longrightarrow> set t \<subseteq> set s \<Longrightarrow> valid_str t"
  by (auto simp: valid_str_def list_all_iff)

lemma py_split_chars: "w \<in> set (py_split c s) \<Longrightarrow> set w \<subseteq> set s"
proof (induction s arbitrary: w)
  case Nil
  then show ?case by simp
next
  case (Cons x xs)
  obtain v vs where r: "py_split c xs = v # vs"
    by (cases "py_split c xs") auto
  with Cons show ?case
    by (fastforce simp: Let_def split: if_splits)
qed

lemma py_partition_chars:
  "py_partition c s = (a, h, b) \<Longrightarrow> set a \<subseteq> set s \<and> set b \<subseteq> set s"
  by (auto dest!: py_partition_parts)

lemma unquote_runs_valid: "valid_str s \<Longrightarrow> valid_str (unquote_runs s)"
proof (induction s rule: unquote_runs.induct)
  case 1
  then show ?case by simp
next
  case (2 c cs)
  have "valid_str (dropWhile (\<lambda>x. x < 128) cs)" "valid_str cs"
    using "2.prems" by (auto simp: valid_str_def list_all_iff dest: set_dropWhileD)
  with 2 decode_replace_valid show ?case
    by (simp add: valid_str_def)
qed

lemma unquote_plus_valid: "valid_str s \<Longrightarrow> valid_str (unquote_plus s)"
  by (auto simp: unquote_plus_def unquote_def valid_str_def list_all_iff
           intro!: unquote_runs_valid [unfolded valid_str_def list_all_iff])

lemma parse_qsl_valid:
  "valid_str qs \<Longrightarrow> list_all (\<lambda>(k, v). valid_str k \<and> valid_str v) (parse_qsl keep qs)"
proof -
  assume v: "valid_str qs"
  have pv: "valid_str (unquote_plus n) \<and> valid_str (unquote_plus w)"
    if nv: "nv \<in> set (py_split 38 qs)" and p: "py_partition 61 nv = (n, h, w)" for nv n h w
  proof -
    have "set n \<subseteq> set qs" "set w \<subseteq> set qs"
      using py_split_chars [OF nv] py_partition_chars [OF p] by auto
    with v show ?thesis
      by (auto intro: unquote_plus_valid valid_str_subset)
  qed
  have "case x of (k, v) \<Rightarrow> valid_str k \<and> valid_str v" if x: "x \<in> set (parse_qsl keep qs)" for x
  proof -
    from x obtain nv n h w where "nv \<in> set (py_split 38 qs)" "py_partition 61 nv = (n, h, w)"
      and "x = (unquote_plus n, unquote_plus w)"
      by (auto simp: parse_qsl_def split: if_splits prod.split_asm) (metis)+
    with pv show ?thesis by simp
  qed
  then show ?thesis
    by (simp add: list_all_iff)
qed

lemma split_scheme_chars: "split_scheme u = (sch, u2) \<Longrightarrow> set u2 \<subseteq> set u"
  by (auto simp: split_scheme_def dest: py_partition_chars split: prod.splits if_splits)

lemma splitnetloc_chars:
  "splitnetloc u = (n, u3) \<Longrightarrow> set n \<subseteq> set u \<and> set u3 \<subseteq> set u \<and> (\<forall>c\<in>set n. \<not> url_delim c)"
  by (auto simp: splitnetloc_def dest: set_takeWhileD set_dropWhileD in_set_dropD)

text \<open>What a successful \<open>urlsplit\<close> guarantees of its parts.\<close>

lemma urlsplit_Inr:
  assumes "urlsplit u = Inr r"
  shows "netloc_valid (netloc r) \<and> (\<forall>c\<in>set (netloc r). c \<notin> {9, 13, 10} \<and> \<not> url_delim c) \<and>
         set (query r) \<subseteq> set u"
proof -
  define url1 where "url1 = filter (\<lambda>c. c \<notin> {9, 13, 10}) (lstrip_by (\<lambda>c. c \<le> 32) u)"
  obtain sch url2 where s2: "split_scheme url1 = (sch, url2)"
    by fastforce
  obtain nl url3 where s3: "(if take 2 url2 = [47, 47] then splitnetloc url2 else ([], url2)) = (nl, url3)"
    by fastforce
  obtain url4 h1 frag where s4: "py_partition 35 url3 = (url4, h1, frag)"
    by (metis prod_cases3)
  obtain pth h2 qry where s5: "py_partition 63 url4 = (pth, h2, qry)"
    by (metis prod_cases3)
  have r: "netloc_valid nl \<and> r = \<lparr>scheme = sch, netloc = nl, path = pth, query = qry, fragment = frag\<rparr>"
    using assms unfolding urlsplit_def Let_def url1_def [symmetric]
    by (simp add: s2 s3 s4 s5 split: if_splits)
  have u1: "set url1 \<subseteq> set u" "\<forall>c\<in>set url1. c \<notin> {9, 13, 10}"
    by (auto simp: url1_def lstrip_by_def dest: set_dropWhileD)
  have u2: "set url2 \<subseteq> set url1"
    using s2 by (rule split_scheme_chars)
  have u3: "set nl \<subseteq> set url2 \<and> set url3 \<subseteq> set url2 \<and> (\<forall>c\<in>set nl. \<not> url_delim c)"
    using s3 by (auto split: if_splits dest: splitnetloc_chars)
  have "set qry \<subseteq> set url3"
    using py_partition_chars [OF s4] py_partition_chars [OF s5] by auto
  then have q: "set qry \<subseteq> set u"
    using u1 u2 u3 by blast
  have "set nl \<subseteq> set url1"
    using u2 u3 by blast
  with r u1(2) u3 q show ?thesis
    by auto
qed

lemma urlsplit_query_chars: "urlsplit url = Inr r \<Longrightarrow> set (query r) \<subseteq> set url"
  by (simp add: urlsplit_Inr)

end
