(* ===== verification/Sha256.thy ===== *)
theory Sha256
  imports Prelude
begin

unbundle bit_operations_syntax

text \<open>
  SHA-256 (FIPS 180-4), the digest behind \<open>hashlib.sha256\<close> in
  \<^verbatim>\<open>core/dedup.py\<close>. The message is a list of bytes; padding appends \<open>0x80\<close>, zero
  bytes up to 56 modulo 64 and the 64-bit big-endian bit length; each 64-byte block
  is expanded to the 64-word message schedule and compressed into the eight working
  variables. Words are \<open>32 word\<close>, so additions wrap modulo \<open>2^32\<close> as the standard
  requires; the working variables are an 8-tuple, so the digest has 32 bytes by
  construction.
\<close>

type_synonym w32 = "32 word"
type_synonym hstate = "w32 \<times> w32 \<times> w32 \<times> w32 \<times> w32 \<times> w32 \<times> w32 \<times> w32"

text \<open>The round constants and the initial hash value of FIPS 180-4 (4.2.2, 5.3.3), in
  decimal.\<close>

definition sha_K :: "w32 list" where
  "sha_K = [
     1116352408, 1899447441, 3049323471, 3921009573, 961987163, 1508970993,
     2453635748, 2870763221, 3624381080, 310598401, 607225278, 1426881987,
     1925078388, 2162078206, 2614888103, 3248222580, 3835390401, 4022224774,
     264347078, 604807628, 770255983, 1249150122, 1555081692, 1996064986,
     2554220882, 2821834349, 2952996808, 3210313671, 3336571891, 3584528711,
     113926993, 338241895, 666307205, 773529912, 1294757372, 1396182291,
     1695183700, 1986661051, 2177026350, 2456956037, 2730485921, 2820302411,
     3259730800, 3345764771, 3516065817, 3600352804, 4094571909, 275423344,
     430227734, 506948616, 659060556, 883997877, 958139571, 1322822218,
     1537002063, 1747873779, 1955562222, 2024104815, 2227730452, 2361852424,
     2428436474, 2756734187, 3204031479, 3329325298]"

definition sha_H0 :: hstate where
  "sha_H0 = (
     1779033703, 3144134277, 1013904242, 2773480762,
     1359893119, 2600822924, 528734635, 1541459225)"

definition Ch :: "w32 \<Rightarrow> w32 \<Rightarrow> w32 \<Rightarrow> w32" where
  "Ch x y z = (x AND y) XOR (NOT x AND z)"

definition Maj :: "w32 \<Rightarrow> w32 \<Rightarrow> w32 \<Rightarrow> w32" where
  "Maj x y z = (x AND y) XOR (x AND z) XOR (y AND z)"

definition Sigma0 :: "w32 \<Rightarrow> w32" where
  "Sigma0 x = word_rotr 2 x XOR word_rotr 13 x XOR word_rotr 22 x"

definition Sigma1 :: "w32 \<Rightarrow> w32" where
  "Sigma1 x = word_rotr 6 x XOR word_rotr 11 x XOR word_rotr 25 x"

definition sigma0 :: "w32 \<Rightarrow> w32" where
  "sigma0 x = word_rotr 7 x XOR word_rotr 18 x XOR drop_bit 3 x"

definition sigma1 :: "w32 \<Rightarrow> w32" where
  "sigma1 x = word_rotr 17 x XOR word_rotr 19 x XOR drop_bit 10 x"

definition sha_pad :: "bytes \<Rightarrow> bytes" where
  "sha_pad m =
     (let l = length m in
      m @ [128] @ replicate ((119 - l mod 64) mod 64) 0 @ map (\<lambda>i. 8 * l div 2 ^ (8 * (7 - i)) mod 256) [0..<8])"

fun chunks :: "nat \<Rightarrow> 'a list \<Rightarrow> 'a list list" where
  "chunks n xs = (if xs = [] \<or> n = 0 then [] else take n xs # chunks n (drop n xs))"

definition be_word :: "bytes \<Rightarrow> w32" where
  "be_word bs = of_nat (foldl (\<lambda>a b. 256 * a + b) 0 bs)"

definition word_bytes :: "w32 \<Rightarrow> bytes" where
  "word_bytes w = map (\<lambda>i. unat w div 2 ^ (8 * (3 - i)) mod 256) [0..<4]"

text \<open>The message schedule: \<open>W t = \<sigma>1 (W (t-2)) + W (t-7) + \<sigma>0 (W (t-15)) + W (t-16)\<close>.\<close>

fun schedule :: "nat \<Rightarrow> w32 list \<Rightarrow> w32 list" where
  "schedule 0 ws = ws"
| "schedule (Suc n) ws =
     schedule n (ws @ [sigma1 (ws ! (length ws - 2)) + ws ! (length ws - 7)
                       + sigma0 (ws ! (length ws - 15)) + ws ! (length ws - 16)])"

definition sha_round :: "hstate \<Rightarrow> w32 \<times> w32 \<Rightarrow> hstate" where
  "sha_round st kw =
     (case st of (a, b, c, d, e, f, g, h) \<Rightarrow>
       (let t1 = h + Sigma1 e + Ch e f g + fst kw + snd kw; t2 = Sigma0 a + Maj a b c in
        (t1 + t2, a, b, c, d + t1, e, f, g)))"

definition add_state :: "hstate \<Rightarrow> hstate \<Rightarrow> hstate" where
  "add_state x y =
     (case x of (a, b, c, d, e, f, g, h) \<Rightarrow> case y of (a', b', c', d', e', f', g', h') \<Rightarrow>
        (a + a', b + b', c + c', d + d', e + e', f + f', g + g', h + h'))"

definition compress :: "hstate \<Rightarrow> bytes \<Rightarrow> hstate" where
  "compress H blk =
     add_state H (foldl sha_round H (zip sha_K (schedule 48 (map be_word (chunks 4 blk)))))"

definition state_bytes :: "hstate \<Rightarrow> bytes" where
  "state_bytes st =
     (case st of (a, b, c, d, e, f, g, h) \<Rightarrow> concat (map word_bytes [a, b, c, d, e, f, g, h]))"

definition sha256 :: "bytes \<Rightarrow> bytes" where
  "sha256 m = state_bytes (foldl compress sha_H0 (chunks 64 (sha_pad m)))"

lemma length_word_bytes [simp]: "length (word_bytes w) = 4"
  by (simp add: word_bytes_def)

lemma word_bytes_below_256: "b \<in> set (word_bytes w) \<Longrightarrow> b < 256"
  unfolding word_bytes_def by auto

lemma length_state_bytes: "length (state_bytes st) = 32"
  by (simp add: state_bytes_def split: prod.split)

lemma length_sha256: "length (sha256 m) = 32"
  unfolding sha256_def by (rule length_state_bytes)

lemma state_bytes_below_256: "b \<in> set (state_bytes st) \<Longrightarrow> b < 256"
  by (auto simp: state_bytes_def word_bytes_below_256 split: prod.splits)

lemma sha256_below_256: "b \<in> set (sha256 m) \<Longrightarrow> b < 256"
  unfolding sha256_def by (rule state_bytes_below_256)

end
