(* ===== verification/Dedup.thy ===== *)
theory Dedup
  imports UrlCodec Sha256
begin

text \<open>
  The Canonicalizer and the fingerprint of \<^verbatim>\<open>core/dedup.py\<close>. \<open>canonical\<close> splits
  the URL with \<open>urlsplit\<close>, keeps the query parameters (blank values included) whose
  name is not a tracking parameter, sorts them as pairs of strings, re-encodes them
  with \<open>urlencode\<close>, strips trailing slashes from the path, lower-cases the network
  location, drops the fragment and joins the parts with \<open>urlunsplit\<close>. The errors
  \<open>urlsplit\<close> and \<open>urlencode\<close> raise propagate as values. \<open>content_hash\<close> is the
  lower-case hexadecimal SHA-256 digest of the UTF-8 encoding with \<open>errors='ignore'\<close>.
\<close>

definition TRACKING_PARAMS :: "pystr list" where
  "TRACKING_PARAMS = map py [''utm_source'', ''utm_medium'', ''utm_campaign'', ''gclid'', ''fbclid'']"

definition canonical :: "pystr \<Rightarrow> url_error + pystr" where
  "canonical url =
     (case urlsplit url of Inl e \<Rightarrow> Inl e
      | Inr parts \<Rightarrow>
          (let q = filter (\<lambda>(k, v). k \<notin> set TRACKING_PARAMS) (parse_qsl True (query parts)) in
           case urlencode (sort q) of Inl e \<Rightarrow> Inl e
           | Inr qry \<Rightarrow>
               (let pth = rstrip_by (\<lambda>c. c = 47) (path parts);
                    nl = py_lower (netloc parts) in
                Inr (urlunsplit \<lparr>scheme = scheme parts, netloc = nl, path = pth,
                                  query = qry, fragment = []\<rparr>))))"

definition hex_lower :: "nat \<Rightarrow> nat" where
  "hex_lower d = (if d < 10 then 48 + d else 87 + d)"

text \<open>\<open>bytes.hex()\<close>, which \<open>hexdigest\<close> returns: two lower-case digits per byte.\<close>

definition hexdigest :: "bytes \<Rightarrow> pystr" where
  "hexdigest bs = concat (map (\<lambda>b. [hex_lower (b div 16), hex_lower (b mod 16)]) bs)"

definition content_hash :: "pystr \<Rightarrow> pystr" where
  "content_hash t = hexdigest (sha256 (encode_ignore t))"

subsection \<open>The canonical URL\<close>

lemma sort_mset_eq: "mset xs = mset ys \<Longrightarrow> sort xs = sort ys"
  by (metis properties_for_sort mset_sort sorted_sort)

text \<open>The test of the spec: tracking parameters, the trailing slash and the case of
  the host are removed.\<close>

theorem canonical_spec_example:
  "canonical (py ''https://Example.COM/Path/?utm_source=x&a=1&fbclid=zzz'') = Inr (py ''https://example.com/Path?a=1'')"
  by (simp add: canonical_def urlsplit_eval query_eval TRACKING_PARAMS_def rstrip_by_def urlunsplit_def uses_netloc_def)

text \<open>C3. The canonical URL depends only on the scheme, the lower-cased network location,
  the path without trailing slashes and the multiset of non-tracking query parameters:
  the order of the parameters, tracking parameters, the fragment and trailing slashes
  do not change it.\<close>

theorem canonical_invariant:
  assumes r1: "urlsplit u1 = Inr r1" and r2: "urlsplit u2 = Inr r2"
    and "scheme r1 = scheme r2" and "py_lower (netloc r1) = py_lower (netloc r2)"
    and "rstrip_by (\<lambda>c. c = 47) (path r1) = rstrip_by (\<lambda>c. c = 47) (path r2)"
    and "mset (filter (\<lambda>(k, v). k \<notin> set TRACKING_PARAMS) (parse_qsl True (query r1))) =
         mset (filter (\<lambda>(k, v). k \<notin> set TRACKING_PARAMS) (parse_qsl True (query r2)))"
  shows "canonical u1 = canonical u2"
proof -
  have "sort (filter (\<lambda>(k, v). k \<notin> set TRACKING_PARAMS) (parse_qsl True (query r1))) =
        sort (filter (\<lambda>(k, v). k \<notin> set TRACKING_PARAMS) (parse_qsl True (query r2)))"
    using assms(6) by (rule sort_mset_eq)
  with assms(1-5) show ?thesis
    unfolding canonical_def by (simp add: Let_def split: sum.split)
qed

theorem canonical_invariant_witness:
  "canonical (py ''https://Example.COM/Path/?utm_source=x&b=2&a=1&fbclid=zzz#top'') =
   canonical (py ''https://example.com/Path//?a=1&b=2&gclid=q'')"
proof -
  have r1: "urlsplit (py ''https://Example.COM/Path/?utm_source=x&b=2&a=1&fbclid=zzz#top'') =
    Inr \<lparr>scheme = py ''https'', netloc = py ''Example.COM'', path = py ''/Path/'',
         query = py ''utm_source=x&b=2&a=1&fbclid=zzz'', fragment = py ''top''\<rparr>"
    by (simp add: urlsplit_eval)
  have r2: "urlsplit (py ''https://example.com/Path//?a=1&b=2&gclid=q'') =
    Inr \<lparr>scheme = py ''https'', netloc = py ''example.com'', path = py ''/Path//'',
         query = py ''a=1&b=2&gclid=q'', fragment = []\<rparr>"
    by (simp add: urlsplit_eval)
  show ?thesis
    by (rule canonical_invariant [OF r1 r2])
       (simp_all add: py_lower_def py_lower_char_def rstrip_by_def query_eval TRACKING_PARAMS_def)
qed

text \<open>C8. The query \<open>canonical\<close> writes is the \<open>urlencode\<close>d sorted list of the kept
  parameters, and \<open>parse_qsl\<close> reads it back as exactly that list: no tracking
  parameter survives, blank values are kept and the order is the sorted one.\<close>

theorem canonical_query_roundtrip:
  assumes v: "valid_str url" and s: "urlsplit url = Inr parts" and c: "canonical url = Inr cu"
  shows "\<exists>qry. cu = urlunsplit \<lparr>scheme = scheme parts, netloc = py_lower (netloc parts),
                   path = rstrip_by (\<lambda>c. c = 47) (path parts), query = qry, fragment = []\<rparr> \<and>
           parse_qsl True qry = sort (filter (\<lambda>(k, v). k \<notin> set TRACKING_PARAMS) (parse_qsl True (query parts)))"
proof -
  let ?q = "sort (filter (\<lambda>(k, v). k \<notin> set TRACKING_PARAMS) (parse_qsl True (query parts)))"
  from c s obtain qry where e: "urlencode ?q = Inr qry"
    and cu: "cu = urlunsplit \<lparr>scheme = scheme parts, netloc = py_lower (netloc parts),
                   path = rstrip_by (\<lambda>c. c = 47) (path parts), query = qry, fragment = []\<rparr>"
    by (cases "urlencode ?q") (auto simp: canonical_def Let_def)
  have "valid_str (query parts)"
    using v urlsplit_query_chars [OF s] by (rule valid_str_subset)
  then have "list_all (\<lambda>(k, v). valid_str k \<and> valid_str v) (parse_qsl True (query parts))"
    by (rule parse_qsl_valid)
  then have "list_all (\<lambda>(k, v). valid_str k \<and> valid_str v) ?q"
    by (auto simp: list_all_iff)
  with e cu show ?thesis
    using parse_qsl_urlencode by blast
qed

theorem canonical_query_roundtrip_witness:
  "\<exists>qry. py ''https://example.com/Path?a=1&b=2'' = urlunsplit \<lparr>scheme = py ''https'',
       netloc = py ''example.com'', path = py ''/Path'', query = qry, fragment = []\<rparr> \<and>
     parse_qsl True qry = [(py ''a'', py ''1''), (py ''b'', py ''2'')]"
proof -
  have v: "valid_str (py ''https://Example.COM/Path/?utm_source=x&b=2&a=1'')"
    by (simp add: valid_str_def)
  have s: "urlsplit (py ''https://Example.COM/Path/?utm_source=x&b=2&a=1'') =
    Inr \<lparr>scheme = py ''https'', netloc = py ''Example.COM'', path = py ''/Path/'',
         query = py ''utm_source=x&b=2&a=1'', fragment = []\<rparr>"
    by (simp add: urlsplit_eval)
  have c: "canonical (py ''https://Example.COM/Path/?utm_source=x&b=2&a=1'') =
    Inr (py ''https://example.com/Path?a=1&b=2'')"
    by (simp add: canonical_def urlsplit_eval query_eval TRACKING_PARAMS_def rstrip_by_def
        urlunsplit_def uses_netloc_def)
  have q: "sort (filter (\<lambda>(k, v). k \<notin> set TRACKING_PARAMS) (parse_qsl True (py ''utm_source=x&b=2&a=1''))) =
    [(py ''a'', py ''1''), (py ''b'', py ''2'')]"
    by (simp add: query_eval TRACKING_PARAMS_def)
  show ?thesis
    using canonical_query_roundtrip [OF v s c] q
    by (simp add: py_lower_def py_lower_char_def rstrip_by_def)
qed

text \<open>\<open>canonical\<close> raises: a netloc with an unmatched bracket makes \<open>urlsplit\<close>
  raise \<open>ValueError\<close>, and \<open>canonical\<close> does not catch it.\<close>

theorem canonical_raises:
  "canonical (py ''http://[::1/a'') = Inl ValueError"
  by (simp add: canonical_def urlsplit_eval)

subsection \<open>The fingerprint\<close>

lemma hexdigest_format:
  "\<forall>b\<in>set bs. b < 256 \<Longrightarrow>
   length (hexdigest bs) = 2 * length bs \<and> list_all (\<lambda>c. ascii_digit c \<or> (97 \<le> c \<and> c \<le> 102)) (hexdigest bs)"
proof (induction bs)
  case Nil
  then show ?case by (simp add: hexdigest_def)
next
  case (Cons b bs)
  have "b div 16 < 16" "b mod 16 < 16"
    using Cons.prems by auto
  with Cons show ?case by (auto simp: hexdigest_def hex_lower_def ascii_digit_def)
qed

text \<open>\<open>content_hash\<close> always returns 64 lower-case hexadecimal digits
  (\<open>0-9\<close>, \<open>a-f\<close>), the
  format the tests expect.\<close>

theorem content_hash_format:
  "length (content_hash t) = 64 \<and> list_all (\<lambda>c. ascii_digit c \<or> (97 \<le> c \<and> c \<le> 102)) (content_hash t)"
  using hexdigest_format [OF ballI [OF sha256_below_256]]
  by (simp add: content_hash_def length_sha256)

end
