(* ===== verification/DedupIdem.thy ===== *)
theory DedupIdem
  imports Dedup
begin

text \<open>
  Idempotence of the Canonicalizer of \<^verbatim>\<open>core/dedup.py\<close>: a canonical URL is
  its own canonical form. The proof reads the canonical URL back through
  \<open>urlsplit\<close>: lower-casing keeps a network location valid, the path without
  trailing slashes and the re-encoded query are read back as they were written,
  and \<open>parse_qsl\<close> returns the sorted kept parameters, which the second pass keeps
  in the same order.
\<close>

subsection \<open>Lower-casing keeps a network location valid\<close>

lemma py_lower_char_eq_iff:
  "d \<in> {9, 10, 13, 35, 37, 46, 47, 58, 63, 64, 91, 93} \<Longrightarrow> py_lower_char c = d \<longleftrightarrow> c = d"
  by (auto simp: py_lower_char_def)

lemma py_lower_char_digit [simp]: "ascii_digit (py_lower_char c) = ascii_digit c"
  by (auto simp: py_lower_char_def ascii_digit_def)

lemma py_lower_char_hex [simp]: "hex_digit (py_lower_char c) = hex_digit c"
  by (auto simp: py_lower_char_def hex_digit_def ascii_digit_def)

lemma py_lower_char_nfkc [simp]: "nfkc_delim (py_lower_char c) = nfkc_delim c"
  by (auto simp: py_lower_char_def nfkc_delim_def)

lemma py_lower_digits: "list_all ascii_digit s \<Longrightarrow> py_lower s = s"
  by (induction s) (auto simp: py_lower_def ascii_digit_def py_lower_char_def)

lemma py_lower_Nil_iff [simp]: "py_lower s = [] \<longleftrightarrow> s = []"
  by (simp add: py_lower_def)

lemma py_lower_mem:
  "d \<in> {9, 10, 13, 35, 37, 46, 47, 58, 63, 64, 91, 93} \<Longrightarrow> d \<in> set (py_lower s) \<longleftrightarrow> d \<in> set s"
proof -
  assume d: "d \<in> {9, 10, 13, 35, 37, 46, 47, 58, 63, 64, 91, 93}"
  have "d \<in> set (py_lower s) \<longleftrightarrow> (\<exists>x\<in>set s. py_lower_char x = d)"
    by (auto simp: py_lower_def)
  also have "\<dots> \<longleftrightarrow> d \<in> set s"
    using py_lower_char_eq_iff [OF d] by auto
  finally show ?thesis .
qed

lemma py_split_lower:
  "d \<in> {9, 10, 13, 35, 37, 46, 47, 58, 63, 64, 91, 93} \<Longrightarrow> py_split d (py_lower s) = map py_lower (py_split d s)"
  by (induction s) (auto simp: py_lower_def py_lower_char_eq_iff Let_def hd_map map_tl)

lemma py_partition_lower:
  "d \<in> {9, 10, 13, 35, 37, 46, 47, 58, 63, 64, 91, 93} \<Longrightarrow>
   py_partition d (py_lower s) =
     (case py_partition d s of (a, h, b) \<Rightarrow> (py_lower a, h, py_lower b))"
proof -
  assume d: "d \<in> {9, 10, 13, 35, 37, 46, 47, 58, 63, 64, 91, 93}"
  have "takeWhile (\<lambda>x. x \<noteq> d) (py_lower s) = py_lower (takeWhile (\<lambda>x. x \<noteq> d) s)"
       "dropWhile (\<lambda>x. x \<noteq> d) (py_lower s) = py_lower (dropWhile (\<lambda>x. x \<noteq> d) s)"
    by (simp_all add: py_lower_def takeWhile_map dropWhile_map comp_def py_lower_char_eq_iff [OF d])
  then show ?thesis
    using py_lower_mem [OF d, of s] by (simp add: py_partition_def py_lower_def drop_map)
qed

lemma octet_ok_lower [simp]: "octet_ok (py_lower d) = octet_ok d"
  by (cases "list_all ascii_digit d") (simp add: py_lower_digits, simp add: octet_ok_def py_lower_def list.pred_map comp_def)

lemma ipv4_ok_lower [simp]: "ipv4_ok (py_lower s) = ipv4_ok s"
  by (simp add: ipv4_ok_def py_split_lower py_lower_mem list_all_iff Let_def)

lemma hextet_ok_lower [simp]: "hextet_ok (py_lower h) = hextet_ok h"
  by (simp add: hextet_ok_def py_lower_def list.pred_map comp_def)

lemma ipv6_parts_ok_lower: "ipv6_parts_ok (map py_lower parts) = ipv6_parts_ok parts"
proof -
  have e: "filter (\<lambda>i. map py_lower parts ! i = []) [1..<length parts - 1] =
           filter (\<lambda>i. parts ! i = []) [1..<length parts - 1]"
    by (rule filter_cong) auto
  show ?thesis
  proof (cases "parts = []")
    case True
    then show ?thesis by simp
  next
    case False
    then show ?thesis
      unfolding ipv6_parts_ok_def Let_def length_map e
      by (simp add: take_map drop_map list_all_iff split: list.split)
  qed
qed

lemma py_lower_48 [simp]: "py_lower [48] = [48]"
  by (simp add: py_lower_def py_lower_char_def)

lemma ipv6_addr_ok_lower [simp]: "ipv6_addr_ok (py_lower a) = ipv6_addr_ok a"
proof -
  have l: "last (map py_lower (py_split 58 a)) = py_lower (last (py_split 58 a))"
    by (simp add: last_map)
  have b: "butlast (map py_lower (py_split 58 a)) @ [[48], [48]] =
           map py_lower (butlast (py_split 58 a) @ [[48], [48]])"
    by (simp add: map_butlast)
  show ?thesis
    unfolding ipv6_addr_ok_def Let_def py_split_lower [of 58 a, simplified] l b
    by (simp add: py_lower_mem ipv6_parts_ok_lower del: map_append)
qed

lemma ipv6_ok_lower [simp]: "ipv6_ok (py_lower s) = ipv6_ok s"
  by (simp add: ipv6_ok_def py_lower_mem py_partition_lower split: prod.split)

lemma ipvfuture_ok_lower [simp]: "ipvfuture_ok (py_lower s) = ipvfuture_ok s"
proof -
  have "tl (py_lower r) = py_lower (tl r)" for r
    by (simp add: py_lower_def map_tl)
  moreover have "takeWhile hex_digit (py_lower r) = py_lower (takeWhile hex_digit r)"
    "dropWhile hex_digit (py_lower r) = py_lower (dropWhile hex_digit r)" for r
    by (simp_all add: py_lower_def takeWhile_map dropWhile_map comp_def)
  moreover have "hd (py_lower t) = 46 \<longleftrightarrow> hd t = 46" for t
    by (cases t) (simp_all add: py_lower_def py_lower_char_eq_iff)
  moreover have "(\<exists>x\<in>set (py_lower r). \<not> hex_digit x) \<longleftrightarrow> (\<exists>x\<in>set r. \<not> hex_digit x)" for r
    by (simp add: py_lower_def)
  ultimately show ?thesis
    by (simp add: ipvfuture_ok_def Let_def py_lower_mem)
qed

lemma ipv6_parts_ok_hd:
  assumes ok: "ipv6_parts_ok parts" and ne: "parts ! 0 \<noteq> []"
  shows "hextet_ok (parts ! 0)"
proof (cases "filter (\<lambda>i. parts ! i = []) [1..<length parts - 1]")
  case Nil
  with ok show ?thesis
    using nth_mem [of 0 parts] by (auto simp: ipv6_parts_ok_def Let_def list_all_iff)
next
  case (Cons k ks)
  then have "k \<in> set (filter (\<lambda>i. parts ! i = []) [1..<length parts - 1])"
    by simp
  then have k: "1 \<le> k" "k < length parts"
    by auto
  then have "parts ! 0 \<in> set (take k parts)"
    by (cases parts; cases k) auto
  with Cons ok ne show ?thesis
    by (auto simp: ipv6_parts_ok_def Let_def list_all_iff split: list.splits if_splits)
qed

lemma hd_takeWhile_ne: "takeWhile P xs \<noteq> [] \<Longrightarrow> hd (takeWhile P xs) = hd xs"
  by (cases xs) auto

text \<open>An address \<open>IPv6Address\<close> accepts starts with a hex digit or a colon, so it
  never starts with \<open>V\<close>: the IPvFuture test is not skipped by lower-casing.\<close>

lemma ipv6_ok_hd:
  assumes "ipv6_ok h"
  shows "h \<noteq> [] \<and> (hex_digit (hd h) \<or> hd h = 58)"
proof -
  define a where "a = takeWhile (\<lambda>x. x \<noteq> 37) h"
  have ok: "ipv6_addr_ok a"
    using assms by (simp add: ipv6_ok_def py_partition_def a_def)
  then have ne: "a \<noteq> []"
    by (simp add: ipv6_addr_ok_def)
  then have h: "h \<noteq> [] \<and> hd h = hd a"
    unfolding a_def by (auto simp: hd_takeWhile_ne)
  define p0 where "p0 = py_split 58 a"
  have "hex_digit (hd a) \<or> hd a = 58"
  proof (cases "hd a = 58")
    case False
    then have t: "hd p0 \<noteq> [] \<and> hd (hd p0) = hd a"
      using ne unfolding p0_def py_split_hd by (cases a) auto
    have l: "3 \<le> length p0"
      using ok by (simp add: ipv6_addr_ok_def Let_def p0_def)
    then have "(if 46 \<in> set (last p0) then butlast p0 @ [[48], [48]] else p0) ! 0 = hd p0"
      by (cases p0) (auto simp: nth_append)
    moreover have "ipv6_parts_ok (if 46 \<in> set (last p0) then butlast p0 @ [[48], [48]] else p0)"
      using ok unfolding ipv6_addr_ok_def Let_def p0_def by blast
    ultimately have "hextet_ok (hd p0)"
      using ipv6_parts_ok_hd t by metis
    with t show ?thesis
      by (cases "hd p0") (simp_all add: hextet_ok_def)
  qed simp
  with h show ?thesis
    by simp
qed

lemma check_bracketed_host_lower:
  assumes "check_bracketed_host h"
  shows "check_bracketed_host (py_lower h)"
proof (cases "starts_with [118] h")
  case True
  then have "starts_with [118] (py_lower h)"
    by (cases h) (simp_all add: starts_with_def py_lower_def py_lower_char_def)
  with True assms show ?thesis
    by (simp add: check_bracketed_host_def)
next
  case False
  with assms have v6: "\<not> ipv4_ok h \<and> ipv6_ok h"
    by (simp add: check_bracketed_host_def)
  then have "h \<noteq> [] \<and> (hex_digit (hd h) \<or> hd h = 58)"
    using ipv6_ok_hd by blast
  then have "\<not> starts_with [118] (py_lower h)"
    by (cases h) (auto simp: starts_with_def py_lower_def py_lower_char_def hex_digit_def ascii_digit_def)
  with v6 show ?thesis
    by (simp add: check_bracketed_host_def)
qed

lemma checknetloc_lower [simp]: "checknetloc (py_lower nl) = checknetloc nl"
proof -
  have "filter (\<lambda>c. c \<notin> {64, 58, 35, 63}) (py_lower nl) = py_lower (filter (\<lambda>c. c \<notin> {64, 58, 35, 63}) nl)"
    by (simp add: py_lower_def filter_map comp_def py_lower_char_eq_iff)
  then show ?thesis
    by (simp add: checknetloc_def py_lower_def list_ex_iff)
qed

lemma netloc_valid_lower: "netloc_valid nl \<Longrightarrow> netloc_valid (py_lower nl)"
  by (auto simp: netloc_valid_def Let_def py_lower_mem py_partition_lower check_bracketed_host_lower
      split: prod.split)

subsection \<open>Trailing slashes\<close>

lemma rstrip_by_prefix: "\<exists>w. s = rstrip_by P s @ w"
proof -
  have "s = rev (rev s)"
    by simp
  also have "\<dots> = rstrip_by P s @ rev (takeWhile P (rev s))"
    by (metis rev_append takeWhile_dropWhile_id rstrip_by_def)
  finally show ?thesis
    by blast
qed

lemma rstrip_by_fixed: "rstrip_by P s = s \<longleftrightarrow> s = [] \<or> \<not> P (last s)"
proof (cases s rule: rev_cases)
  case (snoc ys y)
  show ?thesis
  proof (cases "P y")
    case True
    have "length (rstrip_by P s) \<le> length ys"
      using True snoc length_dropWhile_le [of P "rev ys"] by (simp add: rstrip_by_def)
    then have "rstrip_by P s \<noteq> s"
      using snoc by auto
    with True snoc show ?thesis
      by simp
  next
    case False
    with snoc show ?thesis
      by (simp add: rstrip_by_def)
  qed
qed (simp add: rstrip_by_def)

lemma rstrip_by_idem [simp]: "rstrip_by P (rstrip_by P s) = rstrip_by P s"
  by (simp add: rstrip_by_def)

lemma rstrip_by_Cons_fixed: "rstrip_by P s = s \<Longrightarrow> s \<noteq> [] \<Longrightarrow> rstrip_by P (c # s) = c # s"
  by (simp add: rstrip_by_fixed)

subsection \<open>\<open>urlsplit\<close> of a string built from its parts\<close>

lemma lstrip_filter_id:
  "s = [] \<or> 32 < hd s \<Longrightarrow> \<forall>c\<in>set s. c \<notin> {9, 13, 10} \<Longrightarrow>
   filter (\<lambda>c. c \<notin> {9, 13, 10}) (lstrip_by (\<lambda>c. c \<le> 32) s) = s"
  by (cases s) (auto simp: lstrip_by_def)

lemma split_scheme_Nil: "fst (split_scheme u) = [] \<Longrightarrow> split_scheme u = ([], u)"
  by (auto simp: split_scheme_def py_lower_def split: prod.splits if_splits)

lemma split_scheme_no_colon: "58 \<notin> set u \<Longrightarrow> split_scheme u = ([], u)"
  by (simp add: split_scheme_def py_partition_def)

lemma split_scheme_slash: "take 1 u = [47] \<Longrightarrow> split_scheme u = ([], u)"
  by (cases u) (auto simp: split_scheme_def py_partition_def ascii_alpha_def)

lemma split_scheme_prefix:
  assumes "split_scheme (a @ b) = ([], a @ b)" and "58 \<in> set a"
  shows "split_scheme (a @ c) = ([], a @ c)"
proof -
  have "takeWhile (\<lambda>x. x \<noteq> 58) (a @ b) = takeWhile (\<lambda>x. x \<noteq> 58) (a @ c)"
    using assms(2) by (simp add: takeWhile_append1)
  then show ?thesis
    using assms by (auto simp: split_scheme_def py_partition_def py_lower_def split: if_splits)
qed

lemma scheme_char_range: "scheme_char c \<Longrightarrow> 32 < c \<and> c \<notin> {35, 47, 58, 63}"
  by (auto simp: scheme_char_def ascii_alpha_def ascii_digit_def)

lemma split_scheme_fst:
  assumes "split_scheme u = (sch, u2)" and "sch \<noteq> []"
  shows "ascii_alpha (hd sch) \<and> list_all scheme_char sch \<and> py_lower sch = sch"
proof -
  define pre where "pre = takeWhile (\<lambda>x. x \<noteq> 58) u"
  have ok: "pre \<noteq> [] \<and> ascii_alpha (hd pre) \<and> list_all scheme_char pre" and sch: "sch = py_lower pre"
    using assms by (auto simp: split_scheme_def py_partition_def pre_def split: if_splits)
  have "ascii_alpha (py_lower_char c)" if "ascii_alpha c" for c
    using that by (auto simp: py_lower_char_def ascii_alpha_def)
  moreover have "scheme_char (py_lower_char c)" if "scheme_char c" for c
    using that by (auto simp: py_lower_char_def scheme_char_def ascii_alpha_def ascii_digit_def)
  ultimately show ?thesis
    using ok unfolding sch py_lower_def by (cases pre) (simp_all add: list_all_iff)
qed

lemma split_scheme_again:
  assumes "split_scheme u = (sch, u2)" and "sch \<noteq> []"
  shows "split_scheme (sch @ 58 # rest) = (sch, rest)"
proof -
  note f = split_scheme_fst [OF assms]
  then have "58 \<notin> set sch"
    using scheme_char_range by (auto simp: list_all_iff)
  with f assms(2) show ?thesis
    by (simp add: split_scheme_def py_partition_sep)
qed

lemma splitnetloc_build:
  "\<forall>c\<in>set nl. \<not> url_delim c \<Longrightarrow> rest = [] \<or> url_delim (hd rest) \<Longrightarrow>
   splitnetloc ([47, 47] @ nl @ rest) = (nl, rest)"
  by (cases rest) (simp_all add: splitnetloc_def takeWhile_append2 dropWhile_append2)

lemma py_partition_none:
  assumes "c \<notin> set s"
  shows "py_partition c s = (s, False, [])"
proof -
  have tw: "takeWhile (\<lambda>x. x \<noteq> c) s = s" and dw: "dropWhile (\<lambda>x. x \<noteq> c) s = []"
    using assms by auto
  show ?thesis
    unfolding py_partition_def tw dw using assms by simp
qed

lemma urlsplit_eqI:
  assumes a: "filter (\<lambda>c. c \<notin> {9, 13, 10}) (lstrip_by (\<lambda>c. c \<le> 32) s) = s"
    and b: "split_scheme s = (sch, url2)"
    and c: "(if take 2 url2 = [47, 47] then splitnetloc url2 else ([], url2)) =
            (nl, p @ (if qry \<noteq> [] then 63 # qry else []))"
    and v: "netloc_valid nl" and p: "35 \<notin> set p" "63 \<notin> set p" and q: "35 \<notin> set qry"
  shows "urlsplit s = Inr \<lparr>scheme = sch, netloc = nl, path = p, query = qry, fragment = []\<rparr>"
proof -
  let ?t = "p @ (if qry \<noteq> [] then 63 # qry else [])"
  have "35 \<notin> set ?t"
    using p q by simp
  then have t35: "py_partition 35 ?t = (?t, False, [])"
    by (rule py_partition_none)
  have t63: "py_partition 63 ?t = (p, qry \<noteq> [], qry)"
    using p by (cases "qry = []") (simp_all add: py_partition_sep py_partition_none)
  show ?thesis
    unfolding urlsplit_def Let_def a b prod.case c t35 t63
    using v by simp
qed

subsection \<open>The characters of the re-encoded query\<close>

lemma py_join_chars: "set (py_join sep ws) \<subseteq> set sep \<union> (\<Union>w\<in>set ws. set w)"
  by (induction sep ws rule: py_join.induct) auto

lemma encode_pairs_chars:
  "encode_pairs ps = Inr ws \<Longrightarrow> list_all (\<lambda>(k, v). valid_str k \<and> valid_str v) ps \<Longrightarrow>
   \<forall>w\<in>set ws. \<forall>x\<in>set w. x = 43 \<or> x = 61 \<or> quote_char x"
proof (induction ps arbitrary: ws rule: encode_pairs.induct)
  case (2 k v ps)
  from "2.prems"(1) obtain k' v' r where k': "quote_plus k = Inr k'" and v': "quote_plus v = Inr v'"
    and r: "encode_pairs ps = Inr r" and ws: "ws = (k' @ [61] @ v') # r"
    by (auto split: sum.splits)
  have "valid_str k" "valid_str v" "list_all (\<lambda>(k, v). valid_str k \<and> valid_str v) ps"
    using "2.prems"(2) by simp_all
  with "2.IH" [OF k' v' r] quote_plus_chars [of k k'] quote_plus_chars [of v v'] k' v' ws show ?case
    by auto
qed simp

text \<open>The query \<open>urlencode\<close> writes holds printable ASCII and none of \<open>#:?\<close>.\<close>

lemma urlencode_chars:
  assumes "urlencode ps = Inr q" and "list_all (\<lambda>(k, v). valid_str k \<and> valid_str v) ps"
  shows "\<forall>x\<in>set q. 32 < x \<and> x \<notin> {35, 58, 63}"
proof -
  from assms(1) obtain ws where ws: "encode_pairs ps = Inr ws" and q: "q = py_join [38] ws"
    by (cases "encode_pairs ps") (auto simp: urlencode_def)
  have "quote_char x \<Longrightarrow> 32 < x \<and> x \<notin> {35, 58, 63}" for x
    by (auto simp: quote_char_def always_safe_def hex_digit_def ascii_alpha_def ascii_digit_def)
  then show ?thesis
    using encode_pairs_chars [OF ws assms(2)] py_join_chars [of "[38]" ws] unfolding q by fastforce
qed

subsection \<open>What \<open>urlsplit\<close> guarantees of the scheme and the path\<close>

lemma lstrip_filter_hd:
  "filter (\<lambda>c. c \<notin> {9, 13, 10}) (lstrip_by (\<lambda>c. c \<le> 32) u) = [] \<or>
   32 < hd (filter (\<lambda>c. c \<notin> {9, 13, 10}) (lstrip_by (\<lambda>c. c \<le> 32) u))"
proof (cases "dropWhile (\<lambda>c. c \<le> 32) u")
  case (Cons y ys)
  then have "\<not> y \<le> 32"
    using hd_dropWhile [of "\<lambda>c. c \<le> 32" u] by simp
  with Cons show ?thesis
    by (simp add: lstrip_by_def)
next
  case Nil
  show ?thesis
    unfolding lstrip_by_def Nil by simp
qed

lemma urlsplit_shape:
  assumes "urlsplit u = Inr r"
  shows "\<forall>c\<in>set (path r). c \<notin> {9, 13, 10, 35, 63}"
    and "scheme r \<noteq> [] \<Longrightarrow> \<exists>v w. split_scheme v = (scheme r, w)"
    and "scheme r = [] \<Longrightarrow> path r = [] \<or> 32 < hd (path r)"
    and "scheme r = [] \<Longrightarrow> 58 \<in> set (rstrip_by (\<lambda>c. c = 47) (path r)) \<Longrightarrow>
         split_scheme (rstrip_by (\<lambda>c. c = 47) (path r) @ X) = ([], rstrip_by (\<lambda>c. c = 47) (path r) @ X)"
proof -
  define url1 where "url1 = filter (\<lambda>c. c \<notin> {9, 13, 10}) (lstrip_by (\<lambda>c. c \<le> 32) u)"
  obtain sch url2 where s2: "split_scheme url1 = (sch, url2)"
    by fastforce
  obtain nl url3 where s3: "(if take 2 url2 = [47, 47] then splitnetloc url2 else ([], url2)) = (nl, url3)"
    by fastforce
  obtain url4 h1 frag where s4: "py_partition 35 url3 = (url4, h1, frag)"
    by (metis prod_cases3)
  obtain pth h2 qry where s5: "py_partition 63 url4 = (pth, h2, qry)"
    by (metis prod_cases3)
  have r: "r = \<lparr>scheme = sch, netloc = nl, path = pth, query = qry, fragment = frag\<rparr>"
    using assms unfolding urlsplit_def Let_def url1_def [symmetric]
    by (simp add: s2 s3 s4 s5 split: if_splits)
  have p4: "url4 = takeWhile (\<lambda>x. x \<noteq> 35) url3" and p5: "pth = takeWhile (\<lambda>x. x \<noteq> 63) url4"
    using s4 s5 by (simp_all add: py_partition_def)
  have pre: "\<exists>z. url3 = pth @ z"
    by (metis p4 p5 takeWhile_dropWhile_id append.assoc)
  have u3: "set url3 \<subseteq> set url1"
    using split_scheme_chars [OF s2] s3 by (auto split: if_splits dest: splitnetloc_chars)
  have "\<forall>c\<in>set pth. c \<notin> {9, 13, 10, 35, 63}"
  proof
    fix c assume c: "c \<in> set pth"
    then have "c \<in> set url4" "c \<noteq> 63"
      unfolding p5 by (auto dest: set_takeWhileD)
    then have "c \<in> set url3" "c \<noteq> 35"
      unfolding p4 by (auto dest: set_takeWhileD)
    with u3 \<open>c \<noteq> 63\<close> show "c \<notin> {9, 13, 10, 35, 63}"
      by (auto simp: url1_def)
  qed
  then show pc: "\<forall>c\<in>set (path r). c \<notin> {9, 13, 10, 35, 63}"
    by (simp add: r)
  show "scheme r \<noteq> [] \<Longrightarrow> \<exists>v w. split_scheme v = (scheme r, w)"
    using s2 r by auto
  assume "scheme r = []"
  then have "url2 = url1"
    using s2 split_scheme_Nil [of url1] r by simp
  have shape: "(take 2 url1 = [47, 47] \<and> (pth = [] \<or> hd pth = 47)) \<or> (\<exists>z. url1 = pth @ z)"
  proof (cases "take 2 url1 = [47, 47]")
    case True
    then have "url3 = dropWhile (\<lambda>c. \<not> url_delim c) (drop 2 url1)"
      using s3 \<open>url2 = url1\<close> by (simp add: splitnetloc_def)
    then have "url3 = [] \<or> url_delim (hd url3)"
      using hd_dropWhile [of "\<lambda>c. \<not> url_delim c" "drop 2 url1"] by auto
    moreover obtain z where z: "url3 = pth @ z"
      using pre by blast
    moreover have "pth \<noteq> [] \<Longrightarrow> hd pth = hd url3 \<and> hd pth \<notin> {35, 63}"
      using z pc r hd_in_set [of pth] by (auto simp: hd_append)
    ultimately show ?thesis
      using True by (auto simp: url_delim_def)
  next
    case False
    then show ?thesis
      using s3 pre \<open>url2 = url1\<close> by auto
  qed
  have hd1: "url1 = [] \<or> 32 < hd url1"
    unfolding url1_def by (rule lstrip_filter_hd)
  show "path r = [] \<or> 32 < hd (path r)"
    using shape hd1 r by (auto simp: hd_append split: if_splits)
  assume c58: "58 \<in> set (rstrip_by (\<lambda>c. c = 47) (path r))"
  obtain w where w: "pth = rstrip_by (\<lambda>c. c = 47) pth @ w"
    using rstrip_by_prefix by blast
  have ne: "rstrip_by (\<lambda>c. c = 47) pth \<noteq> []"
    using c58 r by auto
  show "split_scheme (rstrip_by (\<lambda>c. c = 47) (path r) @ X) = ([], rstrip_by (\<lambda>c. c = 47) (path r) @ X)"
  proof (cases "\<exists>z. url1 = pth @ z")
    case True
    then obtain z where "url1 = rstrip_by (\<lambda>c. c = 47) pth @ (w @ z)"
      using w by (metis append.assoc)
    moreover have "split_scheme url1 = ([], url1)"
      using s2 \<open>url2 = url1\<close> \<open>scheme r = []\<close> r by simp
    ultimately show ?thesis
      using split_scheme_prefix c58 r by simp
  next
    case False
    with shape have "hd pth = 47"
      using ne w by auto
    then have "take 1 (rstrip_by (\<lambda>c. c = 47) pth @ X) = [47]"
      using ne w by (cases "rstrip_by (\<lambda>c. c = 47) pth") (auto simp: hd_append)
    then show ?thesis
      using split_scheme_slash r by simp
  qed
qed

subsection \<open>\<open>urlsplit\<close> reads a canonical URL back\<close>

lemma py_lower_netloc_chars:
  assumes "\<forall>c\<in>set s. c \<notin> {9, 13, 10} \<and> \<not> url_delim c"
  shows "\<forall>c\<in>set (py_lower s). c \<notin> {9, 13, 10} \<and> \<not> url_delim c"
proof -
  have "d \<notin> set (py_lower s)" if d: "d \<in> {9, 13, 10, 35, 47, 63}" for d
  proof -
    have n: "d \<notin> set s"
      using assms d unfolding url_delim_def by blast
    have m: "d \<in> {9, 10, 13, 35, 37, 46, 47, 58, 63, 64, 91, 93}"
      using d by blast
    show ?thesis
      by (simp add: py_lower_mem [OF m] n)
  qed
  then show ?thesis
    unfolding url_delim_def by blast
qed

lemma take_one: "take (Suc 0) xs = (if xs = [] then [] else [hd xs])"
  by (cases xs) auto

lemma take2_slashes:
  assumes "take 2 (p @ t) = [47, 47]" and "t = [] \<or> hd t \<noteq> 47"
  shows "take 2 p = [47, 47]"
proof (cases p)
  case Nil
  then show ?thesis
    using assms by (cases t) auto
next
  case (Cons a p')
  then show ?thesis
    using assms by (cases p'; cases t) auto
qed

lemma urlsplit_urlunsplit_canonical:
  assumes s: "urlsplit url = Inr parts" and q: "\<forall>x\<in>set qry. 32 < x \<and> x \<notin> {35, 58, 63}"
    and r: "r = \<lparr>scheme = scheme parts, netloc = py_lower (netloc parts),
                 path = rstrip_by (\<lambda>c. c = 47) (path parts), query = qry, fragment = []\<rparr>"
  shows "\<exists>p2. urlsplit (urlunsplit r) = Inr (r\<lparr>path := p2\<rparr>) \<and> rstrip_by (\<lambda>c. c = 47) p2 = p2 \<and>
              urlunsplit (r\<lparr>path := p2\<rparr>) = urlunsplit r"
proof -
  define sch where "sch = scheme parts"
  define nl where "nl = py_lower (netloc parts)"
  define pth where "pth = rstrip_by (\<lambda>c. c = 47) (path parts)"
  define qp where "qp = (if qry \<noteq> [] then 63 # qry else [])"
  note shape = urlsplit_shape [OF s]
  have nlv: "netloc_valid nl" and nlc: "\<forall>c\<in>set nl. c \<notin> {9, 13, 10} \<and> \<not> url_delim c"
    using urlsplit_Inr [OF s] netloc_valid_lower py_lower_netloc_chars unfolding nl_def by blast+
  obtain w where w: "path parts = pth @ w"
    unfolding pth_def using rstrip_by_prefix by blast
  have pc: "\<forall>c\<in>set pth. c \<notin> {9, 13, 10, 35, 63}"
    using shape(1) w by auto
  have pfix: "rstrip_by (\<lambda>c. c = 47) pth = pth"
    by (simp add: pth_def)
  have schv: "split_scheme (sch @ 58 # rest) = (sch, rest) \<and> 32 < hd sch \<and> (\<forall>c\<in>set sch. c \<notin> {9, 13, 10})"
    if ne: "sch \<noteq> []" for rest
  proof -
    obtain v w where vw: "split_scheme v = (sch, w)"
      using shape(2) ne unfolding sch_def by blast
    have "list_all scheme_char sch"
      using split_scheme_fst [OF vw ne] by blast
    then have "\<forall>c\<in>set sch. 32 < c \<and> c \<notin> {35, 47, 58, 63}"
      using scheme_char_range by (simp add: list_all_iff)
    then show ?thesis
      using split_scheme_again [OF vw ne] ne hd_in_set [of sch] by fastforce
  qed
  then have schs: "sch \<noteq> [] \<Longrightarrow> split_scheme (sch @ 58 # rest) = (sch, rest)"
    and schh: "sch \<noteq> [] \<Longrightarrow> 32 < hd sch \<and> (\<forall>c\<in>set sch. c \<notin> {9, 13, 10})" for rest
    by blast+
  have qpc: "\<forall>c\<in>set qp. c \<notin> {9, 13, 10, 35, 58}" and qph: "qp = [] \<or> hd qp = 63"
    using q by (auto simp: qp_def)
  have u: "urlunsplit r = (if sch \<noteq> [] then sch @ [58] else []) @
             (if nl \<noteq> [] \<or> (sch \<noteq> [] \<and> sch \<in> set uses_netloc) \<or> take 2 pth = [47, 47]
              then [47, 47] @ nl @ (if pth \<noteq> [] \<and> take 1 pth \<noteq> [47] then 47 # pth else pth) else pth) @ qp"
    by (simp add: urlunsplit_def r sch_def nl_def pth_def qp_def Let_def)
  show ?thesis
  proof (cases "nl \<noteq> [] \<or> (sch \<noteq> [] \<and> sch \<in> set uses_netloc) \<or> take 2 pth = [47, 47]")
    case C: True
    define p2 where "p2 = (if pth \<noteq> [] \<and> take 1 pth \<noteq> [47] then 47 # pth else pth)"
    define rest where "rest = [47, 47] @ nl @ p2 @ qp"
    have cu: "urlunsplit r = (if sch \<noteq> [] then sch @ [58] else []) @ rest"
      using C u by (simp add: rest_def p2_def)
    have p2c: "\<forall>c\<in>set p2. c \<notin> {9, 13, 10, 35, 63}" and p2h: "p2 = [] \<or> hd p2 = 47"
      using pc by (auto simp: p2_def take_one hd_conv_nth split: if_splits)
    have a: "filter (\<lambda>c. c \<notin> {9, 13, 10}) (lstrip_by (\<lambda>c. c \<le> 32) (urlunsplit r)) = urlunsplit r"
    proof (rule lstrip_filter_id)
      show "urlunsplit r = [] \<or> 32 < hd (urlunsplit r)"
        unfolding cu rest_def using schh by (cases "sch = []") simp_all
      show "\<forall>c\<in>set (urlunsplit r). c \<notin> {9, 13, 10}"
        unfolding cu rest_def using schh nlc p2c qpc by (cases "sch = []") auto
    qed
    have b: "split_scheme (urlunsplit r) = (sch, rest)"
      unfolding cu using schs by (cases "sch = []") (simp_all add: rest_def split_scheme_slash)
    have dl: "p2 @ qp = [] \<or> url_delim (hd (p2 @ qp))"
      using p2h qph by (auto simp: url_delim_def hd_append)
    have sn: "splitnetloc rest = (nl, p2 @ qp)"
      unfolding rest_def using nlc dl by (intro splitnetloc_build) auto
    have t2: "take 2 rest = [47, 47]"
      by (simp add: rest_def)
    have c: "(if take 2 rest = [47, 47] then splitnetloc rest else ([], rest)) =
             (nl, p2 @ (if qry \<noteq> [] then 63 # qry else []))"
      unfolding qp_def [symmetric] using t2 sn by simp
    have "urlsplit (urlunsplit r) = Inr \<lparr>scheme = sch, netloc = nl, path = p2, query = qry, fragment = []\<rparr>"
      by (rule urlsplit_eqI [OF a b c nlv]) (use p2c q in auto)
    moreover have "r\<lparr>path := p2\<rparr> = \<lparr>scheme = sch, netloc = nl, path = p2, query = qry, fragment = []\<rparr>"
      by (simp add: r sch_def nl_def)
    ultimately have sp: "urlsplit (urlunsplit r) = Inr (r\<lparr>path := p2\<rparr>)"
      by simp
    have fix2: "rstrip_by (\<lambda>c. c = 47) p2 = p2"
      using pfix by (auto simp: p2_def intro: rstrip_by_Cons_fixed)
    have u2: "urlunsplit (r\<lparr>path := p2\<rparr>) = (if sch \<noteq> [] then sch @ [58] else []) @
             (if nl \<noteq> [] \<or> (sch \<noteq> [] \<and> sch \<in> set uses_netloc) \<or> take 2 p2 = [47, 47]
              then [47, 47] @ nl @ (if p2 \<noteq> [] \<and> take 1 p2 \<noteq> [47] then 47 # p2 else p2) else p2) @ qp"
      by (simp add: urlunsplit_def r sch_def nl_def qp_def Let_def)
    have c2: "nl \<noteq> [] \<or> (sch \<noteq> [] \<and> sch \<in> set uses_netloc) \<or> take 2 p2 = [47, 47]"
      using C by (cases pth) (auto simp: p2_def)
    have p2a: "(if p2 \<noteq> [] \<and> take 1 p2 \<noteq> [47] then 47 # p2 else p2) = p2"
      using p2h by (auto simp: take_one)
    have "urlunsplit (r\<lparr>path := p2\<rparr>) = urlunsplit r"
      unfolding u2 cu rest_def using c2 p2a by simp
    with sp fix2 show ?thesis
      by blast
  next
    case C: False
    then have nl0: "nl = []" and t2: "take 2 pth \<noteq> [47, 47]"
      by simp_all
    have cu: "urlunsplit r = (if sch \<noteq> [] then sch @ [58] else []) @ pth @ qp"
      using C u by simp
    have hd0: "sch = [] \<Longrightarrow> pth @ qp = [] \<or> 32 < hd (pth @ qp)"
      using shape(3) w qph sch_def by (cases pth) (auto simp: hd_append)
    have a: "filter (\<lambda>c. c \<notin> {9, 13, 10}) (lstrip_by (\<lambda>c. c \<le> 32) (urlunsplit r)) = urlunsplit r"
    proof (rule lstrip_filter_id)
      show "urlunsplit r = [] \<or> 32 < hd (urlunsplit r)"
        unfolding cu using schh hd0 by (cases "sch = []") simp_all
      show "\<forall>c\<in>set (urlunsplit r). c \<notin> {9, 13, 10}"
        unfolding cu using schh pc qpc by (cases "sch = []") auto
    qed
    have b: "split_scheme (urlunsplit r) = (sch, pth @ qp)"
    proof (cases "sch = []")
      case True
      show ?thesis
      proof (cases "58 \<in> set pth")
        case True
        have "split_scheme (pth @ qp) = ([], pth @ qp)"
          using shape(4) [of qp] \<open>sch = []\<close> True unfolding sch_def pth_def by blast
        then show ?thesis
          using cu \<open>sch = []\<close> by simp
      next
        case False
        then have "58 \<notin> set (pth @ qp)"
          using qpc by auto
        then show ?thesis
          using cu \<open>sch = []\<close> split_scheme_no_colon by simp
      qed
    qed (simp add: cu schs)
    have "take 2 (pth @ qp) \<noteq> [47, 47]"
      using t2 qph take2_slashes by fastforce
    then have c: "(if take 2 (pth @ qp) = [47, 47] then splitnetloc (pth @ qp) else ([], pth @ qp)) = (nl, pth @ qp)"
      by (simp add: nl0)
    have "urlsplit (urlunsplit r) = Inr \<lparr>scheme = sch, netloc = nl, path = pth, query = qry, fragment = []\<rparr>"
      by (rule urlsplit_eqI [OF a b [unfolded qp_def] c [unfolded qp_def] nlv]) (use pc q in auto)
    moreover have "r\<lparr>path := pth\<rparr> = \<lparr>scheme = sch, netloc = nl, path = pth, query = qry, fragment = []\<rparr>"
      by (simp add: r sch_def nl_def pth_def)
    moreover have "r\<lparr>path := pth\<rparr> = r"
      by (simp add: r pth_def)
    ultimately show ?thesis
      using pfix by metis
  qed
qed



subsection \<open>Idempotence\<close>

lemma canonical_parts:
  assumes v: "valid_str url" and s: "urlsplit url = Inr parts"
    and e: "urlencode (sort (filter (\<lambda>(k, v). k \<notin> set TRACKING_PARAMS) (parse_qsl True (query parts)))) = Inr qry"
  shows "parse_qsl True qry = sort (filter (\<lambda>(k, v). k \<notin> set TRACKING_PARAMS) (parse_qsl True (query parts))) \<and>
         (\<forall>x\<in>set qry. 32 < x \<and> x \<notin> {35, 58, 63})"
proof -
  have "valid_str (query parts)"
    using v urlsplit_query_chars [OF s] by (rule valid_str_subset)
  then have "list_all (\<lambda>(k, v). valid_str k \<and> valid_str v) (parse_qsl True (query parts))"
    by (rule parse_qsl_valid)
  then have vl: "list_all (\<lambda>(k, v). valid_str k \<and> valid_str v)
                   (sort (filter (\<lambda>(k, v). k \<notin> set TRACKING_PARAMS) (parse_qsl True (query parts))))"
    by (auto simp: list_all_iff)
  show ?thesis
    using parse_qsl_urlencode [OF vl e] urlencode_chars [OF e vl] by blast
qed

text \<open>C9. The canonical URL is a fixed point: \<open>canonical\<close> of a canonical URL is
  that URL again, for every Python string \<open>canonical\<close> accepts. So two URLs that
  dedup considers the same page keep that key when it is canonicalised once more.\<close>

theorem canonical_idempotent:
  assumes "valid_str url" and "canonical url = Inr cu"
  shows "canonical cu = Inr cu"
proof -
  obtain parts where s: "urlsplit url = Inr parts"
    using assms(2) by (cases "urlsplit url") (auto simp: canonical_def)
  define ps where "ps = sort (filter (\<lambda>(k, v). k \<notin> set TRACKING_PARAMS) (parse_qsl True (query parts)))"
  obtain qry where e: "urlencode ps = Inr qry"
    and cu: "cu = urlunsplit \<lparr>scheme = scheme parts, netloc = py_lower (netloc parts),
                 path = rstrip_by (\<lambda>c. c = 47) (path parts), query = qry, fragment = []\<rparr>"
    using assms(2) s by (cases "urlencode ps") (auto simp: canonical_def Let_def ps_def)
  have pq: "parse_qsl True qry = ps" and qc: "\<forall>x\<in>set qry. 32 < x \<and> x \<notin> {35, 58, 63}"
    using canonical_parts [OF assms(1) s e [unfolded ps_def]] unfolding ps_def by blast+
  define r where "r = \<lparr>scheme = scheme parts, netloc = py_lower (netloc parts),
                 path = rstrip_by (\<lambda>c. c = 47) (path parts), query = qry, fragment = []\<rparr>"
  obtain p2 where sp: "urlsplit cu = Inr (r\<lparr>path := p2\<rparr>)" and f: "rstrip_by (\<lambda>c. c = 47) p2 = p2"
    and uu: "urlunsplit (r\<lparr>path := p2\<rparr>) = cu"
    using urlsplit_urlunsplit_canonical [OF s qc r_def] cu r_def by blast
  have keep: "sort (filter (\<lambda>(k, v). k \<notin> set TRACKING_PARAMS) ps) = ps"
    by (simp add: ps_def filter_sort sorted_sort_id)
  have rp: "r\<lparr>path := p2\<rparr> = \<lparr>scheme = scheme parts, netloc = py_lower (netloc parts), path = p2,
              query = qry, fragment = []\<rparr>"
    by (simp add: r_def)
  show ?thesis
    using uu unfolding rp by (simp add: canonical_def sp rp pq keep e f Let_def)
qed

theorem canonical_idempotent_witness:
  "canonical (py ''https://example.com/Path?a=1'') = Inr (py ''https://example.com/Path?a=1'')"
  using canonical_idempotent [OF _ canonical_spec_example] by (simp add: valid_str_def)

end
