(* ===== verification/Robots.thy ===== *)
theory Robots
  imports UrlCodec
begin

text \<open>
  The Politeness Gate of \<^verbatim>\<open>core/robots.py\<close> with the parts of the standard library
  it runs: \<^verbatim>\<open>urllib.robotparser\<close> of CPython 3.11 (\<open>RuleLine\<close>, \<open>Entry\<close>,
  \<open>RobotFileParser.read\<close>/\<open>parse\<close>/\<open>can_fetch\<close>) and the bounded
  \<open>functools.lru_cache\<close> that memoises \<open>robots_for\<close>.

  The process-wide state is \<open>robots_world\<close>: the reply \<open>urllib.request.urlopen\<close>
  gives for each robots.txt URL (an oracle), the log of robots.txt requests, the clock
  read by \<open>time.time()\<close>, and the LRU cache as a list of (netloc, parser) pairs from
  the least to the most recently used. Exceptions are values of \<open>robots_error\<close>; a
  parser that raised mid-parse keeps the fields it had set, as the Python object does.
  \<open>str.isdigit\<close> is modelled on ASCII digits (it only feeds \<open>Crawl-delay\<close> and
  \<open>Request-rate\<close>, which the crawler never reads).
\<close>

datatype robots_reply = RobotsBody bytes | RobotsHTTPError nat | RobotsURLError

datatype robots_error = UrlErr url_error | DecodeErr | OpenErr

record rule_line =
  rl_path :: pystr
  rl_allowance :: bool

record entry =
  useragents :: "pystr list"
  rulelines :: "rule_line list"
  delay :: "nat option"
  req_rate :: "(nat \<times> nat) option"

record robot_file_parser =
  entries :: "entry list"
  sitemaps :: "pystr list"
  default_entry :: "entry option"
  disallow_all :: bool
  allow_all :: bool
  rp_url :: pystr
  rp_host :: pystr
  rp_path :: pystr
  last_checked :: real

record robots_world =
  robots_replies :: "pystr \<Rightarrow> robots_reply"
  robots_requested :: "pystr list"
  clock :: real
  robots_cache :: "(pystr \<times> robot_file_parser) list"

subsection \<open>\<open>urllib.robotparser\<close>\<close>

text \<open>\<open>RuleLine(path, allowance)\<close>: an empty \<open>Disallow\<close> allows everything; the path is
  normalised by \<open>quote(urlunparse(urlparse(path)))\<close>, which raises on a malformed path.\<close>

definition make_rule_line :: "pystr \<Rightarrow> bool \<Rightarrow> url_error + rule_line" where
  "make_rule_line p a =
     (let a' = (if p = [] \<and> \<not> a then True else a) in
      case urlparse p of Inl e \<Rightarrow> Inl e
      | Inr r \<Rightarrow> (case quote (py ''/'') (urlunparse r) of Inl e \<Rightarrow> Inl e
                 | Inr q \<Rightarrow> Inr \<lparr>rl_path = q, rl_allowance = a'\<rparr>))"

definition rule_applies :: "rule_line \<Rightarrow> pystr \<Rightarrow> bool" where
  "rule_applies l filename \<longleftrightarrow> rl_path l = py ''*'' \<or> starts_with (rl_path l) filename"

definition new_entry :: entry where
  "new_entry = \<lparr>useragents = [], rulelines = [], delay = None, req_rate = None\<rparr>"

text \<open>\<open>Entry.applies_to\<close>: the name token of the agent, lower-cased, contains one of
  the entry's agents, or the entry has the catch-all agent.\<close>

definition entry_applies_to :: "entry \<Rightarrow> pystr \<Rightarrow> bool" where
  "entry_applies_to e ua =
     (let ua' = py_lower (hd (py_split 47 ua)) in
      list_ex (\<lambda>a. a = py ''*'' \<or> py_contains (py_lower a) ua') (useragents e))"

text \<open>\<open>Entry.allowance\<close>: the first rule line that applies decides.\<close>

definition allowance :: "entry \<Rightarrow> pystr \<Rightarrow> bool" where
  "allowance e filename =
     (case find (\<lambda>l. rule_applies l filename) (rulelines e) of Some l \<Rightarrow> rl_allowance l | None \<Rightarrow> True)"

definition init_parser :: robot_file_parser where
  "init_parser = \<lparr>entries = [], sitemaps = [], default_entry = None, disallow_all = False,
     allow_all = False, rp_url = [], rp_host = [], rp_path = [], last_checked = 0\<rparr>"

definition add_entry :: "robot_file_parser \<Rightarrow> entry \<Rightarrow> robot_file_parser" where
  "add_entry rp e =
     (if py ''*'' \<in> set (useragents e)
      then (if default_entry rp = None then rp\<lparr>default_entry := Some e\<rparr> else rp)
      else rp\<lparr>entries := entries rp @ [e]\<rparr>)"

definition is_digits :: "pystr \<Rightarrow> bool" where
  "is_digits s \<longleftrightarrow> s \<noteq> [] \<and> list_all ascii_digit s"

type_synonym parse_state = "nat \<times> entry \<times> robot_file_parser"

text \<open>One line of \<open>RobotFileParser.parse\<close>: states 0 (start), 1 (after
  \<open>User-agent\<close>) and 2 (after a rule).\<close>

definition add_rule :: "parse_state \<Rightarrow> pystr \<Rightarrow> bool \<Rightarrow> url_error + parse_state" where
  "add_rule s v a =
     (case s of (st, e, rp) \<Rightarrow>
        if st = 0 then Inr s
        else (case make_rule_line v a of Inl x \<Rightarrow> Inl x
              | Inr l \<Rightarrow> Inr (2, e\<lparr>rulelines := rulelines e @ [l]\<rparr>, rp)))"

definition parse_line :: "parse_state \<Rightarrow> pystr \<Rightarrow> url_error + parse_state" where
  "parse_line s0 line0 =
     (let (st, e, rp) = (case s0 of (st, e, rp) \<Rightarrow>
            if line0 = [] then (if st = 1 then (0, new_entry, rp)
                                else if st = 2 then (0, new_entry, add_entry rp e) else s0)
            else s0);
          line1 = py_strip (takeWhile (\<lambda>c. c \<noteq> 35) line0);
          (k0, has, v0) = py_partition 58 line1;
          k = py_lower (py_strip k0); v = unquote (py_strip v0)
      in if line1 = [] \<or> \<not> has then Inr (st, e, rp)
         else if k = py ''user-agent'' then
           (let (e', rp') = (if st = 2 then (new_entry, add_entry rp e) else (e, rp)) in
            Inr (1, e'\<lparr>useragents := useragents e' @ [v]\<rparr>, rp'))
         else if k = py ''disallow'' then add_rule (st, e, rp) v False
         else if k = py ''allow'' then add_rule (st, e, rp) v True
         else if k = py ''crawl-delay'' then
           (if st = 0 then Inr (st, e, rp)
            else Inr (2, if is_digits v then e\<lparr>delay := Some (dec_value v)\<rparr> else e, rp))
         else if k = py ''request-rate'' then
           (if st = 0 then Inr (st, e, rp)
            else (let ns = py_split 47 v in
                  Inr (2, if length ns = 2 \<and> is_digits (py_strip (ns ! 0)) \<and> is_digits (py_strip (ns ! 1))
                          then e\<lparr>req_rate := Some (dec_value (py_strip (ns ! 0)), dec_value (py_strip (ns ! 1)))\<rparr>
                          else e, rp)))
         else if k = py ''sitemap'' then Inr (st, e, rp\<lparr>sitemaps := sitemaps rp @ [v]\<rparr>)
         else Inr (st, e, rp))"

text \<open>The loop of \<open>parse\<close>: the parser object and the exception that stopped it, if any.
  An exception comes from a rule line, never from a blank line, so the object at that
  point is the one of the state before the line.\<close>

fun parse_lines :: "parse_state \<Rightarrow> pystr list \<Rightarrow> robot_file_parser \<times> url_error option" where
  "parse_lines (st, e, rp) [] = ((if st = 2 then add_entry rp e else rp), None)"
| "parse_lines s (l # ls) =
     (case parse_line s l of Inl x \<Rightarrow> (snd (snd s), Some x) | Inr s' \<Rightarrow> parse_lines s' ls)"

definition parse :: "real \<Rightarrow> pystr list \<Rightarrow> robot_file_parser \<Rightarrow> robot_file_parser \<times> url_error option" where
  "parse now lines rp = parse_lines (0, new_entry, rp\<lparr>last_checked := now\<rparr>) lines"

text \<open>\<open>read\<close>: an \<open>HTTPError\<close> 401/403 disallows all, another 4xx allows all, any other
  status leaves the parser unread; a body is decoded as strict UTF-8 and parsed. The
  request is logged; \<open>URLError\<close> and decoding errors propagate.\<close>

definition read :: "robot_file_parser \<Rightarrow> robots_world \<Rightarrow> (robots_error option \<times> robot_file_parser) \<times> robots_world" where
  "read rp w =
     (let w' = w\<lparr>robots_requested := robots_requested w @ [rp_url rp]\<rparr> in
      case robots_replies w (rp_url rp) of
        RobotsHTTPError code \<Rightarrow>
          ((None, if code = 401 \<or> code = 403 then rp\<lparr>disallow_all := True\<rparr>
                  else if 400 \<le> code \<and> code < 500 then rp\<lparr>allow_all := True\<rparr> else rp), w')
      | RobotsURLError \<Rightarrow> ((Some OpenErr, rp), w')
      | RobotsBody raw \<Rightarrow>
          (case decode_strict raw of Inl _ \<Rightarrow> ((Some DecodeErr, rp), w')
           | Inr txt \<Rightarrow> (case parse (clock w) (py_splitlines txt) rp of
                          (rp', x) \<Rightarrow> ((map_option UrlErr x, rp'), w'))))"

definition set_url :: "pystr \<Rightarrow> robot_file_parser \<Rightarrow> url_error + robot_file_parser" where
  "set_url u rp =
     (case urlparse u of Inl e \<Rightarrow> Inl e
      | Inr r \<Rightarrow> Inr (rp\<lparr>rp_url := u, rp_host := netloc r, rp_path := path r\<rparr>))"

text \<open>\<open>can_fetch\<close>: the URL is reduced to its quoted path, params, query and fragment;
  the first entry that applies to the agent decides, then the default entry; a parser
  that was never read allows nothing.\<close>

definition can_fetch :: "robot_file_parser \<Rightarrow> pystr \<Rightarrow> pystr \<Rightarrow> robots_error + bool" where
  "can_fetch rp ua u =
     (if disallow_all rp then Inr False
      else if allow_all rp then Inr True
      else if last_checked rp = 0 then Inr False
      else case urlparse (unquote u) of Inl e \<Rightarrow> Inl (UrlErr e)
        | Inr p \<Rightarrow>
           (case quote (py ''/'') (urlunparse \<lparr>scheme = [], netloc = [], path = path p, query = query p,
                                       fragment = fragment p, params = params p\<rparr>) of
              Inl e \<Rightarrow> Inl (UrlErr e)
            | Inr u1 \<Rightarrow>
               (let u2 = (if u1 = [] then py ''/'' else u1) in
                Inr (case find (\<lambda>e. entry_applies_to e ua) (entries rp) of
                       Some e \<Rightarrow> allowance e u2
                     | None \<Rightarrow> (case default_entry rp of Some d \<Rightarrow> allowance d u2 | None \<Rightarrow> True)))))"

subsection \<open>\<open>functools.lru_cache(maxsize=1024)\<close>\<close>

definition ROBOTS_CACHE_SIZE :: nat where
  "ROBOTS_CACHE_SIZE = 1024"

text \<open>A hit moves the entry to the most recent end; a miss appends the new entry and,
  when the cache is full, drops the least recently used one.\<close>

definition lru_touch :: "'k \<Rightarrow> 'v \<Rightarrow> ('k \<times> 'v) list \<Rightarrow> ('k \<times> 'v) list" where
  "lru_touch k v c = filter (\<lambda>p. fst p \<noteq> k) c @ [(k, v)]"

definition lru_insert :: "nat \<Rightarrow> 'k \<Rightarrow> 'v \<Rightarrow> ('k \<times> 'v) list \<Rightarrow> ('k \<times> 'v) list" where
  "lru_insert n k v c = (if n \<le> length c then tl c else c) @ [(k, v)]"

text \<open>The invariant of the cache: one entry per netloc, at most \<open>maxsize\<close> entries.\<close>

definition robots_cache_ok :: "robots_world \<Rightarrow> bool" where
  "robots_cache_ok w \<longleftrightarrow>
     distinct (map fst (robots_cache w)) \<and> length (robots_cache w) \<le> ROBOTS_CACHE_SIZE"

subsection \<open>\<^verbatim>\<open>core/robots.py\<close>\<close>

definition AGENT :: pystr where
  "AGENT = py ''*''"

definition robots_url :: "pystr \<Rightarrow> pystr" where
  "robots_url nl = py ''https://'' @ nl @ py ''/robots.txt''"

text \<open>The body of \<open>robots_for\<close>: \<open>set_url\<close> is outside the \<open>try\<close>, every exception of
  \<open>read\<close> is swallowed and the parser is returned as \<open>read\<close> left it.\<close>

definition robots_for_body :: "pystr \<Rightarrow> robots_world \<Rightarrow> (robots_error + robot_file_parser) \<times> robots_world" where
  "robots_for_body nl w =
     (case set_url (robots_url nl) init_parser of Inl e \<Rightarrow> (Inl (UrlErr e), w)
      | Inr rp \<Rightarrow> (case read rp w of ((_, rp'), w') \<Rightarrow> (Inr rp', w')))"

definition robots_for :: "pystr \<Rightarrow> robots_world \<Rightarrow> (robots_error + robot_file_parser) \<times> robots_world" where
  "robots_for nl w =
     (case map_of (robots_cache w) nl of
        Some rp \<Rightarrow> (Inr rp, w\<lparr>robots_cache := lru_touch nl rp (robots_cache w)\<rparr>)
      | None \<Rightarrow> (case robots_for_body nl w of
                  (Inl e, w') \<Rightarrow> (Inl e, w')
                | (Inr rp, w') \<Rightarrow>
                    (Inr rp, w'\<lparr>robots_cache := lru_insert ROBOTS_CACHE_SIZE nl rp (robots_cache w')\<rparr>)))"

text \<open>\<open>allowed\<close>: \<open>urlparse\<close> and \<open>robots_for\<close> are outside the \<open>try\<close>; an exception of
  \<open>can_fetch\<close> allows.\<close>

definition allowed :: "pystr \<Rightarrow> pystr \<Rightarrow> robots_world \<Rightarrow> (robots_error + bool) \<times> robots_world" where
  "allowed u agent w =
     (case urlparse u of Inl e \<Rightarrow> (Inl (UrlErr e), w)
      | Inr r \<Rightarrow> (case robots_for (netloc r) w of
                   (Inl e, w') \<Rightarrow> (Inl e, w')
                 | (Inr rp, w') \<Rightarrow> (Inr (case can_fetch rp agent u of Inl _ \<Rightarrow> True | Inr b \<Rightarrow> b), w')))"

text \<open>The test fixture: a process that has not contacted any host yet, whose robots.txt
  requests all get the same reply.\<close>

definition fresh_world :: "robots_reply \<Rightarrow> robots_world" where
  "fresh_world rep = \<lparr>robots_replies = \<lambda>_. rep, robots_requested = [], clock = 1, robots_cache = []\<rparr>"

subsection \<open>The cache\<close>

lemma distinct_lru_touch: "distinct (map fst c) \<Longrightarrow> distinct (map fst (lru_touch k v c))"
  by (auto simp: lru_touch_def distinct_map_filter)

lemma filter_key_absent: "k \<notin> fst ` set c \<Longrightarrow> filter (\<lambda>p. fst p \<noteq> k) c = c"
  by (induction c) auto

lemma map_of_filter_key: "map_of (filter (\<lambda>p. fst p \<noteq> k) c) x = (if x = k then None else map_of c x)"
  by (induction c) auto

lemma length_lru_touch:
  "distinct (map fst c) \<Longrightarrow> k \<in> fst ` set c \<Longrightarrow> length (lru_touch k v c) = length c"
proof (induction c)
  case Nil
  then show ?case by simp
next
  case (Cons p c)
  then show ?case
    by (cases "fst p = k") (auto simp: lru_touch_def filter_key_absent)
qed

lemma map_of_lru_touch: "map_of c k = Some v \<Longrightarrow> map_of (lru_touch k v c) = map_of c"
  by (rule ext) (auto simp: lru_touch_def map_of_append map_of_filter_key map_add_def split: option.splits)

lemma keys_lru_touch: "fst ` set (lru_touch k v c) = insert k (fst ` set c)"
  by (auto simp: lru_touch_def)

lemma distinct_lru_insert:
  "distinct (map fst c) \<Longrightarrow> k \<notin> fst ` set c \<Longrightarrow> distinct (map fst (lru_insert n k v c))"
  by (cases c) (auto simp: lru_insert_def)

lemma length_lru_insert:
  "length c \<le> n \<Longrightarrow> 0 < n \<Longrightarrow> length (lru_insert n k v c) \<le> n"
  by (auto simp: lru_insert_def)

lemma lru_insert_no_evict:
  "length c < n \<Longrightarrow> lru_insert n k v c = c @ [(k, v)]"
  by (simp add: lru_insert_def)

subsection \<open>What \<open>robots_for\<close> does to the world\<close>

lemma read_world:
  "read rp w = (x, w') \<Longrightarrow> w' = w\<lparr>robots_requested := robots_requested w @ [rp_url rp]\<rparr>"
  by (auto simp: read_def Let_def split: robots_reply.splits sum.splits prod.splits)

lemma set_url_Inr: "set_url u rp = Inr rp' \<Longrightarrow> rp_url rp' = u"
  by (auto simp: set_url_def split: sum.splits)

lemma robots_for_body_world:
  "robots_for_body nl w = (x, w') \<Longrightarrow>
   (\<exists>rp. x = Inr rp \<and> w' = w\<lparr>robots_requested := robots_requested w @ [robots_url nl]\<rparr>) \<or>
   (\<exists>e. x = Inl e \<and> w' = w)"
proof (cases "set_url (robots_url nl) init_parser")
  case (Inl e)
  assume "robots_for_body nl w = (x, w')"
  with Inl show ?thesis by (auto simp: robots_for_body_def)
next
  case (Inr rp)
  assume b: "robots_for_body nl w = (x, w')"
  obtain y rp' w'' where r: "read rp w = ((y, rp'), w'')"
    by (metis prod.collapse)
  have "w'' = w\<lparr>robots_requested := robots_requested w @ [robots_url nl]\<rparr>"
    using read_world [OF r] set_url_Inr [OF Inr] by simp
  with Inr r b show ?thesis
    by (auto simp: robots_for_body_def)
qed

lemma robots_for_hit:
  "map_of (robots_cache w) nl = Some rp \<Longrightarrow>
   robots_for nl w = (Inr rp, w\<lparr>robots_cache := lru_touch nl rp (robots_cache w)\<rparr>)"
  by (simp add: robots_for_def)

lemma robots_for_miss:
  "map_of (robots_cache w) nl = None \<Longrightarrow> robots_for nl w = (x, w') \<Longrightarrow>
   (\<exists>rp. x = Inr rp \<and> w' = w\<lparr>robots_requested := robots_requested w @ [robots_url nl],
                          robots_cache := lru_insert ROBOTS_CACHE_SIZE nl rp (robots_cache w)\<rparr>) \<or>
   (\<exists>e. x = Inl e \<and> w' = w)"
  by (cases "robots_for_body nl w") (auto simp: robots_for_def dest!: robots_for_body_world split: sum.splits)

lemma robots_for_cache_ok:
  assumes ok: "robots_cache_ok w" and rf: "robots_for nl w = (x, w')"
  shows "robots_cache_ok w'"
proof (cases "map_of (robots_cache w) nl")
  case None
  then have "nl \<notin> fst ` set (robots_cache w)"
    by (simp add: map_of_eq_None_iff)
  with ok None rf show ?thesis
    by (auto simp: robots_cache_ok_def ROBOTS_CACHE_SIZE_def distinct_lru_insert length_lru_insert
             dest!: robots_for_miss)
next
  case (Some rp)
  then have "nl \<in> fst ` set (robots_cache w)"
    by (force dest: map_of_SomeD)
  moreover from rf Some have "w' = w\<lparr>robots_cache := lru_touch nl rp (robots_cache w)\<rparr>"
    by (simp add: robots_for_hit)
  ultimately show ?thesis
    using ok by (simp add: robots_cache_ok_def distinct_lru_touch length_lru_touch)
qed

lemma allowed_cases:
  "allowed u a w = (x, w') \<Longrightarrow>
   (\<exists>e. urlparse u = Inl e \<and> x = Inl (UrlErr e) \<and> w' = w) \<or>
   (\<exists>r. urlparse u = Inr r \<and>
      ((\<exists>e. robots_for (netloc r) w = (Inl e, w') \<and> x = Inl e) \<or>
       (\<exists>rp. robots_for (netloc r) w = (Inr rp, w') \<and>
             x = Inr (case can_fetch rp a u of Inl _ \<Rightarrow> True | Inr b \<Rightarrow> b))))"
  by (auto simp: allowed_def split: sum.splits prod.splits)

text \<open>C4. The robots cache stays an LRU cache: whatever \<open>allowed\<close> does, the cache
  holds at most one parser per netloc and at most 1024 parsers.\<close>

theorem allowed_preserves_cache_ok:
  "robots_cache_ok w \<Longrightarrow> allowed u a w = (x, w') \<Longrightarrow> robots_cache_ok w'"
  by (auto dest!: allowed_cases intro: robots_for_cache_ok)

theorem allowed_preserves_cache_ok_witness:
  "robots_cache_ok (snd (allowed (py ''https://example.com/x'') AGENT
     \<lparr>robots_replies = \<lambda>_. RobotsURLError, robots_requested = [], clock = 1, robots_cache = []\<rparr>))"
  by (rule allowed_preserves_cache_ok [OF _ prod.collapse [symmetric]]) (simp add: robots_cache_ok_def)

text \<open>C7. A host whose parser is cached is decided by that parser without a new robots.txt
  request, with the fail-open of \<open>allowed\<close> on an exception of \<open>can_fetch\<close>; the
  cache's contents stay the same (only the recency order changes).\<close>

theorem allowed_cached_no_refetch:
  assumes "urlparse u = Inr r" and "map_of (robots_cache w) (netloc r) = Some rp"
  shows "fst (allowed u a w) = Inr (case can_fetch rp a u of Inl _ \<Rightarrow> True | Inr b \<Rightarrow> b) \<and>
         robots_requested (snd (allowed u a w)) = robots_requested w \<and>
         map_of (robots_cache (snd (allowed u a w))) = map_of (robots_cache w)"
  using assms by (simp add: allowed_def robots_for_hit map_of_lru_touch)

subsection \<open>The robots.txt URL of a parsed netloc parses\<close>

lemma urlsplit_robots_url:
  assumes nl: "\<forall>c\<in>set nl. c \<notin> {9, 13, 10} \<and> \<not> url_delim c" and v: "netloc_valid nl"
  shows "urlsplit (robots_url nl) =
    Inr \<lparr>scheme = py ''https'', netloc = nl, path = py ''/robots.txt'', query = [], fragment = []\<rparr>"
proof -
  have f: "filter (\<lambda>c. c \<notin> {9, 13, 10}) nl = nl"
    using nl by (simp add: filter_id_conv)
  have t: "takeWhile (\<lambda>c. \<not> url_delim c) (nl @ py ''/robots.txt'') = nl"
    "dropWhile (\<lambda>c. \<not> url_delim c) (nl @ py ''/robots.txt'') = py ''/robots.txt''"
    using nl by (simp_all add: takeWhile_append2 dropWhile_append2 url_delim_def)
  show ?thesis
    using v f t
    by (simp add: urlsplit_def robots_url_def lstrip_by_def split_scheme_def splitnetloc_def
        py_partition_def ascii_alpha_def scheme_char_def ascii_digit_def py_lower_def py_lower_char_def)
qed

lemma set_url_robots_url:
  assumes "urlsplit u = Inr r"
  shows "set_url (robots_url (netloc r)) init_parser =
    Inr (init_parser\<lparr>rp_url := robots_url (netloc r), rp_host := netloc r, rp_path := py ''/robots.txt''\<rparr>)"
  using urlsplit_Inr [OF assms]
  by (simp add: set_url_def urlparse_def urlsplit_robots_url uses_params_def)

lemma urlparse_Inr: "urlparse u = Inr r \<Longrightarrow> \<exists>r0. urlsplit u = Inr r0 \<and> netloc r0 = netloc r"
  by (auto simp: urlparse_def split: sum.splits prod.splits)

lemma can_fetch_unread:
  "last_checked rp = 0 \<Longrightarrow> \<not> disallow_all rp \<Longrightarrow> \<not> allow_all rp \<Longrightarrow> can_fetch rp a u = Inr False"
  by (simp add: can_fetch_def)

subsection \<open>The first contact with a host\<close>

lemma allowed_miss:
  assumes u: "urlparse u = Inr r" and m: "map_of (robots_cache w) (netloc r) = None"
  shows "allowed u a w =
    (case read (init_parser\<lparr>rp_url := robots_url (netloc r), rp_host := netloc r,
                             rp_path := py ''/robots.txt''\<rparr>) w of
       ((_, rp'), w') \<Rightarrow>
         (Inr (case can_fetch rp' a u of Inl _ \<Rightarrow> True | Inr b \<Rightarrow> b),
          w'\<lparr>robots_cache := lru_insert ROBOTS_CACHE_SIZE (netloc r) rp' (robots_cache w')\<rparr>))"
proof -
  obtain r0 where r0: "urlsplit u = Inr r0" "netloc r0 = netloc r"
    using urlparse_Inr [OF u] by blast
  note su = set_url_robots_url [OF r0(1), unfolded r0(2)]
  show ?thesis
    using u m su by (simp add: allowed_def robots_for_def robots_for_body_def split: prod.split)
qed

lemma map_of_lru_insert_new: "map_of c k = None \<Longrightarrow> map_of (lru_insert n k v c) k = Some v"
proof -
  assume m: "map_of c k = None"
  then have "map_of (if n \<le> length c then tl c else c) k = None"
    by (cases c) (auto split: if_splits)
  then show ?thesis
    by (simp add: lru_insert_def map_of_append map_add_def)
qed



text \<open>C2. The first \<open>allowed\<close> for a host not in the cache requests its robots.txt once
  and decides by the reply: an unreachable robots.txt (\<open>URLError\<close>), a 5xx or other
  non-4xx error status, or a body that is not UTF-8 all \<^emph>\<open>disallow\<close> (the parser is
  left unread); 401 and 403 disallow; any other 4xx allows; a body is parsed and
  evaluated, with the fail-open on an exception of \<open>can_fetch\<close>.\<close>

theorem allowed_first_contact:
  assumes u: "urlparse u = Inr r" and m: "map_of (robots_cache w) (netloc r) = None"
  shows "fst (allowed u a w) = Inr (case robots_replies w (robots_url (netloc r)) of
             RobotsURLError \<Rightarrow> False
           | RobotsHTTPError c \<Rightarrow> 400 \<le> c \<and> c < 500 \<and> c \<noteq> 401 \<and> c \<noteq> 403
           | RobotsBody raw \<Rightarrow>
               (case decode_strict raw of Inl _ \<Rightarrow> False
                | Inr txt \<Rightarrow>
                    (case can_fetch (fst (parse (clock w) (py_splitlines txt)
                            (init_parser\<lparr>rp_url := robots_url (netloc r), rp_host := netloc r,
                                         rp_path := py ''/robots.txt''\<rparr>))) a u of
                       Inl _ \<Rightarrow> True | Inr b \<Rightarrow> b))) \<and>
         robots_requested (snd (allowed u a w)) = robots_requested w @ [robots_url (netloc r)]"
proof -
  note base = allowed_miss [OF u m]
  show ?thesis
  proof (cases "robots_replies w (robots_url (netloc r))")
    case (RobotsBody raw)
    then show ?thesis
      by (cases "decode_strict raw") (simp_all add: base read_def can_fetch_unread init_parser_def split: prod.split)
  next
    case (RobotsHTTPError c)
    then show ?thesis
      by (simp add: base read_def can_fetch_def init_parser_def)
  next
    case RobotsURLError
    then show ?thesis
      by (simp add: base read_def can_fetch_unread init_parser_def)
  qed
qed

lemmas robots_eval = allowed_def robots_for_def robots_for_body_def set_url_def read_def robots_url_def
  init_parser_def can_fetch_def entry_applies_to_def allowance_def rule_applies_def decode_strict_def
  utf8_step_def py_splitlines_def line_boundary_def AGENT_def py_contains_def starts_with_def
  parse_def parse_line_def add_rule_def make_rule_line_def urlparse_def urlunparse_def urlunsplit_def
  uses_params_def uses_netloc_def splitparams_def py_strip_def rstrip_by_def py_isspace_def new_entry_def
  add_entry_def fresh_world_def lru_insert_def lru_touch_def ROBOTS_CACHE_SIZE_def urlsplit_eval query_eval

theorem allowed_first_contact_witness:
  "fst (allowed (py ''https://example.com/x'') AGENT (fresh_world RobotsURLError)) = Inr False \<and>
   robots_requested (snd (allowed (py ''https://example.com/x'') AGENT (fresh_world RobotsURLError))) =
     [py ''https://example.com/robots.txt'']"
proof -
  have u: "urlparse (py ''https://example.com/x'') =
    Inr \<lparr>scheme = py ''https'', netloc = py ''example.com'', path = py ''/x'', query = [], fragment = [],
         params = []\<rparr>"
    by (simp add: urlparse_def urlsplit_eval uses_params_def)
  show ?thesis
    using allowed_first_contact [OF u, of "fresh_world RobotsURLError" AGENT]
    by (simp add: fresh_world_def robots_url_def)
qed

theorem allowed_cached_no_refetch_witness:
  "fst (allowed (py ''https://example.com/x'') AGENT
     \<lparr>robots_replies = \<lambda>_. RobotsURLError, robots_requested = [], clock = 1,
      robots_cache = [(py ''example.com'', init_parser\<lparr>allow_all := True\<rparr>)]\<rparr>) = Inr True \<and>
   robots_requested (snd (allowed (py ''https://example.com/x'') AGENT
     \<lparr>robots_replies = \<lambda>_. RobotsURLError, robots_requested = [], clock = 1,
      robots_cache = [(py ''example.com'', init_parser\<lparr>allow_all := True\<rparr>)]\<rparr>)) = []"
proof -
  have u: "urlparse (py ''https://example.com/x'') =
    Inr \<lparr>scheme = py ''https'', netloc = py ''example.com'', path = py ''/x'', query = [], fragment = [],
         params = []\<rparr>"
    by (simp add: urlparse_def urlsplit_eval uses_params_def)
  show ?thesis
    using allowed_cached_no_refetch [OF u, of "\<lparr>robots_replies = \<lambda>_. RobotsURLError, robots_requested = [],
      clock = 1, robots_cache = [(py ''example.com'', init_parser\<lparr>allow_all := True\<rparr>)]\<rparr>"
      "init_parser\<lparr>allow_all := True\<rparr>" AGENT]
    by (simp add: can_fetch_def init_parser_def)
qed

text \<open>C10. An unreachable robots.txt closes its host for the life of the cache entry:
  the first \<open>allowed\<close> returns \<open>False\<close>, and every later \<open>allowed\<close> for a URL of
  the same netloc returns \<open>False\<close> too, without another robots.txt request.\<close>

theorem allowed_unreachable_closed:
  assumes u: "urlparse u = Inr r" and m: "map_of (robots_cache w) (netloc r) = None"
    and e: "robots_replies w (robots_url (netloc r)) = RobotsURLError"
    and u': "urlparse u' = Inr r'" and n: "netloc r' = netloc r"
  shows "fst (allowed u a w) = Inr False \<and> fst (allowed u' a' (snd (allowed u a w))) = Inr False \<and>
         robots_requested (snd (allowed u' a' (snd (allowed u a w)))) = robots_requested w @ [robots_url (netloc r)]"
proof -
  let ?rp = "init_parser\<lparr>rp_url := robots_url (netloc r), rp_host := netloc r, rp_path := py ''/robots.txt''\<rparr>"
  have w1: "allowed u a w = (Inr False, w\<lparr>robots_requested := robots_requested w @ [robots_url (netloc r)],
      robots_cache := lru_insert ROBOTS_CACHE_SIZE (netloc r) ?rp (robots_cache w)\<rparr>)"
    using allowed_miss [OF u m] e by (simp add: read_def can_fetch_unread init_parser_def)
  have "map_of (lru_insert ROBOTS_CACHE_SIZE (netloc r) ?rp (robots_cache w)) (netloc r) = Some ?rp"
    using m by (rule map_of_lru_insert_new)
  with w1 u' n show ?thesis
    by (simp add: allowed_def robots_for_hit can_fetch_unread init_parser_def)
qed

theorem allowed_unreachable_closed_witness:
  "fst (allowed (py ''https://example.com/x'') AGENT (fresh_world RobotsURLError)) = Inr False \<and>
   fst (allowed (py ''https://example.com/y'') AGENT
     (snd (allowed (py ''https://example.com/x'') AGENT (fresh_world RobotsURLError)))) = Inr False"
proof -
  have u: "urlparse (py ''https://example.com/x'') =
    Inr \<lparr>scheme = py ''https'', netloc = py ''example.com'', path = py ''/x'', query = [], fragment = [],
         params = []\<rparr>"
    by (simp add: urlparse_def urlsplit_eval uses_params_def)
  have u': "urlparse (py ''https://example.com/y'') =
    Inr \<lparr>scheme = py ''https'', netloc = py ''example.com'', path = py ''/y'', query = [], fragment = [],
         params = []\<rparr>"
    by (simp add: urlparse_def urlsplit_eval uses_params_def)
  show ?thesis
    using allowed_unreachable_closed [OF u _ _ u', of "fresh_world RobotsURLError" AGENT AGENT]
    by (simp add: fresh_world_def)
qed

text \<open>The robots.txt test of the spec, run through \<open>RobotFileParser\<close>: with
  \<open>User-agent: *\<close> and \<open>Disallow: /private\<close>, a URL under \<open>/private\<close> is refused and
  another path of the same host is allowed from the cached parser; robots.txt is
  requested once.\<close>

theorem allowed_spec_example:
  "fst (allowed (py ''https://example.com/private/a'') AGENT
     (fresh_world (RobotsBody (py ''User-agent: *'' @ [10] @ py ''Disallow: /private'')))) = Inr False \<and>
   fst (allowed (py ''https://example.com/public'') AGENT (snd (allowed (py ''https://example.com/private/a'') AGENT
     (fresh_world (RobotsBody (py ''User-agent: *'' @ [10] @ py ''Disallow: /private'')))))) = Inr True \<and>
   robots_requested (snd (allowed (py ''https://example.com/public'') AGENT (snd (allowed (py ''https://example.com/private/a'') AGENT
     (fresh_world (RobotsBody (py ''User-agent: *'' @ [10] @ py ''Disallow: /private''))))))) =
     [py ''https://example.com/robots.txt'']"
  by (simp add: robots_eval)

text \<open>\<open>can_fetch\<close> takes the first rule line whose path is a prefix, not the longest
  match the spec asks for: with \<open>Disallow: /\<close> before \<open>Allow: /public\<close>, a page under
  \<open>/public\<close> is refused.\<close>

theorem allowed_first_match:
  "fst (allowed (py ''https://example.com/public/page'') AGENT
     (fresh_world (RobotsBody (py ''User-agent: *'' @ [10] @ py ''Disallow: /'' @ [10] @ py ''Allow: /public'')))) =
   Inr False"
  by (simp add: robots_eval)

lemma urlunparse_path_chars: "set (path r) \<subseteq> set (urlunparse r)"
  by (auto simp: urlunparse_def urlunsplit_def Let_def)

lemma quote_surrogate: "\<exists>c\<in>set s. is_surrogate c \<Longrightarrow> quote safe s = Inl EncodeError"
  by (auto simp: quote_def encode_strict_def list_ex_iff)

text \<open>C32. The fail-open of \<open>allowed\<close> lets through every URL with a lone surrogate in
  its path, whatever robots.txt says: once a parser has read a robots.txt that does
  not forbid everything, \<open>can_fetch\<close>'s \<open>quote\<close> raises \<open>UnicodeEncodeError\<close> on such
  a path (one without \<open>%\<close>-escapes, which \<open>unquote\<close> leaves as it is) and \<open>allowed\<close>
  answers \<open>True\<close>.\<close>

theorem allowed_fail_open_bypass:
  assumes "urlparse u = Inr r" and "37 \<notin> set u" and "\<exists>c\<in>set (path r). is_surrogate c"
    and "robots_for (netloc r) w = (Inr rp, w')" and "\<not> disallow_all rp" and "last_checked rp \<noteq> 0"
  shows "allowed u agent w = (Inr True, w')"
proof -
  have "unquote u = u"
    using assms(2) by (simp add: unquote_def)
  moreover have "quote (py ''/'') (urlunparse \<lparr>scheme = [], netloc = [], path = path r, query = query r,
                   fragment = fragment r, params = params r\<rparr>) = Inl EncodeError"
    using assms(3) urlunparse_path_chars [of "\<lparr>scheme = [], netloc = [], path = path r, query = query r,
                   fragment = fragment r, params = params r\<rparr>"]
    by (intro quote_surrogate) auto
  ultimately have "case can_fetch rp agent u of Inl _ \<Rightarrow> True | Inr b \<Rightarrow> b"
    using assms(1,5,6) by (simp add: can_fetch_def)
  with assms(1,4) show ?thesis
    by (simp add: allowed_def split: sum.split_asm)
qed

theorem allowed_fail_open_bypass_witness:
  "fst (allowed (py ''https://example.com/x'' @ [56320]) AGENT
     (fresh_world (RobotsBody (py ''User-agent: *'' @ [10] @ py ''Disallow: /'')))) = Inr True \<and>
   fst (allowed (py ''https://example.com/x'') AGENT
     (fresh_world (RobotsBody (py ''User-agent: *'' @ [10] @ py ''Disallow: /'')))) = Inr False"
proof -
  let ?u = "py ''https://example.com/x'' @ [56320]"
  let ?w = "fresh_world (RobotsBody (py ''User-agent: *'' @ [10] @ py ''Disallow: /''))"
  have p: "urlparse ?u = Inr (projr (urlparse ?u))"
    by (simp add: robots_eval)
  have c: "\<exists>c\<in>set (path (projr (urlparse ?u))). is_surrogate c"
    by (simp add: robots_eval is_surrogate_def)
  have f: "robots_for (netloc (projr (urlparse ?u))) ?w =
    (Inr (projr (fst (robots_for (netloc (projr (urlparse ?u))) ?w))), snd (robots_for (netloc (projr (urlparse ?u))) ?w))"
    by (simp add: robots_eval)
  have d: "\<not> disallow_all (projr (fst (robots_for (netloc (projr (urlparse ?u))) ?w)))"
    "last_checked (projr (fst (robots_for (netloc (projr (urlparse ?u))) ?w))) \<noteq> 0"
    by (simp_all add: robots_eval)
  have "fst (allowed (py ''https://example.com/x'') AGENT ?w) = Inr False"
    by (simp add: robots_eval)
  with allowed_fail_open_bypass [OF p _ c f d] show ?thesis
    by simp
qed

text \<open>\<open>allowed\<close> throws: \<open>urlparse\<close> runs outside its \<open>try\<close>, so a URL with an
  unbalanced bracket in the netloc raises \<open>ValueError\<close> to the caller, and no
  robots.txt is requested.\<close>

theorem allowed_raises:
  "allowed (py ''http://[::1/x'') a w = (Inl (UrlErr ValueError), w)"
  by (simp add: allowed_def urlparse_def urlsplit_eval)

text \<open>The cache is keyed by the netloc string, not by the host: the same host written
  with different letter case gets a second parser and a second robots.txt request.\<close>

theorem allowed_cache_key_case:
  "robots_requested (snd (allowed (py ''https://example.com/y'') AGENT
     (snd (allowed (py ''https://Example.COM/x'') AGENT (fresh_world RobotsURLError))))) =
   [py ''https://Example.COM/robots.txt'', py ''https://example.com/robots.txt'']"
  by (simp add: robots_eval)

end
