(* ===== verification/Parse.thy ===== *)
theory Parse
  imports PyStr
begin

text \<open>
  The HTML title/text extraction of \<^verbatim>\<open>core/parse.py\<close>. \<open>_TitleTextParser\<close> is an
  \<open>html.parser.HTMLParser\<close> subclass; its state is the record \<open>tt_state\<close> and its
  handlers are functions on it. The events the base class delivers come from
  \<open>html_tok\<close>, a model of \<open>HTMLParser.goahead\<close> of CPython 3.11 with
  \<open>convert_charrefs=True\<close> and without \<open>close()\<close> (the source calls only \<open>feed\<close>):
  text runs between markup are one \<open>handle_data\<close> call; start tags, end tags and
  \<open><tag/>\<close> are recognised with their lower-cased names; comments, declarations and
  processing instructions are skipped; the content of \<open>script\<close> and \<open>style\<close> is data
  up to the closing tag; a construct that is not complete at the end of the input, and a
  final text run that may end in a cut character reference, stay in the buffer and are
  never delivered. The model does not decode character references (\<open>unescape\<close>), does
  not look inside quoted attribute values for \<open>>\<close>, and reads \<open></script>\<close> without
  inner whitespace.

  \<open>parse_article\<close> prefers an external extractor (readability and BeautifulSoup); it is
  a parameter \<open>ext\<close> that returns \<open>None\<close> when the libraries are missing or raise.
\<close>

datatype html_event = StartTag pystr | EndTag pystr | StartEndTag pystr | Data pystr

subsection \<open>The tokenizer of \<open>html.parser\<close>\<close>

definition str_find :: "pystr \<Rightarrow> pystr \<Rightarrow> nat option" where
  "str_find pat s = find (\<lambda>i. starts_with pat (drop i s)) [0..<Suc (length s) - length pat]"

definition tag_name_char :: "nat \<Rightarrow> bool" where
  "tag_name_char c \<longleftrightarrow> c \<notin> {0, 9, 10, 12, 13, 32, 47, 62}"

text \<open>\<open>tagfind_tolerant\<close>: a letter and the characters up to white space, \<open>/\<close> or \<open>>\<close>.\<close>

definition tagfind :: "pystr \<Rightarrow> pystr option" where
  "tagfind s = (if s \<noteq> [] \<and> ascii_alpha (hd s) then Some (hd s # takeWhile tag_name_char (tl s)) else None)"

text \<open>The check of \<open>goahead\<close> before it delivers a final text run: an \<open>&\<close> among the last 34
  characters with neither white space nor \<open>;\<close> after it may start a cut character
  reference, so the text waits for more input.\<close>

definition trailing_amp :: "pystr \<Rightarrow> bool" where
  "trailing_amp s \<longleftrightarrow>
     (let t = drop (length s - 34) s in
      38 \<in> set t \<and> \<not> list_ex (\<lambda>c. py_isspace c \<or> c = 59) (rev (takeWhile (\<lambda>c. c \<noteq> 38) (rev t))))"

definition CDATA_CONTENT_ELEMENTS :: "pystr list" where
  "CDATA_CONTENT_ELEMENTS = [py ''script'', py ''style'']"

function html_tok :: "pystr option \<Rightarrow> pystr \<Rightarrow> html_event list" where
  "html_tok cd s =
     (if s = [] then []
      else case cd of
        Some elem \<Rightarrow>
          (case str_find (py ''</'' @ elem @ py ''>'') (py_lower s) of
             None \<Rightarrow> []
           | Some j \<Rightarrow> (if 0 < j then [Data (take j s)] else []) @
                       EndTag elem # html_tok None (drop (j + length elem + 3) s))
      | None \<Rightarrow>
          (case str_find [60] s of
             None \<Rightarrow> (if trailing_amp s then [] else [Data s])
           | Some j \<Rightarrow>
              if 0 < j then Data (take j s) # html_tok None (drop j s)
              else (let t = tl s in
                if t \<noteq> [] \<and> ascii_alpha (hd t) then
                  (case str_find [62] t of
                     None \<Rightarrow> []
                   | Some k \<Rightarrow>
                      (let body = take k t; name = py_lower (takeWhile tag_name_char body) in
                       if take 1 (rev (rstrip_by py_isspace body)) = [47]
                       then StartEndTag name # html_tok None (drop (Suc k) t)
                       else StartTag name #
                              html_tok (if name \<in> set CDATA_CONTENT_ELEMENTS then Some name else None)
                                (drop (Suc k) t)))
                else if take 1 t = [47] then
                  (case str_find [62] t of
                     None \<Rightarrow> []
                   | Some k \<Rightarrow>
                      (case tagfind (tl t) of
                         None \<Rightarrow> html_tok None (drop (Suc k) t)
                       | Some n \<Rightarrow> EndTag (py_lower n) # html_tok None (drop (Suc k) t)))
                else if take 3 t = py ''!--'' then
                  (case str_find (py ''-->'') (drop 3 t) of
                     None \<Rightarrow> []
                   | Some k \<Rightarrow> html_tok None (drop (k + 3) (drop 3 t)))
                else if take 1 t = [63] \<or> take 1 t = [33] then
                  (case str_find [62] t of
                     None \<Rightarrow> []
                   | Some k \<Rightarrow> html_tok None (drop (Suc k) t))
                else if t \<noteq> [] then Data [60] # html_tok None t
                else [])))"
  by pat_completeness auto
termination
  by (relation "measure (\<lambda>(cd, s). length s)") auto

declare html_tok.simps [simp del]

subsection \<open>\<open>_TitleTextParser\<close>\<close>

record tt_state =
  in_title :: bool
  title :: "pystr option"
  text_parts :: "pystr list"

definition tt_init :: tt_state where
  "tt_init = \<lparr>in_title = False, title = None, text_parts = []\<rparr>"

definition handle_starttag :: "pystr \<Rightarrow> tt_state \<Rightarrow> tt_state" where
  "handle_starttag tag st = (if py_lower tag = py ''title'' then st\<lparr>in_title := True\<rparr> else st)"

definition handle_endtag :: "pystr \<Rightarrow> tt_state \<Rightarrow> tt_state" where
  "handle_endtag tag st = (if py_lower tag = py ''title'' then st\<lparr>in_title := False\<rparr> else st)"

text \<open>\<open>handle_data\<close>: inside the title the first non-empty stripped run is kept
  (\<open>self.title or data\<close>); outside, every non-empty stripped run is a text part.\<close>

definition handle_data :: "pystr \<Rightarrow> tt_state \<Rightarrow> tt_state" where
  "handle_data data st =
     (let d = py_strip data in
      if in_title st then
        (if d \<noteq> [] then st\<lparr>title := (case title st of Some t \<Rightarrow> if t \<noteq> [] then Some t else Some d
                                                  | None \<Rightarrow> Some d)\<rparr>
         else st)
      else if d \<noteq> [] then st\<lparr>text_parts := text_parts st @ [d]\<rparr> else st)"

text \<open>The dispatch of the base class; \<open>handle_startendtag\<close> calls the start and the end
  handler.\<close>

fun handle_event :: "tt_state \<Rightarrow> html_event \<Rightarrow> tt_state" where
  "handle_event st (StartTag t) = handle_starttag t st"
| "handle_event st (EndTag t) = handle_endtag t st"
| "handle_event st (StartEndTag t) = handle_endtag t (handle_starttag t st)"
| "handle_event st (Data d) = handle_data d st"

definition tt_result :: "tt_state \<Rightarrow> pystr option \<times> pystr option" where
  "tt_result st =
     (let t = py_strip (py_join [32] (text_parts st)) in (title st, if t = [] then None else Some t))"

definition parse_article_basic :: "pystr \<Rightarrow> pystr option \<times> pystr option" where
  "parse_article_basic html = tt_result (foldl handle_event tt_init (html_tok None html))"

text \<open>\<open>parse_article\<close>: the extractor's result when it is available and does not raise,
  the basic parser otherwise.\<close>

definition parse_article ::
  "(pystr \<Rightarrow> (pystr option \<times> pystr option) option) \<Rightarrow> pystr \<Rightarrow> pystr option \<times> pystr option" where
  "parse_article ext html = (case ext html of Some r \<Rightarrow> r | None \<Rightarrow> parse_article_basic html)"

definition no_extractor :: "pystr \<Rightarrow> (pystr option \<times> pystr option) option" where
  "no_extractor html = None"

text \<open>The invariant of the parser state: a title, once set, is a non-empty stripped
  string, and so is every text part.\<close>

definition tt_ok :: "tt_state \<Rightarrow> bool" where
  "tt_ok st \<longleftrightarrow>
     (\<forall>t. title st = Some t \<longrightarrow> t \<noteq> [] \<and> py_strip t = t) \<and>
     list_all (\<lambda>p. p \<noteq> [] \<and> py_strip p = p) (text_parts st)"

subsection \<open>Properties of the parser\<close>

lemma tt_ok_init: "tt_ok tt_init"
  by (simp add: tt_ok_def tt_init_def)

lemma tt_ok_event: "tt_ok st \<Longrightarrow> tt_ok (handle_event st ev)"
  by (cases ev)
     (auto simp: tt_ok_def handle_starttag_def handle_endtag_def handle_data_def Let_def
           split: option.splits)

lemma tt_ok_feed: "tt_ok st \<Longrightarrow> tt_ok (foldl handle_event st evs)"
  by (induction evs arbitrary: st) (simp_all add: tt_ok_event)

lemma title_event_kept:
  "title st = Some t \<Longrightarrow> t \<noteq> [] \<Longrightarrow> title (handle_event st ev) = Some t"
  by (cases ev) (simp_all add: handle_starttag_def handle_endtag_def handle_data_def Let_def)

text \<open>C23. \<open>parse_article_basic\<close> never returns an empty or unstripped string: the title
  and the text are each \<open>None\<close> or a non-empty string without surrounding white space.\<close>

theorem parse_article_basic_result_ok:
  "(\<forall>t. fst (parse_article_basic html) = Some t \<longrightarrow> t \<noteq> [] \<and> py_strip t = t) \<and>
   (\<forall>x. snd (parse_article_basic html) = Some x \<longrightarrow> x \<noteq> [] \<and> py_strip x = x)"
  using tt_ok_feed [OF tt_ok_init, of "html_tok None html"]
  by (simp add: parse_article_basic_def tt_result_def tt_ok_def Let_def)

lemmas parse_eval = parse_article_basic_def html_tok.simps str_find_def starts_with_def tagfind_def
  tag_name_char_def trailing_amp_def CDATA_CONTENT_ELEMENTS_def py_lower_def py_lower_char_def
  rstrip_by_def py_isspace_def ascii_alpha_def Let_def tt_init_def handle_starttag_def
  handle_endtag_def handle_data_def tt_result_def py_strip_def lstrip_by_def

theorem parse_article_basic_result_ok_witness:
  "fst (parse_article_basic (py ''<title> X </title>'')) = Some (py ''X'') \<and> py ''X'' \<noteq> [] \<and>
   py_strip (py ''X'') = py ''X''"
proof -
  have e: "parse_article_basic (py ''<title> X </title>'') = (Some (py ''X''), None)"
    by (simp add: parse_eval)
  show ?thesis
    using parse_article_basic_result_ok [of "py ''<title> X </title>''"] e by simp
qed

text \<open>C24. The first non-empty title wins: once the parser holds a title, no later event
  changes it, so a second \<open><title>\<close> element is ignored.\<close>

theorem title_first_kept:
  "title st = Some t \<Longrightarrow> t \<noteq> [] \<Longrightarrow> title (foldl handle_event st evs) = Some t"
proof (induction evs arbitrary: st)
  case Nil
  then show ?case by simp
next
  case (Cons ev evs)
  then show ?case by (simp add: title_event_kept)
qed

theorem title_first_kept_witness:
  "title (foldl handle_event \<lparr>in_title = False, title = Some (py ''A''), text_parts = []\<rparr>
            [StartTag (py ''title''), Data (py ''B''), EndTag (py ''title'')]) = Some (py ''A'')"
  by (rule title_first_kept) simp_all

text \<open>The spec's test page: \<open><html><title>X</title></html>\<close> has title \<open>X\<close> and no
  text.\<close>

theorem parse_article_basic_spec_example:
  "parse_article_basic (py ''<html><title>X</title></html>'') = (Some (py ''X''), None)"
  by (simp add: parse_eval)

text \<open>The "visible text" of the basic parser includes the content of \<open>script\<close>
  (and \<open>style\<close>) elements, which \<open>html.parser\<close> delivers as data.\<close>

theorem parse_article_basic_script_text:
  "parse_article_basic (py ''<html><script>var x=1;</script><p>Hi</p></html>'') =
   (None, Some (py ''var x=1; Hi''))"
  by (simp add: parse_eval)

text \<open>Text at the end of the page is lost when it ends in what may be a cut
  character reference: \<open>parse_article_basic\<close> only calls \<open>feed\<close>, never \<open>close\<close>, so
  \<open><p>AT&T\<close> has no text.\<close>

theorem parse_article_basic_trailing_text_lost:
  "parse_article_basic (py ''<p>AT&T'') = (None, None)"
  by (simp add: parse_eval)

end
