(* ===== verification/Article.thy ===== *)
theory Article
  imports Parse Dedup
begin

text \<open>
  The Result Assembler of \<^verbatim>\<open>pipelines/article.py\<close> and the \<open>Article\<close> data model of
  \<^verbatim>\<open>models/schemas.py\<close>. \<open>to_article\<close> parses the page, fingerprints
  \<open>title + "\n" + text\<close> (a missing part as the empty string) and builds the
  pydantic model, whose validation can fail: \<open>url\<close> must be an \<open>HttpUrl\<close> and
  \<open>country\<close> and \<open>source\<close> must be strings (the Celery task may pass \<open>None\<close>). The
  \<open>HttpUrl\<close> check is modelled as: \<open>urlsplit\<close> succeeds, the scheme is \<open>http\<close> or
  \<open>https\<close>, the host is not empty and the URL has at most 2083 characters; the
  normalisation pydantic applies to the stored URL is not modelled (the field keeps the
  string).
\<close>

datatype validation_error = ValidationError

record article =
  art_url :: pystr
  art_title :: "pystr option"
  art_text :: "pystr option"
  authors :: "pystr list"
  published_at :: "pystr option"
  art_country :: pystr
  art_language :: "pystr option"
  art_source :: pystr
  art_content_hash :: pystr

definition http_url_valid :: "pystr \<Rightarrow> bool" where
  "http_url_valid u \<longleftrightarrow>
     length u \<le> 2083 \<and>
     (case urlsplit u of Inl _ \<Rightarrow> False
      | Inr r \<Rightarrow> (scheme r = py ''http'' \<or> scheme r = py ''https'') \<and> netloc r \<noteq> [])"

text \<open>The text the fingerprint is computed over.\<close>

text \<open>\<open>CrawlJob\<close> and \<open>PageRaw\<close> of \<^verbatim>\<open>models/schemas.py\<close>; datetimes are kept as
  the strings they are parsed from. The constructors apply the model's defaults
  (\<open>max_pages=1000\<close>, \<open>render=False\<close>, \<open>filters={}\<close>) and the \<open>HttpUrl\<close> check.\<close>

record crawl_job =
  cj_job_id :: pystr
  cj_source :: pystr
  cj_country :: pystr
  cj_dt :: pystr
  cj_max_pages :: int
  cj_render :: bool
  cj_filters :: "(pystr \<times> pystr) list"

definition CrawlJob :: "pystr \<Rightarrow> pystr \<Rightarrow> pystr \<Rightarrow> pystr \<Rightarrow> int option \<Rightarrow> bool option \<Rightarrow>
    (pystr \<times> pystr) list option \<Rightarrow> crawl_job" where
  "CrawlJob jid src cty dt mx rnd flt =
     \<lparr>cj_job_id = jid, cj_source = src, cj_country = cty, cj_dt = dt,
      cj_max_pages = (case mx of None \<Rightarrow> 1000 | Some n \<Rightarrow> n),
      cj_render = (case rnd of None \<Rightarrow> False | Some b \<Rightarrow> b),
      cj_filters = (case flt of None \<Rightarrow> [] | Some f \<Rightarrow> f)\<rparr>"

record page_raw =
  pr_url :: pystr
  pr_fetched_at :: pystr
  pr_status :: int
  pr_headers :: "(pystr \<times> pystr) list"
  pr_content_hash :: pystr
  pr_storage_key :: pystr

definition PageRaw :: "pystr \<Rightarrow> pystr \<Rightarrow> int \<Rightarrow> (pystr \<times> pystr) list \<Rightarrow> pystr \<Rightarrow> pystr \<Rightarrow>
    validation_error + page_raw" where
  "PageRaw u t st hs h k =
     (if http_url_valid u
      then Inr \<lparr>pr_url = u, pr_fetched_at = t, pr_status = st, pr_headers = hs, pr_content_hash = h,
                pr_storage_key = k\<rparr>
      else Inl ValidationError)"

definition fingerprint_text :: "pystr option \<times> pystr option \<Rightarrow> pystr" where
  "fingerprint_text parsed =
     (case fst parsed of Some t \<Rightarrow> t | None \<Rightarrow> []) @ [10] @ (case snd parsed of Some x \<Rightarrow> x | None \<Rightarrow> [])"

definition to_article ::
  "(pystr \<Rightarrow> (pystr option \<times> pystr option) option) \<Rightarrow> pystr \<Rightarrow> pystr \<Rightarrow> pystr option \<Rightarrow>
   pystr option \<Rightarrow> pystr option \<Rightarrow> validation_error + article" where
  "to_article ext url html country language source =
     (let parsed = parse_article ext html; h = content_hash (fingerprint_text parsed) in
      case (country, source) of
        (Some c, Some src) \<Rightarrow>
          if http_url_valid url
          then Inr \<lparr>art_url = url, art_title = fst parsed, art_text = snd parsed, authors = [],
                    published_at = None, art_country = c, art_language = language, art_source = src,
                    art_content_hash = h\<rparr>
          else Inl ValidationError
      | _ \<Rightarrow> Inl ValidationError)"




text \<open>The end-to-end test of the spec: the page \<open><html><title>X</title></html>\<close>
  gives an article with title \<open>X\<close>, no text and the fingerprint of \<open>"X\n"\<close>.\<close>

theorem to_article_spec_example:
  "to_article no_extractor (py ''https://example.com/a'') (py ''<html><title>X</title></html>'') (Some [])
     None (Some (py ''cli'')) =
   Inr \<lparr>art_url = py ''https://example.com/a'', art_title = Some (py ''X''), art_text = None, authors = [],
        published_at = None, art_country = [], art_language = None, art_source = py ''cli'',
        art_content_hash = content_hash (py ''X'' @ [10])\<rparr>"
  by (simp add: to_article_def http_url_valid_def parse_article_def no_extractor_def fingerprint_text_def
      parse_eval urlsplit_eval)

end
