(* ===== verification/Storage.thy ===== *)
theory Storage
  imports Prelude
begin

text \<open>
  The object-storage layer of \<^verbatim>\<open>core/storage.py\<close>. The S3/MinIO service is the
  store \<open>s3_objects\<close> from keys to stored objects. The module imports boto3, s3fs,
  pandas and pyarrow in one \<open>try\<close> and sets all four to \<open>None\<close> when any import
  fails, so one flag \<open>storage_deps\<close> says whether that block succeeded; it decides
  whether \<open>put_gz\<close> (through \<open>_client\<close>) and \<open>write_parquet\<close> raise \<open>RuntimeError\<close>. A stored object keeps
  the uncompressed payload with its content encoding and metadata: the gzip and Parquet
  byte formats are not modelled. \<open>S3Config\<close> is modelled with its defaults (the
  environment variables unset). \<open>pa.Table.from_pydict\<close> raises \<open>ArrowInvalid\<close> for a
  Python value it cannot convert: of the values the pipelines write, a pydantic
  \<open>Url\<close> object; what s3fs leaves at the path after the \<open>with\<close> block raised is not
  modelled (the store is left as it was).
\<close>

datatype storage_error = RuntimeError | ArrowInvalid

text \<open>A Parquet file as the table \<open>pa.Table.from_pydict\<close> builds: a column per key
  of some record, holding \<open>row.get(k)\<close> for every record in order. The order of the
  columns (that of a set) is not observable through the map.\<close>

datatype payload = GzBytes bytes | ParquetTable "pystr \<Rightarrow> pyval list option"

record s3_object =
  obj_bucket :: pystr
  obj_body :: payload
  obj_content_type :: pystr
  obj_metadata :: "(pystr \<times> pystr) list"

record s3_store =
  storage_deps :: bool
  s3_objects :: "pystr \<Rightarrow> s3_object option"

record s3_config =
  endpoint_url :: pystr
  access_key :: pystr
  secret_key :: pystr
  bucket :: pystr
  region :: pystr
  force_path_style :: bool

definition S3Config :: s3_config where
  "S3Config = \<lparr>endpoint_url = py ''http://localhost:9000'', access_key = py ''minio'',
     secret_key = py ''minio123'', bucket = py ''crawler'', region = py ''us-east-1'',
     force_path_style = True\<rparr>"

text \<open>\<open>_client()\<close>: \<open>RuntimeError\<close> without boto3, otherwise the S3 client of the
  configuration, with path-style addressing when \<open>force_path_style\<close>.\<close>

record boto_client =
  bc_endpoint_url :: pystr
  bc_access_key :: pystr
  bc_secret_key :: pystr
  bc_signature_version :: pystr
  bc_addressing_style :: pystr
  bc_region :: pystr

definition storage_client :: "'a s3_store_scheme \<Rightarrow> storage_error + boto_client" where
  "storage_client st =
     (if \<not> storage_deps st then Inl RuntimeError
      else Inr \<lparr>bc_endpoint_url = endpoint_url S3Config, bc_access_key = access_key S3Config,
                bc_secret_key = secret_key S3Config, bc_signature_version = py ''s3v4'',
                bc_addressing_style = (if force_path_style S3Config then py ''path'' else py ''auto''),
                bc_region = region S3Config\<rparr>)"

text \<open>\<open>put_gz(key, data, metadata=meta)\<close>: \<open>_client()\<close> raises when boto3 is missing;
  otherwise the gzipped payload is put under the key of the configured bucket,
  replacing what was there.\<close>

definition put_gz :: "pystr \<Rightarrow> bytes \<Rightarrow> (pystr \<times> pystr) list \<Rightarrow> 'a s3_store_scheme \<Rightarrow>
    (storage_error + unit) \<times> 'a s3_store_scheme" where
  "put_gz key data meta st =
     (case storage_client st of
        Inl e \<Rightarrow> (Inl e, st)
      | Inr _ \<Rightarrow> (Inr (), st\<lparr>s3_objects := (s3_objects st)(key \<mapsto>
              \<lparr>obj_bucket = bucket S3Config, obj_body = GzBytes data,
               obj_content_type = py ''text/html; charset=utf-8'', obj_metadata = meta\<rparr>)\<rparr>))"

text \<open>\<open>row.get(k)\<close> on a dict given as its items in insertion order.\<close>

definition py_get :: "(pystr \<times> pyval) list \<Rightarrow> pystr \<Rightarrow> pyval" where
  "py_get row k = (case map_of row k of None \<Rightarrow> PyNone | Some v \<Rightarrow> v)"

text \<open>\<open>{k: [row.get(k) for row in records] for k in {k for r in records for k in r.keys()}}\<close>.\<close>

definition parquet_table :: "(pystr \<times> pyval) list list \<Rightarrow> pystr \<Rightarrow> pyval list option" where
  "parquet_table records k =
     (if k \<in> set (concat (map (map fst) records)) then Some (map (\<lambda>row. py_get row k) records) else None)"

text \<open>The values pyarrow's type inference converts: \<open>None\<close>, strings, datetimes and
  lists of such values; a pydantic \<open>Url\<close> object is not one of them.\<close>

fun arrow_value :: "pyval \<Rightarrow> bool" where
  "arrow_value PyNone = True"
| "arrow_value (PyStr _) = True"
| "arrow_value (PyUrl _) = False"
| "arrow_value (PyDatetime _) = True"
| "arrow_value (PyList vs) = (\<forall>v\<in>set vs. arrow_value v)"

text \<open>\<open>write_parquet(path, records)\<close>: raises when s3fs or pyarrow is missing; raises
  \<open>ArrowInvalid\<close> when \<open>from_pydict\<close> meets a value it cannot convert; otherwise the
  table of the records is written at the path (in the bucket the path names).\<close>

definition write_parquet :: "pystr \<Rightarrow> (pystr \<times> pyval) list list \<Rightarrow> 'a s3_store_scheme \<Rightarrow>
    (storage_error + unit) \<times> 'a s3_store_scheme" where
  "write_parquet path records st =
     (if \<not> storage_deps st then (Inl RuntimeError, st)
      else if \<not> (\<forall>row\<in>set records. \<forall>(k, v)\<in>set row. arrow_value v) then (Inl ArrowInvalid, st)
      else (Inr (), st\<lparr>s3_objects := (s3_objects st)(path \<mapsto>
              \<lparr>obj_bucket = [], obj_body = ParquetTable (parquet_table records),
               obj_content_type = [], obj_metadata = []\<rparr>)\<rparr>))"

text \<open>Reading row \<open>i\<close> back from a table: the cell of every column.\<close>

definition table_row :: "(pystr \<Rightarrow> pyval list option) \<Rightarrow> nat \<Rightarrow> pystr \<Rightarrow> pyval option" where
  "table_row tbl i k = map_option (\<lambda>col. col ! i) (tbl k)"

text \<open>The only exception \<open>put_gz\<close> raises is the \<open>RuntimeError\<close> of \<open>_client\<close>.\<close>

lemma put_gz_error: "put_gz k d m st = (Inl e, st') \<Longrightarrow> e = RuntimeError"
  by (auto simp: put_gz_def storage_client_def split: sum.splits if_splits)

lemma table_row_parquet:
  "i < length records \<Longrightarrow>
   table_row (parquet_table records) i k =
     (if k \<in> set (concat (map (map fst) records)) then Some (py_get (records ! i) k) else None)"
  by (simp add: table_row_def parquet_table_def)

text \<open>\<open>row.get(k)\<close> cannot tell a missing key from a \<open>None\<close> value: a record without
  the key reads back with \<open>None\<close> in that column.\<close>

lemma parquet_missing_key_none:
  "table_row (parquet_table [[(py ''title'', PyStr (py ''X''))], []]) 1 (py ''title'') = Some PyNone"
  by (simp add: table_row_parquet py_get_def)

end
