(* ===== verification/Logging.thy ===== *)
theory Logging
  imports Prelude
begin

text \<open>
  \<^verbatim>\<open>ops/logging.py\<close> and the rules of the standard \<open>logging\<close> module that the
  crawler's log calls meet. \<open>configure_logging\<close> sets the root level from the
  environment variable \<open>LOG_LEVEL\<close> (default \<open>INFO\<close>); \<open>basicConfig\<close> refuses a
  name it does not know with \<open>ValueError\<close>. A call \<open>log.info(msg, ...)\<close> does
  nothing unless its level is enabled (\<open>level >= getEffectiveLevel()\<close>); when it is,
  \<open>Logger.makeRecord\<close> raises \<open>KeyError\<close> if \<open>extra\<close> has the key \<open>message\<close>,
  which every call of the crawler with \<open>extra\<close> has. So the log is the list of
  records of the calls without \<open>extra\<close>, and a call with \<open>extra\<close> is an exception
  or nothing. The JSON formatting of the records is not modelled.
\<close>

datatype log_error = KeyError | LevelValueError

definition INFO :: nat where "INFO = 20"
definition WARNING :: nat where "WARNING = 30"
definition ERROR :: nat where "ERROR = 40"

text \<open>\<open>logging._nameToLevel\<close>, the names \<open>basicConfig(level=...)\<close> accepts.\<close>

definition level_names :: "(pystr \<times> nat) list" where
  "level_names = [(py ''CRITICAL'', 50), (py ''FATAL'', 50), (py ''ERROR'', 40), (py ''WARN'', 30),
     (py ''WARNING'', 30), (py ''INFO'', 20), (py ''DEBUG'', 10), (py ''NOTSET'', 0)]"

text \<open>\<open>configure_logging()\<close> as the crawler calls it (no argument): the level is
  \<open>os.getenv("LOG_LEVEL", "INFO")\<close>.\<close>

definition configure_logging :: "pystr option \<Rightarrow> log_error + nat" where
  "configure_logging env =
     (case map_of level_names (case env of None \<Rightarrow> py ''INFO'' | Some s \<Rightarrow> s) of
        None \<Rightarrow> Inl LevelValueError
      | Some l \<Rightarrow> Inr l)"

definition is_enabled :: "nat \<Rightarrow> nat \<Rightarrow> bool" where
  "is_enabled cur lvl \<longleftrightarrow> cur \<le> lvl"

text \<open>A call with \<open>extra={"message": ...}\<close> at level \<open>lvl\<close>: the exception it
  raises, if any.\<close>

definition log_extra :: "nat \<Rightarrow> nat \<Rightarrow> log_error option" where
  "log_extra cur lvl = (if is_enabled cur lvl then Some KeyError else None)"

text \<open>A call without \<open>extra\<close>: its record is emitted when the level is enabled.\<close>

definition log_record :: "nat \<Rightarrow> nat \<Rightarrow> 'e \<Rightarrow> 'e list \<Rightarrow> 'e list" where
  "log_record cur lvl ev evs = (if is_enabled cur lvl then evs @ [ev] else evs)"

lemma configure_logging_default: "configure_logging None = Inr INFO"
  by (simp add: configure_logging_def level_names_def INFO_def)

lemma log_levels [simp]:
  "is_enabled INFO WARNING" "is_enabled INFO ERROR" "is_enabled WARNING ERROR" "is_enabled INFO INFO"
  "is_enabled cur INFO \<Longrightarrow> is_enabled cur WARNING" "is_enabled cur WARNING \<Longrightarrow> is_enabled cur ERROR"
  by (simp_all add: is_enabled_def INFO_def WARNING_def ERROR_def)

end
