(* ===== verification/Metrics.thy ===== *)
theory Metrics
  imports Prelude
begin

text \<open>
  \<^verbatim>\<open>ops/metrics.py\<close>: the Prometheus counters and the metrics HTTP server, with the
  no-op fallback the module defines when \<open>prometheus_client\<close> cannot be imported.
  Whether the import succeeded is the flag \<open>prometheus_available\<close> of the
  process. A counter is either the fallback \<open>_NoopCounter\<close>, which has no state, or
  a \<open>prometheus_client.Counter\<close> with labels, whose value is a function from label
  tuples to counts. \<open>start_http_server(port)\<close> binds the port in a daemon thread:
  a port outside \<open>0..65535\<close> raises \<open>OverflowError\<close> and a port already bound
  (by this process or another one, \<open>port_in_use\<close>) raises \<open>OSError\<close>;
  \<open>start_metrics_server\<close> swallows both. The batch drivers (Cli, RunSource) keep the
  counters' values as functions in their world and increment them with
  \<open>inc_counter\<close>, which is \<open>counter_inc\<close> on a Prometheus counter.
\<close>

definition inc_counter :: "'k \<Rightarrow> nat \<Rightarrow> ('k \<Rightarrow> nat) \<Rightarrow> 'k \<Rightarrow> nat" where
  "inc_counter k n f = f(k := f k + n)"

datatype 'k counter = NoopCounter | PromCounter "'k \<Rightarrow> nat"

text \<open>\<open>Counter(name, doc, labelnames)\<close> at import time.\<close>

definition Counter :: "bool \<Rightarrow> 'k counter" where
  "Counter prometheus_available = (if prometheus_available then PromCounter (\<lambda>_. 0) else NoopCounter)"

text \<open>\<open>c.labels(...).inc(n)\<close>: the fallback's \<open>labels\<close> returns the counter itself
  and its \<open>inc\<close> returns \<open>None\<close>; the amount is a length or 1, never negative.\<close>

definition counter_inc :: "'k \<Rightarrow> nat \<Rightarrow> 'k counter \<Rightarrow> 'k counter" where
  "counter_inc k n c = (case c of NoopCounter \<Rightarrow> NoopCounter | PromCounter f \<Rightarrow> PromCounter (inc_counter k n f))"

text \<open>What a scrape of \<open>/metrics\<close> shows for a label tuple: nothing for the fallback.\<close>

definition counter_value :: "'k counter \<Rightarrow> 'k \<Rightarrow> nat option" where
  "counter_value c k = (case c of NoopCounter \<Rightarrow> None | PromCounter f \<Rightarrow> Some (f k))"

record metrics_world =
  prometheus_available :: bool
  port_in_use :: "int \<Rightarrow> bool"
  bound_ports :: "int list"

datatype server_error = OverflowError | OSError

definition start_http_server :: "int \<Rightarrow> metrics_world \<Rightarrow> (server_error + unit) \<times> metrics_world" where
  "start_http_server port w =
     (if \<not> prometheus_available w then (Inr (), w)
      else if port < 0 \<or> 65535 < port then (Inl OverflowError, w)
      else if port_in_use w port \<or> port \<in> set (bound_ports w) then (Inl OSError, w)
      else (Inr (), w\<lparr>bound_ports := bound_ports w @ [port]\<rparr>))"

text \<open>\<open>start_metrics_server(port)\<close>: \<open>try: start_http_server(port) except Exception: pass\<close>.\<close>

definition start_metrics_server :: "int \<Rightarrow> metrics_world \<Rightarrow> (server_error + unit) \<times> metrics_world" where
  "start_metrics_server port w =
     (case start_http_server port w of (Inl _, w') \<Rightarrow> (Inr (), w') | (Inr _, w') \<Rightarrow> (Inr (), w'))"

text \<open>The counters a sequence of \<open>labels(k).inc(n)\<close> calls leaves, from the counter the
  import created.\<close>

definition counter_run :: "bool \<Rightarrow> ('k \<times> nat) list \<Rightarrow> 'k counter" where
  "counter_run avail incs = foldl (\<lambda>c (k, n). counter_inc k n c) (Counter avail) incs"

lemma foldl_counter_noop: "foldl (\<lambda>c (k, n). counter_inc k n c) NoopCounter incs = NoopCounter"
  by (induction incs) (auto simp: counter_inc_def)

lemma foldl_counter_prom:
  "foldl (\<lambda>c (k, n). counter_inc k n c) (PromCounter f) incs =
   PromCounter (\<lambda>k. f k + sum_list (map snd (filter (\<lambda>(k', _). k' = k) incs)))"
proof (induction incs arbitrary: f)
  case Nil
  then show ?case by simp
next
  case (Cons a incs)
  obtain k0 n0 where a: "a = (k0, n0)" by fastforce
  have "foldl (\<lambda>c (k, n). counter_inc k n c) (PromCounter f) (a # incs) =
        foldl (\<lambda>c (k, n). counter_inc k n c) (PromCounter (inc_counter k0 n0 f)) incs"
    by (simp add: a counter_inc_def)
  also have "\<dots> = PromCounter (\<lambda>k. inc_counter k0 n0 f k + sum_list (map snd (filter (\<lambda>(k', _). k' = k) incs)))"
    by (rule Cons.IH)
  also have "\<dots> = PromCounter (\<lambda>k. f k + sum_list (map snd (filter (\<lambda>(k', _). k' = k) (a # incs))))"
    by (intro arg_cong [where f = PromCounter] ext) (simp add: a inc_counter_def)
  finally show ?case .
qed

lemma start_metrics_server_Inr: "fst (start_metrics_server p w) = Inr ()"
  by (simp add: start_metrics_server_def split: prod.split sum.split)

text \<open>A counter counts, per label tuple, the sum of the increments made with that
  label when \<open>prometheus_client\<close> is installed, and shows nothing otherwise.\<close>

theorem counter_run_value:
  "counter_value (counter_run avail incs) k =
   (if avail then Some (sum_list (map snd (filter (\<lambda>(k', _). k' = k) incs))) else None)"
  by (cases avail) (simp_all add: counter_run_def Counter_def foldl_counter_noop foldl_counter_prom counter_value_def)

text \<open>C33. \<open>start_metrics_server\<close> never raises; it binds the port exactly when the library
  is installed, the port is in range and no server holds it.\<close>

theorem start_metrics_server_never_raises:
  "fst (start_metrics_server p w) = Inr () \<and>
   bound_ports (snd (start_metrics_server p w)) =
     bound_ports w @ (if prometheus_available w \<and> 0 \<le> p \<and> p \<le> 65535 \<and> \<not> port_in_use w p \<and> p \<notin> set (bound_ports w)
                      then [p] else []) \<and>
   prometheus_available (snd (start_metrics_server p w)) = prometheus_available w"
  by (simp add: start_metrics_server_def start_http_server_def not_less)

end
