(* ===== verification/Cli.thy ===== *)
theory Cli
  imports Fetch Robots Article Storage Logging Metrics
begin

text \<open>
  The batch drivers of \<^verbatim>\<open>cli.py\<close>: \<open>crawl_once\<close> (a list of URLs) and, in
  RunSource, \<open>run_source\<close> (a catalog entry). Their state \<open>cli_world\<close> composes the
  states of the components they call: the network of the Fetch Engine (\<open>netw\<close>), the
  process state of the Politeness Gate (\<open>gatew\<close>), the object store (\<open>store\<close>), the
  optional content extractor, the environment variable \<open>LOG_LEVEL\<close> and the level
  \<open>configure_logging\<close> set, the three Prometheus counters of \<^verbatim>\<open>ops/metrics.py\<close>
  as functions of their labels, the log as the list of emitted records, and the
  metrics server state of Metrics (\<open>metricsw\<close>), which only \<open>run_source\<close> touches.

  The loop body is modelled as the source runs it: the \<open>allowed\<close> check outside the
  \<open>try\<close> and the warning for a refused URL (an exception there ends the batch and is
  returned), then inside the \<open>try\<close> the fetch with the batch's client,
  \<open>to_article\<close>, the counter and the \<open>info\<close> record; any exception of that block
  counts a fetch error and logs \<open>fetch_error\<close>. The warning and the \<open>info\<close> call
  pass \<open>extra={"message": ...}\<close>, so each raises \<open>KeyError\<close> when its level is
  enabled (Logging). The loop is sequential: each \<open>await\<close> finishes before the next
  URL is looked at. It is a function into \<open>option\<close> because the fetch is; that it
  always returns is a theorem.
\<close>

datatype log_event = LogFetchError | LogRunError | LogRawWriteFailed | LogScheduledRunError

datatype cli_exc = RobotsExc robots_error | LogExc log_error | MetricsExc server_error

record cli_world =
  netw :: net
  gatew :: robots_world
  store :: s3_store
  extractor :: "pystr \<Rightarrow> (pystr option \<times> pystr option) option"
  env_log_level :: "pystr option"
  log_level :: nat
  crawled_pages_total :: "pystr \<times> pystr \<Rightarrow> nat"
  fetch_errors_total :: "pystr \<times> pystr \<Rightarrow> nat"
  bytes_written_total :: "pystr \<times> pystr \<times> pystr \<Rightarrow> nat"
  log :: "log_event list"
  metricsw :: metrics_world

definition AGENT_CLI :: pystr where
  "AGENT_CLI = py ''AdvancedCrawler/1.0''"

definition cli_labels :: "pystr \<times> pystr" where
  "cli_labels = (py ''cli'', [])"

subsection \<open>\<open>crawl_once\<close>\<close>

text \<open>The \<open>except\<close> block of \<open>crawl_once\<close>.\<close>

definition crawl_once_except :: "cli_world \<Rightarrow> cli_world" where
  "crawl_once_except w =
     w\<lparr>fetch_errors_total := inc_counter cli_labels 1 (fetch_errors_total w),
       log := log_record (log_level w) ERROR LogFetchError (log w)\<rparr>"

text \<open>The \<open>try\<close> block of \<open>crawl_once\<close> for an allowed URL. The hash it computes only
  feeds the message of the \<open>info\<close> call, and \<open>content_hash\<close> does not raise.\<close>

definition crawl_once_try :: "client_config \<Rightarrow> pystr \<Rightarrow> cli_world \<Rightarrow> cli_world option" where
  "crawl_once_try c u w =
     (case fetch u (Some c) (netw w) of
        None \<Rightarrow> None
      | Some (Inl _, n) \<Rightarrow> Some (crawl_once_except (w\<lparr>netw := n\<rparr>))
      | Some (Inr r, n) \<Rightarrow>
          (case to_article (extractor w) u (response_text r) (Some []) None (Some (py ''cli'')) of
             Inl _ \<Rightarrow> Some (crawl_once_except (w\<lparr>netw := n\<rparr>))
           | Inr art \<Rightarrow>
               (let w1 = w\<lparr>netw := n, crawled_pages_total := inc_counter cli_labels 1 (crawled_pages_total w)\<rparr> in
                case log_extra (log_level w1) INFO of
                  None \<Rightarrow> Some w1
                | Some _ \<Rightarrow> Some (crawl_once_except w1))))"

fun crawl_loop :: "client_config \<Rightarrow> pystr list \<Rightarrow> cli_world \<Rightarrow> ((cli_exc + unit) \<times> cli_world) option" where
  "crawl_loop c [] w = Some (Inr (), w)"
| "crawl_loop c (u # us) w =
     (case allowed u AGENT_CLI (gatew w) of
        (Inl e, g) \<Rightarrow> Some (Inl (RobotsExc e), w\<lparr>gatew := g\<rparr>)
      | (Inr b, g) \<Rightarrow>
          if \<not> b then
            (case log_extra (log_level w) WARNING of
               Some e \<Rightarrow> Some (Inl (LogExc e), w\<lparr>gatew := g\<rparr>)
             | None \<Rightarrow> crawl_loop c us (w\<lparr>gatew := g\<rparr>))
          else (case crawl_once_try c u (w\<lparr>gatew := g\<rparr>) of
                  None \<Rightarrow> None
                | Some w' \<Rightarrow> crawl_loop c us w'))"

definition crawl_once :: "pystr list \<Rightarrow> cli_world \<Rightarrow> ((cli_exc + unit) \<times> cli_world) option" where
  "crawl_once urls w =
     (case configure_logging (env_log_level w) of
        Inl e \<Rightarrow> Some (Inl (LogExc e), w)
      | Inr l \<Rightarrow> (case http_client (netw w) of (c, n) \<Rightarrow> crawl_loop c urls (w\<lparr>netw := n, log_level := l\<rparr>)))"

text \<open>A test world: the robots parser \<open>rp\<close> cached for \<open>example.com\<close>, the network
  \<open>n\<close>, \<open>LOG_LEVEL\<close> set to \<open>lvl\<close> and the root level at its default \<open>WARNING\<close>, a
  store with both libraries, no extractor, the counters at zero and an empty log.\<close>

definition demo_world :: "robot_file_parser \<Rightarrow> net \<Rightarrow> pystr option \<Rightarrow> cli_world" where
  "demo_world rp n lvl =
     \<lparr>netw = n, gatew = \<lparr>robots_replies = \<lambda>_. RobotsURLError, robots_requested = [], clock = 1,
        robots_cache = [(py ''example.com'', rp)]\<rparr>,
      store = \<lparr>storage_deps = True, s3_objects = Map.empty\<rparr>,
      extractor = no_extractor, env_log_level = lvl, log_level = 30,
      crawled_pages_total = \<lambda>_. 0, fetch_errors_total = \<lambda>_. 0, bytes_written_total = \<lambda>_. 0, log = [],
      metricsw = \<lparr>prometheus_available = True, port_in_use = \<lambda>_. False, bound_ports = []\<rparr>\<rparr>"

definition demo_urls :: "pystr list" where
  "demo_urls = [py ''https://example.com/x'', py ''https://other.org/y'']"

text \<open>The start of the test batch: \<open>example.com\<close> allows everything and answers
  200; \<open>other.org\<close> has no cached parser and its robots.txt is unreachable.\<close>

definition demo_start :: "pystr option \<Rightarrow> cli_world" where
  "demo_start lvl = demo_world (init_parser\<lparr>allow_all := True\<rparr>) (mock_net 0 ConnectError ok_response) lvl"

text \<open>The answers of the Politeness Gate to the URLs of a batch, one after the
  other from the gate's state: the decisions \<open>crawl_once\<close> acts on (the loop body
  does not touch the gate's state otherwise). An exception of the gate ends the list.\<close>

fun gate_decisions :: "pystr list \<Rightarrow> robots_world \<Rightarrow> bool list" where
  "gate_decisions [] g = []"
| "gate_decisions (u # us) g =
     (case allowed u AGENT_CLI g of (Inl _, _) \<Rightarrow> [] | (Inr b, g') \<Rightarrow> b # gate_decisions us g')"

text \<open>What a batch that is not aborted did, URL after URL: \<open>ks\<close> holds the number of
  requests for each URL, 0 exactly for a URL the gate refused and one to five for a
  URL it allowed.\<close>

definition batch_effect :: "pystr list \<Rightarrow> cli_world \<Rightarrow> cli_world \<Rightarrow> nat list \<Rightarrow> bool" where
  "batch_effect us w w' ks \<longleftrightarrow>
     length ks = length us \<and>
     list_all2 (\<lambda>b k. if b then 1 \<le> k \<and> k \<le> MAX_TRIES else k = 0) (gate_decisions us (gatew w)) ks \<and>
     requested (netw w') = requested (netw w) @ concat (map (\<lambda>(u, k). replicate k u) (zip us ks)) \<and>
     clients (netw w') = clients (netw w) \<and>
     log_level w' = log_level w \<and> env_log_level w' = env_log_level w \<and>
     (is_enabled (log_level w) WARNING \<longrightarrow> list_all (\<lambda>k. 0 < k) ks) \<and>
     (is_enabled (log_level w) INFO \<longrightarrow>
        fetch_errors_total w' cli_labels = fetch_errors_total w cli_labels + length us \<and>
        log w' = log w @ replicate (length us) LogFetchError) \<and>
     (\<not> is_enabled (log_level w) INFO \<longrightarrow>
        crawled_pages_total w' cli_labels + fetch_errors_total w' cli_labels +
          length (filter Not (gate_decisions us (gatew w))) =
        crawled_pages_total w cli_labels + fetch_errors_total w cli_labels + length us)"

subsection \<open>One URL\<close>

lemma fetch_with_client: "fetch u (Some c) s = get u s"
  by (simp add: fetch_def)

lemma crawl_once_try_effect:
  "\<exists>w' k. crawl_once_try c u w = Some w' \<and> 1 \<le> k \<and> k \<le> MAX_TRIES \<and>
     requested (netw w') = requested (netw w) @ replicate k u \<and> clients (netw w') = clients (netw w) \<and>
     gatew w' = gatew w \<and> extractor w' = extractor w \<and> log_level w' = log_level w \<and>
     env_log_level w' = env_log_level w \<and>
     (is_enabled (log_level w) INFO \<longrightarrow>
        fetch_errors_total w' cli_labels = Suc (fetch_errors_total w cli_labels) \<and> log w' = log w @ [LogFetchError]) \<and>
     (\<not> is_enabled (log_level w) INFO \<longrightarrow>
        crawled_pages_total w' cli_labels + fetch_errors_total w' cli_labels =
        Suc (crawled_pages_total w cli_labels + fetch_errors_total w cli_labels))"
proof -
  obtain res n where g: "get u (netw w) = Some (res, n)"
    by (metis get_eq_loop_spec prod.collapse)
  from get_effect [OF g] obtain k where k: "1 \<le> k" "k \<le> MAX_TRIES"
    "requested n = requested (netw w) @ replicate k u" "clients n = clients (netw w)"
    by blast
  show ?thesis
  proof (cases res)
    case (Inl e)
    with g k show ?thesis
      by (auto simp: crawl_once_try_def fetch_with_client inc_counter_def crawl_once_except_def log_record_def)
  next
    case (Inr r)
    with g k show ?thesis
      by (cases "to_article (extractor w) u (response_text r) (Some []) None (Some (py ''cli''))")
         (auto simp: crawl_once_try_def fetch_with_client inc_counter_def crawl_once_except_def
           log_record_def log_extra_def)
  qed
qed

subsection \<open>The loop\<close>

lemma crawl_loop_total: "\<exists>y. crawl_loop c us w = Some y"
proof (induction us arbitrary: w)
  case Nil
  then show ?case by simp
next
  case (Cons u us)
  obtain x g where a: "allowed u AGENT_CLI (gatew w) = (x, g)"
    by fastforce
  show ?case
  proof (cases x)
    case (Inr b)
    obtain w' where "crawl_once_try c u (w\<lparr>gatew := g\<rparr>) = Some w'"
      using crawl_once_try_effect by blast
    with a Inr Cons show ?thesis
      by (cases "log_extra (log_level w) WARNING") auto
  qed (simp add: a)
qed

lemma crawl_loop_effect:
  "crawl_loop c us w = Some (Inr (), w') \<Longrightarrow> \<exists>ks. batch_effect us w w' ks"
proof (induction us arbitrary: w)
  case Nil
  then show ?case
    by (intro exI [of _ "[]"]) (simp add: batch_effect_def)
next
  case (Cons u us)
  obtain x g where a: "allowed u AGENT_CLI (gatew w) = (x, g)"
    by fastforce
  show ?case
  proof (cases x)
    case (Inl e)
    with Cons.prems a show ?thesis by simp
  next
    case (Inr b)
    show ?thesis
    proof (cases b)
      case False
      with Cons.prems a Inr have q: "log_extra (log_level w) WARNING = None"
        by (cases "log_extra (log_level w) WARNING") auto
      then have nw: "\<not> is_enabled (log_level w) WARNING" "\<not> is_enabled (log_level w) INFO"
        by (auto simp: log_extra_def split: if_splits)
      have "crawl_loop c us (w\<lparr>gatew := g\<rparr>) = Some (Inr (), w')"
        using Cons.prems a Inr False q by simp
      from Cons.IH [OF this] obtain ks where "batch_effect us (w\<lparr>gatew := g\<rparr>) w' ks"
        by blast
      with nw a Inr False have "batch_effect (u # us) w w' (0 # ks)"
        by (simp add: batch_effect_def)
      then show ?thesis ..
    next
      case True
      obtain w1 k where t: "crawl_once_try c u (w\<lparr>gatew := g\<rparr>) = Some w1" "1 \<le> k" "k \<le> MAX_TRIES"
        "requested (netw w1) = requested (netw w) @ replicate k u" "clients (netw w1) = clients (netw w)"
        "log_level w1 = log_level w" "env_log_level w1 = env_log_level w" "gatew w1 = g"
        "is_enabled (log_level w) INFO \<Longrightarrow>
           fetch_errors_total w1 cli_labels = Suc (fetch_errors_total w cli_labels) \<and> log w1 = log w @ [LogFetchError]"
        "\<not> is_enabled (log_level w) INFO \<Longrightarrow>
           crawled_pages_total w1 cli_labels + fetch_errors_total w1 cli_labels =
           Suc (crawled_pages_total w cli_labels + fetch_errors_total w cli_labels)"
        using crawl_once_try_effect [of c u "w\<lparr>gatew := g\<rparr>"] by auto
      have "crawl_loop c us w1 = Some (Inr (), w')"
        using Cons.prems a Inr True t(1) by simp
      from Cons.IH [OF this] obtain ks where "batch_effect us w1 w' ks"
        by blast
      with t a Inr True have "batch_effect (u # us) w w' (k # ks)"
        by (cases "is_enabled (log_level w) INFO") (auto simp: batch_effect_def replicate_append_same)
      then show ?thesis ..
    qed
  qed
qed

lemma crawl_loop_clients:
  "crawl_loop c us w = Some (r, w') \<Longrightarrow> clients (netw w') = clients (netw w)"
proof (induction us arbitrary: w)
  case (Cons u us)
  obtain x g where a: "allowed u AGENT_CLI (gatew w) = (x, g)"
    by fastforce
  show ?case
  proof (cases x)
    case (Inr b)
    obtain w1 where "crawl_once_try c u (w\<lparr>gatew := g\<rparr>) = Some w1" "clients (netw w1) = clients (netw w)"
      using crawl_once_try_effect [of c u "w\<lparr>gatew := g\<rparr>"] by auto
    with Cons a Inr show ?thesis
      by (cases b; cases "log_extra (log_level w) WARNING") auto
  qed (use Cons.prems a in auto)
qed simp

lemma crawl_once_configured:
  "configure_logging (env_log_level w) = Inr l \<Longrightarrow>
   crawl_once urls w =
   crawl_loop (fst (http_client (netw w))) urls (w\<lparr>netw := snd (http_client (netw w)), log_level := l\<rparr>)"
  by (simp add: crawl_once_def split: prod.split)

lemma crawl_once_InrE:
  assumes "crawl_once urls w = Some (Inr (), w')"
  obtains l where "configure_logging (env_log_level w) = Inr l"
    "crawl_loop (fst (http_client (netw w))) urls (w\<lparr>netw := snd (http_client (netw w)), log_level := l\<rparr>) =
     Some (Inr (), w')"
  using assms by (cases "configure_logging (env_log_level w)") (auto simp: crawl_once_configured, simp add: crawl_once_def)

lemma http_client_net [simp]:
  "requested (snd (http_client s)) = requested s" "clients (snd (http_client s)) = Suc (clients s)"
  by (simp_all add: http_client_def)

lemma crawl_once_not_None: "crawl_once urls w \<noteq> None"
  using crawl_loop_total by (cases "configure_logging (env_log_level w)") (auto simp: crawl_once_configured, simp add: crawl_once_def)

lemma the_result: "x \<noteq> None \<Longrightarrow> fst (the x) = r \<Longrightarrow> x = Some (r, snd (the x))"
  by auto

lemmas cli_eval = crawl_once_def demo_start_def demo_world_def http_client_def AGENT_CLI_def robots_eval
  crawl_once_try_def fetch_def get_eq_loop_spec loop_spec_def outcome_simps expo_def mock_net_def ok_response_def
  is_success_def to_article_def http_url_valid_def parse_article_def no_extractor_def parse_article_basic_def
  parse_eval inc_counter_def cli_labels_def configure_logging_def level_names_def log_extra_def log_record_def
  is_enabled_def INFO_def WARNING_def ERROR_def crawl_once_except_def demo_urls_def

lemma demo_facts:
  "log (demo_start lvl) = []" "requested (netw (demo_start lvl)) = []" "clients (netw (demo_start lvl)) = 0"
  "crawled_pages_total (demo_start lvl) = (\<lambda>_. 0)" "fetch_errors_total (demo_start lvl) = (\<lambda>_. 0)"
  "env_log_level (demo_start lvl) = lvl" "length demo_urls = 2"
  by (simp_all add: demo_start_def demo_world_def mock_net_def demo_urls_def)

text \<open>The gate allows the \<open>example.com\<close> URL of the test batch and refuses the
  \<open>other.org\<close> one, whose robots.txt is unreachable.\<close>

lemma demo_decisions: "gate_decisions demo_urls (gatew (demo_start lvl)) = [True, False]"
  by (simp add: cli_eval)

text \<open>The test batch with \<open>LOG_LEVEL=CRITICAL\<close>, where no log call raises, ends normally.\<close>

lemma demo_batch_critical:
  "crawl_once demo_urls (demo_start (Some (py ''CRITICAL''))) =
   Some (Inr (), snd (the (crawl_once demo_urls (demo_start (Some (py ''CRITICAL''))))))"
  by (rule the_result [OF crawl_once_not_None]) (simp add: cli_eval)

lemma demo_batch_default:
  "crawl_once [py ''https://example.com/x''] (demo_start None) =
   Some (Inr (), snd (the (crawl_once [py ''https://example.com/x''] (demo_start None))))"
  by (rule the_result [OF crawl_once_not_None]) (simp add: cli_eval)

subsection \<open>Properties of \<open>crawl_once\<close>\<close>

text \<open>C5. A batch that ends normally looks at every URL once and in order, and
  fetches exactly the URLs the gate allows: its requests are, URL after URL, \<open>k\<close>
  requests of that URL, with \<open>k = 0\<close> exactly when the gate refused it and one to
  five tries otherwise; it opens exactly one HTTP client.\<close>

theorem crawl_once_requests:
  assumes "crawl_once urls w = Some (Inr (), w')"
  shows "\<exists>ks. length ks = length urls \<and>
     list_all2 (\<lambda>b k. if b then 1 \<le> k \<and> k \<le> MAX_TRIES else k = 0) (gate_decisions urls (gatew w)) ks \<and>
     requested (netw w') = requested (netw w) @ concat (map (\<lambda>(u, k). replicate k u) (zip urls ks)) \<and>
     clients (netw w') = Suc (clients (netw w))"
proof -
  from assms obtain l where "crawl_loop (fst (http_client (netw w))) urls
      (w\<lparr>netw := snd (http_client (netw w)), log_level := l\<rparr>) = Some (Inr (), w')"
    by (rule crawl_once_InrE)
  from crawl_loop_effect [OF this] obtain ks
    where "batch_effect urls (w\<lparr>netw := snd (http_client (netw w)), log_level := l\<rparr>) w' ks"
    by blast
  then show ?thesis
    unfolding batch_effect_def by (intro exI [of _ ks]) simp
qed

theorem crawl_once_requests_witness:
  "\<exists>ks. length ks = 2 \<and>
     list_all2 (\<lambda>b k. if b then 1 \<le> k \<and> k \<le> MAX_TRIES else k = 0) [True, False] ks \<and>
     requested (netw (snd (the (crawl_once demo_urls (demo_start (Some (py ''CRITICAL''))))))) =
       concat (map (\<lambda>(u, k). replicate k u) (zip demo_urls ks)) \<and>
     clients (netw (snd (the (crawl_once demo_urls (demo_start (Some (py ''CRITICAL''))))))) = 1"
  using crawl_once_requests [OF demo_batch_critical] by (simp add: demo_facts demo_decisions)

text \<open>C6. At the default log level (\<open>LOG_LEVEL\<close> unset, so \<open>INFO\<close>) a batch that ends
  normally counts a fetch error and logs \<open>fetch_error\<close> for every URL, the pages it
  crawled included: the \<open>info\<close> call after the crawled counter raises \<open>KeyError\<close>
  inside the \<open>try\<close>.\<close>

theorem crawl_once_default_level_errors:
  assumes "env_log_level w = None" and "crawl_once urls w = Some (Inr (), w')"
  shows "fetch_errors_total w' cli_labels = fetch_errors_total w cli_labels + length urls \<and>
         log w' = log w @ replicate (length urls) LogFetchError"
proof -
  from assms(2) obtain l where l: "configure_logging (env_log_level w) = Inr l"
    and r: "crawl_loop (fst (http_client (netw w))) urls
      (w\<lparr>netw := snd (http_client (netw w)), log_level := l\<rparr>) = Some (Inr (), w')"
    by (rule crawl_once_InrE)
  have "l = INFO"
    using l assms(1) configure_logging_default by simp
  with crawl_loop_effect [OF r] show ?thesis
    by (auto simp: batch_effect_def)
qed

theorem crawl_once_default_level_errors_witness:
  "fetch_errors_total (snd (the (crawl_once [py ''https://example.com/x''] (demo_start None)))) cli_labels = 1 \<and>
   crawled_pages_total (snd (the (crawl_once [py ''https://example.com/x''] (demo_start None)))) cli_labels = 1 \<and>
   log (snd (the (crawl_once [py ''https://example.com/x''] (demo_start None)))) = [LogFetchError]"
proof -
  have "crawled_pages_total (snd (the (crawl_once [py ''https://example.com/x''] (demo_start None)))) cli_labels = 1"
    by (simp add: cli_eval)
  then show ?thesis
    using crawl_once_default_level_errors [OF _ demo_batch_default] by (simp add: demo_facts)
qed

text \<open>C16. At the default log level the first URL the gate refuses ends the batch: the
  warning raises \<open>KeyError\<close> outside the \<open>try\<close>, and no later URL is looked at.\<close>

theorem crawl_once_refusal_aborts:
  assumes "env_log_level w = None" and "allowed u AGENT_CLI (gatew w) = (Inr False, g)"
  shows "crawl_once (u # us) w =
         Some (Inl (LogExc KeyError), w\<lparr>netw := snd (http_client (netw w)), log_level := INFO, gatew := g\<rparr>)"
  using assms by (simp add: crawl_once_configured configure_logging_default log_extra_def)

theorem crawl_once_refusal_aborts_witness:
  "fst (the (crawl_once [py ''https://other.org/y'', py ''https://example.com/x''] (demo_start None))) =
   Inl (LogExc KeyError)"
proof -
  have "allowed (py ''https://other.org/y'') AGENT_CLI (gatew (demo_start None)) =
        (Inr False, snd (allowed (py ''https://other.org/y'') AGENT_CLI (gatew (demo_start None))))"
    by (rule prod_eqI) (simp_all add: cli_eval)
  from crawl_once_refusal_aborts [OF demo_facts(6) this] show ?thesis
    by simp
qed

text \<open>C17. With the warning and the \<open>info\<close> call filtered out (a level above
  \<open>WARNING\<close>), the counters of a batch add up: the pages crawled and the fetch errors of
  the \<open>cli\<close> labels grow by the number of URLs less the number the gate refused.\<close>

theorem crawl_once_counters:
  assumes "configure_logging (env_log_level w) = Inr l" and "WARNING < l"
    and "crawl_once urls w = Some (Inr (), w')"
  shows "crawled_pages_total w' cli_labels + fetch_errors_total w' cli_labels +
           length (filter Not (gate_decisions urls (gatew w))) =
         crawled_pages_total w cli_labels + fetch_errors_total w cli_labels + length urls"
proof -
  have "\<not> is_enabled l INFO"
    using assms(2) by (simp add: is_enabled_def INFO_def WARNING_def)
  with crawl_loop_effect assms(3) show ?thesis
    by (fastforce simp: crawl_once_configured [OF assms(1)] batch_effect_def)
qed

theorem crawl_once_counters_witness:
  "crawled_pages_total (snd (the (crawl_once demo_urls (demo_start (Some (py ''CRITICAL'')))))) cli_labels +
   fetch_errors_total (snd (the (crawl_once demo_urls (demo_start (Some (py ''CRITICAL'')))))) cli_labels + 1 = 2"
proof -
  have l: "configure_logging (env_log_level (demo_start (Some (py ''CRITICAL'')))) = Inr 50"
    by (simp add: demo_facts configure_logging_def level_names_def)
  show ?thesis
    using crawl_once_counters [OF l _ demo_batch_critical] by (simp add: demo_facts demo_decisions WARNING_def)
qed

text \<open>An exception of the Politeness Gate ends the batch: a URL whose bracketed
  host is not closed makes \<open>allowed\<close> raise before the \<open>try\<close>, and the URLs after it
  are never looked at (nothing is requested, counted or logged).\<close>

theorem crawl_once_aborts:
  assumes "configure_logging (env_log_level w) = Inr l"
  shows "crawl_once (py ''http://[::1/x'' # us) w =
         Some (Inl (RobotsExc (UrlErr ValueError)), w\<lparr>netw := snd (http_client (netw w)), log_level := l\<rparr>)"
  by (simp add: crawl_once_configured [OF assms] allowed_def urlparse_def urlsplit_eval)

theorem crawl_once_aborts_witness:
  "crawl_once [py ''http://[::1/x'', py ''https://example.com/x''] (demo_start None) =
   Some (Inl (RobotsExc (UrlErr ValueError)),
         (demo_start None)\<lparr>netw := snd (http_client (netw (demo_start None))), log_level := INFO\<rparr>)"
  using crawl_once_aborts [of "demo_start None" INFO] by (simp add: demo_facts configure_logging_default)

end
