(* ===== verification/RunSource.thy ===== *)
theory RunSource
  imports Cli
begin

text \<open>
  \<open>run_source\<close> of \<^verbatim>\<open>cli.py\<close>: crawl the base URLs of one catalog entry of
  \<^verbatim>\<open>config/sources.yaml\<close>. The environment it reads is \<open>run_env\<close>: whether PyYAML is
  importable, whether the configuration file exists, the \<open>sources\<close> list the YAML
  file holds (each entry with the keys \<open>run_source\<close> reads, missing keys as the
  defaults of \<open>dict.get\<close>), and the UTC date of the run, already in the form
  \<open>%Y-%m-%d\<close>. The three early returns call \<open>log.error\<close> with \<open>extra\<close>, so they
  raise \<open>KeyError\<close> unless errors are filtered out; otherwise the URLs are
  \<open>base_urls[:max_pages]\<close> (Python's slice, negative bounds included) numbered from 1,
  and the loop body is the source's: the gate outside the \<open>try\<close>, the fetch and
  \<open>to_article\<close> inside it, and, when \<open>write_raw\<close>, the inner \<open>try\<close> that writes the
  raw page to the object store and swallows its failures.
\<close>

record source_entry =
  se_name :: "pystr option"
  se_country :: "pystr option"
  se_language :: "pystr option"
  se_base_urls :: "pystr list"

record run_env =
  yaml_available :: bool
  config_exists :: bool
  catalog :: "source_entry list"
  utc_today :: pystr

text \<open>The arguments one run passes down to its loop.\<close>

record run_args =
  ra_source :: pystr
  ra_country :: pystr
  ra_language :: "pystr option"
  ra_write_raw :: bool
  ra_today :: pystr

subsection \<open>Formatting\<close>

text \<open>\<open>format(n, '06d')\<close>: at least six digits, padded with zeros on the left.\<close>

definition zpad6 :: "nat \<Rightarrow> pystr" where
  "zpad6 n = replicate (6 - length (str_nat n)) 48 @ str_nat n"

definition raw_key :: "pystr \<Rightarrow> pystr \<Rightarrow> pystr \<Rightarrow> nat \<Rightarrow> pystr" where
  "raw_key src cty today idx =
     py ''raw/'' @ src @ py ''/'' @ cty @ py ''/dt='' @ today @ py ''/page-'' @ zpad6 idx @ py ''.html.gz''"

text \<open>\<open>xs[:n]\<close>: a negative bound counts from the end.\<close>

definition py_slice_to :: "int \<Rightarrow> 'a list \<Rightarrow> 'a list" where
  "py_slice_to n xs = (if 0 \<le> n then take (nat n) xs else take (nat (int (length xs) + n)) xs)"

text \<open>\<open>next((s for s in sources if s.get("name") == source and s.get("country") ==
  country), None)\<close>.\<close>

definition find_entry :: "pystr \<Rightarrow> pystr \<Rightarrow> source_entry list \<Rightarrow> source_entry option" where
  "find_entry source country srcs =
     find (\<lambda>s. se_name s = Some source \<and> se_country s = Some country) srcs"

subsection \<open>The loop of \<open>run_source\<close>\<close>

text \<open>The \<open>except\<close> blocks: of the inner \<open>try\<close> (the raw write) and of the outer one.\<close>

definition raw_except :: "cli_world \<Rightarrow> cli_world" where
  "raw_except w = w\<lparr>log := log_record (log_level w) ERROR LogRawWriteFailed (log w)\<rparr>"

definition run_except :: "run_args \<Rightarrow> cli_world \<Rightarrow> cli_world" where
  "run_except a w =
     w\<lparr>fetch_errors_total := inc_counter (ra_source a, ra_country a) 1 (fetch_errors_total w),
       log := log_record (log_level w) ERROR LogRunError (log w)\<rparr>"

text \<open>The inner \<open>try\<close> of the loop body: the key and the metadata, the UTF-8 encoding
  of the text (which raises on a lone surrogate), \<open>put_gz\<close>, the byte counter and the
  \<open>info\<close> call; every exception of it is logged and swallowed.\<close>

definition write_raw_page :: "run_args \<Rightarrow> nat \<Rightarrow> response \<Rightarrow> cli_world \<Rightarrow> cli_world" where
  "write_raw_page a idx r w =
     (let key = raw_key (ra_source a) (ra_country a) (ra_today a) idx;
          meta = [(py ''content_hash'', content_hash (response_text r)),
                  (py ''status'', str_nat (status_code r)),
                  (py ''source'', ra_source a), (py ''country'', ra_country a)] in
      case encode_strict (response_text r) of
        Inl _ \<Rightarrow> raw_except w
      | Inr bs \<Rightarrow>
          (case put_gz key bs meta (store w) of
             (Inl _, st) \<Rightarrow> raw_except (w\<lparr>store := st\<rparr>)
           | (Inr _, st) \<Rightarrow>
               (let w1 = w\<lparr>store := st,
                          bytes_written_total := inc_counter (py ''raw'', ra_source a, ra_country a) (length bs)
                            (bytes_written_total w)\<rparr> in
                case log_extra (log_level w1) INFO of None \<Rightarrow> w1 | Some _ \<Rightarrow> raw_except w1)))"

text \<open>The outer \<open>try\<close> of the loop body for an allowed URL: the raw write comes after
  the \<open>info\<close> call.\<close>

definition run_once_try :: "run_args \<Rightarrow> client_config \<Rightarrow> nat \<Rightarrow> pystr \<Rightarrow> cli_world \<Rightarrow> cli_world option" where
  "run_once_try a c idx u w =
     (case fetch u (Some c) (netw w) of
        None \<Rightarrow> None
      | Some (Inl _, n) \<Rightarrow> Some (run_except a (w\<lparr>netw := n\<rparr>))
      | Some (Inr r, n) \<Rightarrow>
          (case to_article (extractor w) u (response_text r) (Some (ra_country a)) (ra_language a)
                  (Some (ra_source a)) of
             Inl _ \<Rightarrow> Some (run_except a (w\<lparr>netw := n\<rparr>))
           | Inr art \<Rightarrow>
               (let w1 = w\<lparr>netw := n,
                           crawled_pages_total := inc_counter (ra_source a, ra_country a) 1 (crawled_pages_total w)\<rparr> in
                case log_extra (log_level w1) INFO of
                  Some _ \<Rightarrow> Some (run_except a w1)
                | None \<Rightarrow> Some (if ra_write_raw a then write_raw_page a idx r w1 else w1))))"

text \<open>\<open>for idx, url in enumerate(base_urls, start=1)\<close>: \<open>idx\<close> is the number of the
  next URL.\<close>

fun run_loop ::
  "run_args \<Rightarrow> client_config \<Rightarrow> nat \<Rightarrow> pystr list \<Rightarrow> cli_world \<Rightarrow> ((cli_exc + unit) \<times> cli_world) option" where
  "run_loop a c idx [] w = Some (Inr (), w)"
| "run_loop a c idx (u # us) w =
     (case allowed u AGENT_CLI (gatew w) of
        (Inl e, g) \<Rightarrow> Some (Inl (RobotsExc e), w\<lparr>gatew := g\<rparr>)
      | (Inr b, g) \<Rightarrow>
          if \<not> b then
            (case log_extra (log_level w) WARNING of
               Some e \<Rightarrow> Some (Inl (LogExc e), w\<lparr>gatew := g\<rparr>)
             | None \<Rightarrow> run_loop a c (Suc idx) us (w\<lparr>gatew := g\<rparr>))
          else (case run_once_try a c idx u (w\<lparr>gatew := g\<rparr>) of
                  None \<Rightarrow> None
                | Some w' \<Rightarrow> run_loop a c (Suc idx) us w'))"

text \<open>An early return: its \<open>log.error\<close> call passes \<open>extra\<close>.\<close>

definition early_return :: "cli_world \<Rightarrow> ((cli_exc + unit) \<times> cli_world) option" where
  "early_return w =
     (case log_extra (log_level w) ERROR of Some e \<Rightarrow> Some (Inl (LogExc e), w) | None \<Rightarrow> Some (Inr (), w))"

text \<open>\<open>if metrics_port: start_metrics_server(metrics_port)\<close>: nothing for \<open>None\<close> and
  for the falsy port 0.\<close>

definition run_metrics :: "int option \<Rightarrow> metrics_world \<Rightarrow> (server_error + unit) \<times> metrics_world" where
  "run_metrics metrics_port m =
     (case metrics_port of None \<Rightarrow> (Inr (), m) | Some p \<Rightarrow> if p = 0 then (Inr (), m) else start_metrics_server p m)"

text \<open>\<open>run_source(source, country, max_pages, write_raw=..., metrics_port=...)\<close>.\<close>

definition run_source ::
  "run_env \<Rightarrow> pystr \<Rightarrow> pystr \<Rightarrow> int \<Rightarrow> bool \<Rightarrow> int option \<Rightarrow> cli_world \<Rightarrow> ((cli_exc + unit) \<times> cli_world) option" where
  "run_source env source country max_pages write_raw metrics_port w =
     (case configure_logging (env_log_level w) of
        Inl e \<Rightarrow> Some (Inl (LogExc e), w)
      | Inr l \<Rightarrow>
          (case run_metrics metrics_port (metricsw w) of
             (Inl x, m) \<Rightarrow> Some (Inl (MetricsExc x), w\<lparr>log_level := l, metricsw := m\<rparr>)
           | (Inr _, m) \<Rightarrow>
          (let w0 = w\<lparr>log_level := l, metricsw := m\<rparr> in
           if \<not> yaml_available env then early_return w0
           else if \<not> config_exists env then early_return w0
           else (case find_entry source country (catalog env) of
                   None \<Rightarrow> early_return w0
                 | Some e \<Rightarrow>
                     (let urls = py_slice_to max_pages (se_base_urls e);
                          a = \<lparr>ra_source = source, ra_country = country, ra_language = se_language e,
                               ra_write_raw = write_raw, ra_today = utc_today env\<rparr> in
                      case http_client (netw w0) of (c, n) \<Rightarrow> run_loop a c 1 urls (w0\<lparr>netw := n\<rparr>))))))"

text \<open>\<open>main()\<close> once argparse has parsed the command line: \<open>urls\<close> runs
  \<open>crawl_once\<close>, \<open>run\<close> runs \<open>run_source\<close> (\<open>--max-pages\<close> defaults to 50 and
  \<open>--write-raw\<close> to false and \<open>--metrics-port\<close> to none).\<close>

datatype cli_command =
    UrlsCmd "pystr list"
  | RunCmd pystr pystr "int option" bool "int option"

definition cli_main :: "run_env \<Rightarrow> cli_command \<Rightarrow> cli_world \<Rightarrow> ((cli_exc + unit) \<times> cli_world) option" where
  "cli_main env cmd w =
     (case cmd of
        UrlsCmd urls \<Rightarrow> crawl_once urls w
      | RunCmd source country mx write_raw port \<Rightarrow>
          run_source env source country (case mx of None \<Rightarrow> 50 | Some n \<Rightarrow> n) write_raw port w)"

text \<open>A test catalog: one entry \<open>example-news\<close>/\<open>MZ\<close> with the two URLs of the test
  batch of Cli.\<close>

definition demo_env :: run_env where
  "demo_env = \<lparr>yaml_available = True, config_exists = True,
     catalog = [\<lparr>se_name = Some (py ''example-news''), se_country = Some (py ''MZ''),
                 se_language = Some (py ''pt''), se_base_urls = demo_urls\<rparr>],
     utc_today = py ''2024-01-02''\<rparr>"

subsection \<open>Formatting lemmas\<close>

lemma dec_value_snoc: "dec_value (xs @ [d]) = 10 * dec_value xs + (d - 48)"
  by (simp add: dec_value_def)

lemma foldl_dec_zeros: "foldl (\<lambda>a d. 10 * a + (d - 48)) (0::nat) (replicate k 48) = 0"
  by (induction k) simp_all

lemma dec_value_zeros: "dec_value (replicate k 48 @ s) = dec_value s"
  by (simp add: dec_value_def foldl_dec_zeros)

lemma dec_value_str_nat: "dec_value (str_nat n) = n"
proof (induction n rule: str_nat.induct)
  case (1 n)
  show ?case
  proof (cases "n < 10")
    case True
    then show ?thesis by (simp add: str_nat.simps dec_value_def)
  next
    case False
    with 1 show ?thesis by (simp add: str_nat.simps [of n] dec_value_snoc)
  qed
qed

lemma dec_value_zpad6: "dec_value (zpad6 n) = n"
  by (simp add: zpad6_def dec_value_zeros dec_value_str_nat)

lemma py_slice_to_neg: "0 < k \<Longrightarrow> py_slice_to (- int k) xs = take (length xs - k) xs"
  by (simp add: py_slice_to_def nat_diff_distrib')

subsection \<open>One URL\<close>

lemma raw_except_simps [simp]:
  "netw (raw_except w) = netw w" "gatew (raw_except w) = gatew w" "store (raw_except w) = store w"
  "log_level (raw_except w) = log_level w" "env_log_level (raw_except w) = env_log_level w"
  "extractor (raw_except w) = extractor w"
  by (simp_all add: raw_except_def)

lemma run_except_simps [simp]:
  "netw (run_except a w) = netw w" "gatew (run_except a w) = gatew w" "store (run_except a w) = store w"
  "log_level (run_except a w) = log_level w" "env_log_level (run_except a w) = env_log_level w"
  "extractor (run_except a w) = extractor w"
  by (simp_all add: run_except_def)

lemma write_raw_page_cases:
  "write_raw_page a i r w = raw_except w \<or>
   (\<exists>st bs. put_gz (raw_key (ra_source a) (ra_country a) (ra_today a) i) bs
      [(py ''content_hash'', content_hash (response_text r)), (py ''status'', str_nat (status_code r)),
       (py ''source'', ra_source a), (py ''country'', ra_country a)] (store w) = (Inr (), st) \<and>
      (write_raw_page a i r w = w\<lparr>store := st, bytes_written_total := inc_counter (py ''raw'', ra_source a, ra_country a)
          (length bs) (bytes_written_total w)\<rparr> \<or>
       write_raw_page a i r w = raw_except (w\<lparr>store := st, bytes_written_total := inc_counter (py ''raw'', ra_source a, ra_country a)
          (length bs) (bytes_written_total w)\<rparr>))) \<or>
   (\<exists>st bs. put_gz (raw_key (ra_source a) (ra_country a) (ra_today a) i) bs
      [(py ''content_hash'', content_hash (response_text r)), (py ''status'', str_nat (status_code r)),
       (py ''source'', ra_source a), (py ''country'', ra_country a)] (store w) = (Inl RuntimeError, st) \<and>
      write_raw_page a i r w = raw_except (w\<lparr>store := st\<rparr>))"
proof (cases "encode_strict (response_text r)")
  case (Inr bs)
  let ?m = "[(py ''content_hash'', content_hash (response_text r)), (py ''status'', str_nat (status_code r)),
       (py ''source'', ra_source a), (py ''country'', ra_country a)]"
  obtain x st where p: "put_gz (raw_key (ra_source a) (ra_country a) (ra_today a) i) bs ?m (store w) = (x, st)"
    by fastforce
  show ?thesis
  proof (cases x)
    case (Inl e)
    then have "e = RuntimeError" using p put_gz_error by blast
    with p Inl Inr show ?thesis by (simp add: write_raw_page_def) blast
  next
    case (Inr u)
    with p \<open>encode_strict (response_text r) = Inr bs\<close> show ?thesis
      by (cases "log_extra (log_level w) INFO") (auto simp: write_raw_page_def Let_def)
  qed
qed (simp add: write_raw_page_def)

lemma write_raw_page_fields:
  "netw (write_raw_page a i r w) = netw w \<and> gatew (write_raw_page a i r w) = gatew w \<and>
   log_level (write_raw_page a i r w) = log_level w \<and> env_log_level (write_raw_page a i r w) = env_log_level w \<and>
   extractor (write_raw_page a i r w) = extractor w"
  using write_raw_page_cases [of a i r w] by auto

lemma write_raw_page_store:
  "s3_objects (store (write_raw_page a i r w)) k \<noteq> s3_objects (store w) k \<Longrightarrow>
   k = raw_key (ra_source a) (ra_country a) (ra_today a) i"
  using write_raw_page_cases [of a i r w] by (auto simp: put_gz_def storage_client_def split: if_splits)

lemma run_once_try_effect:
  "\<exists>w' k. run_once_try a c i u w = Some w' \<and> 1 \<le> k \<and> k \<le> MAX_TRIES \<and>
     requested (netw w') = requested (netw w) @ replicate k u \<and> clients (netw w') = clients (netw w) \<and>
     gatew w' = gatew w \<and> extractor w' = extractor w \<and> log_level w' = log_level w \<and>
     env_log_level w' = env_log_level w \<and>
     (\<forall>key. s3_objects (store w') key \<noteq> s3_objects (store w) key \<longrightarrow>
        ra_write_raw a \<and> \<not> is_enabled (log_level w) INFO \<and>
        key = raw_key (ra_source a) (ra_country a) (ra_today a) i)"
proof -
  obtain res n where g: "get u (netw w) = Some (res, n)"
    by (metis get_eq_loop_spec prod.collapse)
  from get_effect [OF g] obtain k where k: "1 \<le> k" "k \<le> MAX_TRIES"
    "requested n = requested (netw w) @ replicate k u" "clients n = clients (netw w)"
    by blast
  show ?thesis
  proof (cases res)
    case (Inl e)
    with g k show ?thesis
      by (auto simp: run_once_try_def fetch_with_client)
  next
    case (Inr r)
    have st: "s3_objects (store (write_raw_page a i r w1)) key \<noteq> s3_objects (store w) key \<Longrightarrow> store w1 = store w \<Longrightarrow>
      key = raw_key (ra_source a) (ra_country a) (ra_today a) i" for w1 key
      using write_raw_page_store by metis
    with g k Inr write_raw_page_fields show ?thesis
      by (cases "to_article (extractor w) u (response_text r) (Some (ra_country a)) (ra_language a) (Some (ra_source a))")
         (auto simp: run_once_try_def fetch_with_client log_extra_def Let_def)
  qed
qed

subsection \<open>The loop\<close>

lemma run_loop_total: "\<exists>y. run_loop a c i us w = Some y"
proof (induction us arbitrary: i w)
  case Nil
  then show ?case by simp
next
  case (Cons u us)
  obtain x g where al: "allowed u AGENT_CLI (gatew w) = (x, g)"
    by fastforce
  show ?case
  proof (cases x)
    case (Inr b)
    obtain w' where "run_once_try a c i u (w\<lparr>gatew := g\<rparr>) = Some w'"
      using run_once_try_effect by blast
    with al Inr Cons show ?thesis
      by (cases "log_extra (log_level w) WARNING") auto
  qed (simp add: al)
qed

lemma run_loop_requests:
  "run_loop a c i us w = Some (Inr (), w') \<Longrightarrow>
   \<exists>ks. length ks = length us \<and>
     list_all2 (\<lambda>b k. if b then 1 \<le> k \<and> k \<le> MAX_TRIES else k = 0) (gate_decisions us (gatew w)) ks \<and>
     requested (netw w') = requested (netw w) @ concat (map (\<lambda>(u, k). replicate k u) (zip us ks)) \<and>
     clients (netw w') = clients (netw w)"
proof (induction us arbitrary: i w)
  case Nil
  then show ?case by simp
next
  case (Cons u us)
  obtain x g where al: "allowed u AGENT_CLI (gatew w) = (x, g)"
    by fastforce
  show ?case
  proof (cases x)
    case (Inl e)
    with Cons.prems al show ?thesis by simp
  next
    case (Inr b)
    show ?thesis
    proof (cases b)
      case False
      with Cons.prems al Inr have "run_loop a c (Suc i) us (w\<lparr>gatew := g\<rparr>) = Some (Inr (), w')"
        by (cases "log_extra (log_level w) WARNING") auto
      from Cons.IH [OF this] obtain ks where "length ks = length us"
        "list_all2 (\<lambda>b k. if b then 1 \<le> k \<and> k \<le> MAX_TRIES else k = 0) (gate_decisions us g) ks"
        "requested (netw w') = requested (netw w) @ concat (map (\<lambda>(u, k). replicate k u) (zip us ks))"
        "clients (netw w') = clients (netw w)"
        by auto
      with al Inr False show ?thesis
        by (intro exI [of _ "0 # ks"]) simp
    next
      case True
      obtain w1 k where t: "run_once_try a c i u (w\<lparr>gatew := g\<rparr>) = Some w1" "1 \<le> k" "k \<le> MAX_TRIES"
        "requested (netw w1) = requested (netw w) @ replicate k u" "clients (netw w1) = clients (netw w)"
        "gatew w1 = g"
        using run_once_try_effect [of a c i u "w\<lparr>gatew := g\<rparr>"] by auto
      with Cons.prems al Inr True have "run_loop a c (Suc i) us w1 = Some (Inr (), w')"
        by simp
      from Cons.IH [OF this] obtain ks where "length ks = length us"
        "list_all2 (\<lambda>b k. if b then 1 \<le> k \<and> k \<le> MAX_TRIES else k = 0) (gate_decisions us (gatew w1)) ks"
        "requested (netw w') = requested (netw w1) @ concat (map (\<lambda>(u, k). replicate k u) (zip us ks))"
        "clients (netw w') = clients (netw w1)"
        by auto
      with t al Inr True show ?thesis
        by (intro exI [of _ "k # ks"]) simp
    qed
  qed
qed

lemma run_loop_store:
  "run_loop a c i us w = Some (r, w') \<Longrightarrow> s3_objects (store w') key \<noteq> s3_objects (store w) key \<Longrightarrow>
   ra_write_raw a \<and> \<not> is_enabled (log_level w) INFO \<and>
   (\<exists>j. i \<le> j \<and> j < i + length us \<and> key = raw_key (ra_source a) (ra_country a) (ra_today a) j)"
proof (induction us arbitrary: i w)
  case Nil
  then show ?case by simp
next
  case (Cons u us)
  obtain x g where al: "allowed u AGENT_CLI (gatew w) = (x, g)"
    by fastforce
  show ?case
  proof (cases x)
    case (Inl e)
    with Cons.prems al show ?thesis by auto
  next
    case (Inr b)
    show ?thesis
    proof (cases b)
      case False
      show ?thesis
      proof (cases "log_extra (log_level w) WARNING")
        case None
        with Cons.prems al Inr False have "run_loop a c (Suc i) us (w\<lparr>gatew := g\<rparr>) = Some (r, w')"
          by simp
        from Cons.IH [OF this] Cons.prems(2) obtain j where "ra_write_raw a" "\<not> is_enabled (log_level w) INFO"
          "Suc i \<le> j" "j < Suc i + length us" "key = raw_key (ra_source a) (ra_country a) (ra_today a) j"
          by auto
        then show ?thesis
          by (intro conjI exI [of _ j]) auto
      qed (use Cons.prems al Inr False in auto)
    next
      case True
      obtain w1 where t: "run_once_try a c i u (w\<lparr>gatew := g\<rparr>) = Some w1" "log_level w1 = log_level w"
        "\<forall>key. s3_objects (store w1) key \<noteq> s3_objects (store w) key \<longrightarrow>
           ra_write_raw a \<and> \<not> is_enabled (log_level w) INFO \<and>
           key = raw_key (ra_source a) (ra_country a) (ra_today a) i"
        using run_once_try_effect [of a c i u "w\<lparr>gatew := g\<rparr>"] by auto
      with Cons.prems al Inr True have l: "run_loop a c (Suc i) us w1 = Some (r, w')"
        by simp
      show ?thesis
      proof (cases "s3_objects (store w1) key = s3_objects (store w) key")
        case True
        with Cons.prems(2) have "s3_objects (store w') key \<noteq> s3_objects (store w1) key"
          by simp
        from Cons.IH [OF l this] t(2) obtain j where "ra_write_raw a" "\<not> is_enabled (log_level w) INFO"
          "Suc i \<le> j" "j < Suc i + length us" "key = raw_key (ra_source a) (ra_country a) (ra_today a) j"
          by auto
        then show ?thesis
          by (intro conjI exI [of _ j]) auto
      next
        case False
        with t(3) show ?thesis
          by auto
      qed
    qed
  qed
qed

subsection \<open>\<open>run_source\<close>\<close>

lemma run_metrics_Inr: "fst (run_metrics mp m) = Inr ()"
  by (simp add: run_metrics_def start_metrics_server_Inr split: option.split)

lemma run_metrics_ok: "\<exists>m'. run_metrics mp m = (Inr (), m')"
  using run_metrics_Inr [of mp m] by (metis prod.collapse)

lemma run_source_loop:
  assumes "configure_logging (env_log_level w) = Inr l" "yaml_available env" "config_exists env"
    "find_entry source country (catalog env) = Some e"
  shows "run_source env source country n wr mp w =
   run_loop \<lparr>ra_source = source, ra_country = country, ra_language = se_language e, ra_write_raw = wr,
      ra_today = utc_today env\<rparr> (fst (http_client (netw w))) 1 (py_slice_to n (se_base_urls e))
     (w\<lparr>log_level := l, metricsw := snd (run_metrics mp (metricsw w)), netw := snd (http_client (netw w))\<rparr>)"
proof -
  obtain m' where "run_metrics mp (metricsw w) = (Inr (), m')" using run_metrics_ok by blast
  with assms show ?thesis by (simp add: run_source_def split: prod.split)
qed

lemma run_source_cases:
  assumes "run_source env source country n wr mp w = Some (r, w')"
  obtains (early) "w' = w \<or> (\<exists>l. w' = w\<lparr>log_level := l, metricsw := snd (run_metrics mp (metricsw w))\<rparr>)"
  | (loop) l e where "configure_logging (env_log_level w) = Inr l" "yaml_available env" "config_exists env"
      "find_entry source country (catalog env) = Some e"
      "run_loop \<lparr>ra_source = source, ra_country = country, ra_language = se_language e, ra_write_raw = wr,
         ra_today = utc_today env\<rparr> (fst (http_client (netw w))) 1 (py_slice_to n (se_base_urls e))
        (w\<lparr>log_level := l, metricsw := snd (run_metrics mp (metricsw w)), netw := snd (http_client (netw w))\<rparr>) =
        Some (r, w')"
proof -
  obtain m' where "run_metrics mp (metricsw w) = (Inr (), m')" using run_metrics_ok by blast
  with assms that show ?thesis
    by (cases "configure_logging (env_log_level w)"; cases "find_entry source country (catalog env)")
       (auto simp: run_source_def early_return_def Let_def split: if_splits option.splits prod.splits)
qed

lemmas run_eval = cli_eval run_source_def run_metrics_def demo_env_def find_entry_def py_slice_to_def run_once_try_def
  run_except_def write_raw_page_def raw_except_def early_return_def put_gz_def storage_client_def encode_strict_def

lemma demo_store: "s3_objects (store (demo_start lvl)) = Map.empty" "log_level (demo_start lvl) = 30"
  by (simp_all add: demo_start_def demo_world_def)

lemma run_source_not_None: "run_source env source country n wr mp w \<noteq> None"
proof -
  obtain m' where "run_metrics mp (metricsw w) = (Inr (), m')" using run_metrics_ok by blast
  then show ?thesis using run_loop_total
    by (cases "configure_logging (env_log_level w)"; cases "find_entry source country (catalog env)")
       (auto simp: run_source_def early_return_def Let_def split: option.splits prod.splits)
qed

text \<open>The loop is confined away from the metrics server: it neither reads nor writes
  \<open>metricsw\<close> (the shape of the confinement lemmas of noninterference).\<close>

lemma run_once_try_metrics:
  "run_once_try a c i u (w\<lparr>metricsw := m\<rparr>) = map_option (\<lambda>w'. w'\<lparr>metricsw := m\<rparr>) (run_once_try a c i u w)"
  by (simp add: run_once_try_def write_raw_page_def run_except_def raw_except_def Let_def
      split: option.split sum.split prod.split)

lemma run_loop_metrics:
  "run_loop a c i us (w\<lparr>metricsw := m\<rparr>) = map_option (\<lambda>(r, w'). (r, w'\<lparr>metricsw := m\<rparr>)) (run_loop a c i us w)"
proof (induction us arbitrary: i w)
  case Nil
  then show ?case by simp
next
  case (Cons u us)
  obtain res g where al: "allowed u AGENT_CLI (gatew w) = (res, g)" by fastforce
  have ih: "run_loop a c (Suc i) us (w\<lparr>metricsw := m, gatew := g\<rparr>) =
      map_option (\<lambda>(r, w'). (r, w'\<lparr>metricsw := m\<rparr>)) (run_loop a c (Suc i) us (w\<lparr>gatew := g\<rparr>))"
    using Cons.IH [of "Suc i" "w\<lparr>gatew := g\<rparr>"] by (cases w) simp
  have tr: "run_once_try a c i u (w\<lparr>metricsw := m, gatew := g\<rparr>) =
      map_option (\<lambda>w'. w'\<lparr>metricsw := m\<rparr>) (run_once_try a c i u (w\<lparr>gatew := g\<rparr>))"
    using run_once_try_metrics [of a c i u m "w\<lparr>gatew := g\<rparr>"] by (cases w) simp
  show ?case
  proof (cases res)
    case (Inl e)
    with al show ?thesis by simp
  next
    case (Inr b)
    show ?thesis
    proof (cases b)
      case False
      with al Inr ih show ?thesis by (simp split: option.split)
    next
      case True
      with al Inr tr Cons.IH show ?thesis by (simp split: option.split)
    qed
  qed
qed

lemma run_loop_metricsw:
  assumes "run_loop a c i us w = Some (r, w')"
  shows "metricsw w' = metricsw w"
proof -
  have "run_loop a c i us (w\<lparr>metricsw := metricsw w\<rparr>) = Some (r, w')" using assms by simp
  then show ?thesis
    by (simp only: run_loop_metrics) (auto simp: assms dest: arg_cong [where f = metricsw])
qed

subsection \<open>Properties of \<open>run_source\<close>\<close>

text \<open>C12. A run that ends normally on a catalog entry fetches exactly the URLs of
  \<open>base_urls[:max_pages]\<close> that the gate allows, once each and in order: \<open>k\<close>
  requests per URL, \<open>k = 0\<close> exactly when the gate refused it and one to five tries
  otherwise. A negative \<open>max_pages\<close> counts from the end, so \<open>--max-pages -1\<close> skips
  the last URL.\<close>

theorem run_source_requests:
  assumes "run_source env source country n wr mp w = Some (Inr (), w')"
    and "yaml_available env" and "config_exists env" and "find_entry source country (catalog env) = Some e"
  shows "\<exists>ks. length ks = length (py_slice_to n (se_base_urls e)) \<and>
     list_all2 (\<lambda>b k. if b then 1 \<le> k \<and> k \<le> MAX_TRIES else k = 0)
       (gate_decisions (py_slice_to n (se_base_urls e)) (gatew w)) ks \<and>
     requested (netw w') =
       requested (netw w) @ concat (map (\<lambda>(u, k). replicate k u) (zip (py_slice_to n (se_base_urls e)) ks))"
proof -
  obtain l where l: "configure_logging (env_log_level w) = Inr l"
    using assms(1) by (cases "configure_logging (env_log_level w)") (auto simp: run_source_def)
  show ?thesis
    using run_loop_requests assms(1) by (fastforce simp: run_source_loop [OF l assms(2-4)])
qed

theorem run_source_requests_witness:
  "\<exists>ks. length ks = 1 \<and>
     list_all2 (\<lambda>b k. if b then 1 \<le> k \<and> k \<le> MAX_TRIES else k = 0) [True] ks \<and>
     requested (netw (snd (the (run_source demo_env (py ''example-news'') (py ''MZ'') (-1) False None
       (demo_start (Some (py ''CRITICAL''))))))) =
       concat (map (\<lambda>(u, k). replicate k u) (zip [py ''https://example.com/x''] ks))"
proof -
  have r: "run_source demo_env (py ''example-news'') (py ''MZ'') (-1) False None (demo_start (Some (py ''CRITICAL''))) =
    Some (Inr (), snd (the (run_source demo_env (py ''example-news'') (py ''MZ'') (-1) False None
       (demo_start (Some (py ''CRITICAL''))))))"
    by (rule the_result [OF run_source_not_None]) (simp add: run_eval)
  have e: "find_entry (py ''example-news'') (py ''MZ'') (catalog demo_env) = Some (hd (catalog demo_env))"
    by (simp add: demo_env_def find_entry_def)
  have s: "py_slice_to (-1) (se_base_urls (hd (catalog demo_env))) = [py ''https://example.com/x'']"
    by (simp add: demo_env_def demo_urls_def py_slice_to_def)
  have d: "gate_decisions [py ''https://example.com/x''] (gatew (demo_start (Some (py ''CRITICAL'')))) = [True]"
    by (simp add: cli_eval)
  show ?thesis
    using run_source_requests [OF r _ _ e] s d by (simp add: demo_env_def demo_facts)
qed

text \<open>C11. A run writes to the object store only under the raw keys of its own pages:
  an object that changed is at \<open>raw/{source}/{country}/dt={today}/page-{idx:06d}.html.gz\<close>
  for the number \<open>idx\<close> of one of the URLs it looked at, and only with \<open>write_raw\<close> and
  the \<open>info\<close> level filtered out. Also an aborted run.\<close>

theorem run_source_store_keys:
  assumes "run_source env source country n wr mp w = Some (r, w')"
    and "s3_objects (store w') key \<noteq> s3_objects (store w) key"
  shows "wr \<and> (\<exists>e j l. find_entry source country (catalog env) = Some e \<and>
           configure_logging (env_log_level w) = Inr l \<and> \<not> is_enabled l INFO \<and>
           1 \<le> j \<and> j \<le> length (py_slice_to n (se_base_urls e)) \<and>
           key = raw_key source country (utc_today env) j)"
  using assms(1)
proof (cases rule: run_source_cases)
  case early
  with assms(2) show ?thesis by auto
next
  case (loop l e)
  from run_loop_store [OF loop(5)] assms(2) loop(1,4) show ?thesis
    by fastforce
qed

theorem run_source_store_keys_witness:
  "\<exists>e j l. find_entry (py ''example-news'') (py ''MZ'') (catalog demo_env) = Some e \<and>
     configure_logging (Some (py ''CRITICAL'')) = Inr l \<and> \<not> is_enabled l INFO \<and>
     1 \<le> j \<and> j \<le> length (py_slice_to 10 (se_base_urls e)) \<and>
     raw_key (py ''example-news'') (py ''MZ'') (py ''2024-01-02'') 1 =
       raw_key (py ''example-news'') (py ''MZ'') (utc_today demo_env) j"
proof -
  have r: "run_source demo_env (py ''example-news'') (py ''MZ'') 10 True None (demo_start (Some (py ''CRITICAL''))) =
    Some (fst (the (run_source demo_env (py ''example-news'') (py ''MZ'') 10 True None (demo_start (Some (py ''CRITICAL''))))),
          snd (the (run_source demo_env (py ''example-news'') (py ''MZ'') 10 True None (demo_start (Some (py ''CRITICAL''))))))"
    using run_source_not_None by auto
  have k: "s3_objects (store (snd (the (run_source demo_env (py ''example-news'') (py ''MZ'') 10 True None
      (demo_start (Some (py ''CRITICAL''))))))) (raw_key (py ''example-news'') (py ''MZ'') (py ''2024-01-02'') 1) \<noteq>
    s3_objects (store (demo_start (Some (py ''CRITICAL'')))) (raw_key (py ''example-news'') (py ''MZ'') (py ''2024-01-02'') 1)"
    by (simp add: demo_store run_eval)
  show ?thesis
    using run_source_store_keys [OF r k] by (simp add: demo_facts)
qed

text \<open>At the default log level (\<open>LOG_LEVEL\<close> unset) \<open>run_source\<close> never writes a
  raw page, whatever \<open>--write-raw\<close> says: the \<open>info\<close> call before the write raises
  \<open>KeyError\<close> and the outer \<open>except\<close> counts a fetch error instead.\<close>

theorem run_source_default_level_no_raw:
  assumes "env_log_level w = None" and "run_source env source country n wr mp w = Some (r, w')"
  shows "s3_objects (store w') = s3_objects (store w)"
  using assms(2)
proof (cases rule: run_source_cases)
  case early
  then show ?thesis by auto
next
  case (loop l e)
  then have "l = INFO"
    using assms(1) configure_logging_default by simp
  with run_loop_store [OF loop(5)] show ?thesis
    by fastforce
qed

theorem run_source_default_level_no_raw_witness:
  "s3_objects (store (snd (the (run_source demo_env (py ''example-news'') (py ''MZ'') 10 True None (demo_start None))))) =
   Map.empty"
proof -
  have r: "run_source demo_env (py ''example-news'') (py ''MZ'') 10 True None (demo_start None) =
    Some (fst (the (run_source demo_env (py ''example-news'') (py ''MZ'') 10 True None (demo_start None))),
          snd (the (run_source demo_env (py ''example-news'') (py ''MZ'') 10 True None (demo_start None))))"
    using run_source_not_None by auto
  show ?thesis
    using run_source_default_level_no_raw [OF _ r] by (simp add: demo_facts demo_store)
qed

text \<open>C31. The early returns of \<open>run_source\<close> (PyYAML missing, no configuration file,
  no catalog entry for the source and country) fetch nothing and open no client; and
  since their \<open>log.error\<close> passes \<open>extra\<close>, they raise \<open>KeyError\<close> unless the level is
  above \<open>ERROR\<close>.\<close>

theorem run_source_early_exit:
  assumes "configure_logging (env_log_level w) = Inr l"
    and "\<not> yaml_available env \<or> \<not> config_exists env \<or> find_entry source country (catalog env) = None"
  shows "run_source env source country n wr mp w =
         Some (if is_enabled l ERROR then Inl (LogExc KeyError) else Inr (),
               w\<lparr>log_level := l, metricsw := snd (run_metrics mp (metricsw w))\<rparr>)"
proof -
  obtain m' where "run_metrics mp (metricsw w) = (Inr (), m')" using run_metrics_ok by blast
  with assms show ?thesis by (auto simp: run_source_def early_return_def log_extra_def Let_def)
qed

theorem run_source_early_exit_witness:
  "run_source (demo_env\<lparr>yaml_available := False\<rparr>) (py ''example-news'') (py ''MZ'') 10 True None (demo_start None) =
   Some (Inl (LogExc KeyError), (demo_start None)\<lparr>log_level := INFO\<rparr>)"
  using run_source_early_exit [of "demo_start None" INFO "demo_env\<lparr>yaml_available := False\<rparr>"]
  by (simp add: demo_facts configure_logging_default run_metrics_def)

text \<open>C34. The metrics server does not change what a run does: with or without
  \<open>--metrics-port\<close> the result and the world are the same except for the metrics
  state, which holds the bound port exactly when logging was configured (the server is
  started after \<open>configure_logging\<close>), and which a run without a port leaves alone.\<close>

theorem run_source_metrics_confined:
  "map_option (\<lambda>(r, w'). (r, w'\<lparr>metricsw := metricsw w\<rparr>)) (run_source env source country n wr mp w) =
     run_source env source country n wr None w \<and>
   metricsw (snd (the (run_source env source country n wr mp w))) =
     (case configure_logging (env_log_level w) of Inl _ \<Rightarrow> metricsw w | Inr _ \<Rightarrow> snd (run_metrics mp (metricsw w)))"
proof (cases "configure_logging (env_log_level w)")
  case (Inl x)
  then show ?thesis by (simp add: run_source_def)
next
  case (Inr l)
  obtain m' where m: "run_metrics mp (metricsw w) = (Inr (), m')" using run_metrics_ok by blast
  show ?thesis
  proof (cases "yaml_available env \<and> config_exists env \<and> find_entry source country (catalog env) \<noteq> None")
    case False
    with Inr m show ?thesis
      by (auto simp: run_source_def early_return_def run_metrics_def Let_def split: option.split)
  next
    case True
    then obtain e where e: "find_entry source country (catalog env) = Some e" by auto
    let ?a = "\<lparr>ra_source = source, ra_country = country, ra_language = se_language e, ra_write_raw = wr,
      ra_today = utc_today env\<rparr>"
    let ?x = "w\<lparr>log_level := l, netw := snd (http_client (netw w))\<rparr>"
    let ?L = "run_loop ?a (fst (http_client (netw w))) 1 (py_slice_to n (se_base_urls e))"
    have mp: "run_source env source country n wr mp w = ?L (?x\<lparr>metricsw := m'\<rparr>)"
      using run_source_loop [OF Inr _ _ e, of n wr mp] True m by (cases w) simp
    have np: "run_source env source country n wr None w = ?L ?x"
      using run_source_loop [OF Inr _ _ e, of n wr None] True by (cases w) (simp add: run_metrics_def)
    obtain r w1 where l: "?L ?x = Some (r, w1)" using run_loop_total by (metis option.exhaust surj_pair)
    have "metricsw w1 = metricsw w" using run_loop_metricsw [OF l] by simp
    then show ?thesis
      using m Inr l by (simp add: mp np run_loop_metrics)
  qed
qed

text \<open>A raw write that succeeds stores the UTF-8 bytes of the page gzipped under
  the page's raw key in the configured bucket, with the content type and the metadata
  (fingerprint, status, source, country), and adds their number to the \<open>raw\<close> byte
  counter.\<close>

theorem write_raw_page_stored:
  assumes "storage_deps (store w)" and "encode_strict (response_text r) = Inr bs"
    and "\<not> is_enabled (log_level w) INFO"
  shows "write_raw_page a i r w =
    w\<lparr>store := (store w)\<lparr>s3_objects := (s3_objects (store w))(raw_key (ra_source a) (ra_country a) (ra_today a) i \<mapsto>
         \<lparr>obj_bucket = py ''crawler'', obj_body = GzBytes bs, obj_content_type = py ''text/html; charset=utf-8'',
          obj_metadata = [(py ''content_hash'', content_hash (response_text r)), (py ''status'', str_nat (status_code r)),
                          (py ''source'', ra_source a), (py ''country'', ra_country a)]\<rparr>)\<rparr>,
      bytes_written_total := inc_counter (py ''raw'', ra_source a, ra_country a) (length bs) (bytes_written_total w)\<rparr>"
  using assms by (simp add: write_raw_page_def put_gz_def storage_client_def S3Config_def log_extra_def Let_def)

theorem write_raw_page_stored_witness:
  "bytes_written_total
     (write_raw_page \<lparr>ra_source = py ''example-news'', ra_country = py ''MZ'', ra_language = None,
        ra_write_raw = True, ra_today = py ''2024-01-02''\<rparr> 1 ok_response (demo_start None))
     (py ''raw'', py ''example-news'', py ''MZ'') = 2"
proof -
  have "encode_strict (response_text ok_response) = Inr [111, 107]"
    by (simp add: encode_strict_def ok_response_def is_surrogate_def utf8_char_def)
  from write_raw_page_stored [OF _ this, of "demo_start None"] show ?thesis
    by (simp add: demo_start_def demo_world_def is_enabled_def INFO_def inc_counter_def)
qed

text \<open>C30. A raw write that fails (the storage libraries missing) is swallowed: the page stays counted
  as crawled, no fetch error is counted, and only \<open>raw_write_failed\<close> is logged.\<close>

theorem raw_write_failure_swallowed:
  assumes "fetch u (Some c) (netw w) = Some (Inr r, n)"
    and "to_article (extractor w) u (response_text r) (Some (ra_country a)) (ra_language a) (Some (ra_source a)) = Inr art"
    and "\<not> is_enabled (log_level w) INFO" and "ra_write_raw a" and "\<not> storage_deps (store w)"
  shows "run_once_try a c i u w =
         Some (w\<lparr>netw := n, crawled_pages_total := inc_counter (ra_source a, ra_country a) 1 (crawled_pages_total w),
                 log := log_record (log_level w) ERROR LogRawWriteFailed (log w)\<rparr>)"
  using assms
  by (cases "encode_strict (response_text r)")
     (simp_all add: run_once_try_def write_raw_page_def put_gz_def storage_client_def raw_except_def log_extra_def Let_def)

theorem raw_write_failure_swallowed_witness:
  "run_once_try \<lparr>ra_source = py ''example-news'', ra_country = py ''MZ'', ra_language = None,
        ra_write_raw = True, ra_today = py ''2024-01-02''\<rparr> (fst (http_client (mock_net 0 ConnectError ok_response))) 1
     (py ''https://example.com/x'') ((demo_start None)\<lparr>store := \<lparr>storage_deps = False, s3_objects = Map.empty\<rparr>\<rparr>) =
   Some (((demo_start None)\<lparr>store := \<lparr>storage_deps = False, s3_objects = Map.empty\<rparr>\<rparr>)
     \<lparr>netw := snd (the (fetch (py ''https://example.com/x'') (Some (fst (http_client (mock_net 0 ConnectError ok_response))))
                   (mock_net 0 ConnectError ok_response))),
      crawled_pages_total := inc_counter (py ''example-news'', py ''MZ'') 1 (\<lambda>_. 0),
      log := [LogRawWriteFailed]\<rparr>)"
proof -
  let ?c = "fst (http_client (mock_net 0 ConnectError ok_response))"
  let ?w = "(demo_start None)\<lparr>store := \<lparr>storage_deps = False, s3_objects = Map.empty\<rparr>\<rparr>"
  have f: "fetch (py ''https://example.com/x'') (Some ?c) (netw ?w) =
    Some (Inr ok_response, snd (the (fetch (py ''https://example.com/x'') (Some ?c) (mock_net 0 ConnectError ok_response))))"
    by (simp add: cli_eval)
  have t: "to_article (extractor ?w) (py ''https://example.com/x'') (response_text ok_response) (Some (py ''MZ'')) None
      (Some (py ''example-news'')) =
    Inr (projr (to_article no_extractor (py ''https://example.com/x'') (response_text ok_response) (Some (py ''MZ'')) None
      (Some (py ''example-news''))))"
    by (simp add: cli_eval)
  show ?thesis
    using raw_write_failure_swallowed [OF f, of _ _ 1] t
    by (simp add: demo_facts demo_store is_enabled_def INFO_def log_record_def ERROR_def demo_start_def demo_world_def)
qed

text \<open>C29. The raw key determines the page number: two pages of one run (same source,
  country and date) have the same key only if they have the same number, since the
  zero-padded number reads back as the number.\<close>

theorem raw_key_inj: "raw_key src cty today i = raw_key src cty today j \<longleftrightarrow> i = j"
proof
  assume "raw_key src cty today i = raw_key src cty today j"
  then have "zpad6 i = zpad6 j"
    by (simp add: raw_key_def)
  then show "i = j"
    by (metis dec_value_zpad6)
qed simp

theorem raw_key_inj_witness:
  "raw_key (py ''example-news'') (py ''MZ'') (py ''2024-01-02'') 1 \<noteq>
   raw_key (py ''example-news'') (py ''MZ'') (py ''2024-01-02'') 2"
  using raw_key_inj by simp

end
