(* ===== verification/Render.thy ===== *)
theory Render
  imports Fetch
begin

text \<open>
  The Renderer of \<^verbatim>\<open>core/render.py\<close>. The world \<open>render_net\<close> extends the network
  of the Fetch Engine with what \<open>render_html\<close> reads: whether
  \<open>playwright.async_api\<close> can be imported, and the outcome of rendering a URL in
  Chromium (the page's HTML, or any exception of launch, navigation or
  \<open>page.content()\<close>), an oracle like the network. The rendered URLs are logged.
  The fallback opens its own \<open>httpx.AsyncClient\<close> and calls \<open>client.get\<close> and
  \<open>raise_for_status\<close> once: it is modelled with the request operations of Fetch on
  the same network, an ephemeral client counted in \<open>clients\<close>.
\<close>

datatype render_outcome = Rendered pystr | RenderFailed

datatype render_error = RenderNotAvailable | RenderFetchError fetch_error

record render_net = net +
  playwright_importable :: bool
  render_replies :: "pystr \<Rightarrow> render_outcome"
  rendered :: "pystr list"

text \<open>The \<open>fallback_to_fetch\<close> branch: one request with a fresh client, no retry and
  no politeness delay; an httpx exception or an error status propagates.\<close>

definition fallback_fetch :: "pystr \<Rightarrow> 'a render_net_scheme \<Rightarrow> (render_error + pystr) \<times> 'a render_net_scheme" where
  "fallback_fetch url s =
     (let s1 = s\<lparr>clients := Suc (clients s)\<rparr> in
      case client_get url s1 of
        (Raises e, s2) \<Rightarrow> (Inl (RenderFetchError (Transport e)), s2)
      | (Reply r, s2) \<Rightarrow>
          (case raise_for_status r of
             Inl err \<Rightarrow> (Inl (RenderFetchError err), s2)
           | Inr r' \<Rightarrow> (Inr (response_text r'), s2)))"

definition render_html :: "pystr \<Rightarrow> bool \<Rightarrow> 'a render_net_scheme \<Rightarrow> (render_error + pystr) \<times> 'a render_net_scheme" where
  "render_html url fallback_to_fetch s =
     (if \<not> playwright_importable s then
        (if fallback_to_fetch then fallback_fetch url s else (Inl RenderNotAvailable, s))
      else
        (let s1 = s\<lparr>rendered := rendered s @ [url]\<rparr> in
         case render_replies s url of
           Rendered html \<Rightarrow> (Inr html, s1)
         | RenderFailed \<Rightarrow>
             (if fallback_to_fetch then fallback_fetch url s1 else (Inl RenderNotAvailable, s1))))"

lemma fallback_fetch_error:
  "fst (fallback_fetch url s) \<noteq> Inl RenderNotAvailable"
  by (simp add: fallback_fetch_def client_get_def raise_for_status_def Let_def split: get_outcome.split)

lemma fallback_fetch_requested:
  "requested (snd (fallback_fetch url s)) = requested s @ [url]"
  by (simp add: fallback_fetch_def client_get_def raise_for_status_def Let_def split: get_outcome.split)

lemma render_html_requested:
  "length (requested (snd (render_html url fb s))) \<le> Suc (length (requested s))"
  by (simp add: render_html_def Let_def fallback_fetch_requested split: render_outcome.split)

lemma render_html_clients:
  "clients (snd (render_html url fb s)) \<le> Suc (clients s)"
  by (simp add: render_html_def fallback_fetch_def client_get_def raise_for_status_def Let_def
      split: render_outcome.split get_outcome.split sum.split prod.split)

text \<open>With the fallback on (the default), \<open>render_html\<close> never raises
  \<open>RenderNotAvailable\<close>: a missing Playwright or a failed rendering turns into one plain
  request, whose own errors propagate instead.\<close>

lemma render_html_no_rna: "fst (render_html url True s) \<noteq> Inl RenderNotAvailable"
  by (simp add: render_html_def Let_def fallback_fetch_error split: render_outcome.split)

text \<open>C28. Without Playwright the fallback sends exactly one request for the URL, with no
  retry: a retriable transport error of that request is raised at once.\<close>

theorem render_html_fallback_one_request:
  assumes "\<not> playwright_importable s"
  shows "requested (snd (render_html url True s)) = requested s @ [url] \<and>
         (replies s (length (requested s)) = Raises e \<longrightarrow>
            fst (render_html url True s) = Inl (RenderFetchError (Transport e)))"
  using assms by (simp add: render_html_def fallback_fetch_requested)
    (simp add: fallback_fetch_def client_get_def Let_def)

theorem render_html_fallback_one_request_witness:
  "requested (snd (render_html (py ''https://example.com/x'') True
     \<lparr>replies = \<lambda>_. Raises ConnectError, requested = [], rng = \<lambda>_. 0, draws = 0, slept = [], clients = 0,
      playwright_importable = False, render_replies = \<lambda>_. RenderFailed, rendered = []\<rparr>)) = [py ''https://example.com/x''] \<and>
   fst (render_html (py ''https://example.com/x'') True
     \<lparr>replies = \<lambda>_. Raises ConnectError, requested = [], rng = \<lambda>_. 0, draws = 0, slept = [], clients = 0,
      playwright_importable = False, render_replies = \<lambda>_. RenderFailed, rendered = []\<rparr>) =
   Inl (RenderFetchError (Transport ConnectError))"
  using render_html_fallback_one_request [of "\<lparr>replies = \<lambda>_. Raises ConnectError, requested = [], rng = \<lambda>_. 0,
      draws = 0, slept = [], clients = 0, playwright_importable = False, render_replies = \<lambda>_. RenderFailed,
      rendered = []\<rparr>" "py ''https://example.com/x''" ConnectError]
  by simp

end
