(* ===== verification/Tasks.thy ===== *)
theory Tasks
  imports Render Article
begin

text \<open>
  The Celery task \<open>crawl_url\<close> of \<^verbatim>\<open>workers/tasks.py\<close>, for the case where Celery
  is importable (otherwise the module defines no task). \<open>crawl_url_run\<close> is the
  coroutine \<open>_run\<close>: one client, then either \<open>render_html\<close> (with its default
  \<open>fallback_to_fetch=True\<close>) or \<open>fetch\<close>, then \<open>to_article\<close> with the job's fields; every
  exception is a value of \<open>task_error\<close>. The decorator
  \<open>autoretry_for=(Exception,), max_retries=5\<close> runs the body again after any
  exception, at most five times, and then re-raises the last exception:
  \<open>celery_retry\<close>. The countdowns of \<open>retry_backoff\<close> only delay the next run and are
  not modelled; the job dict is the record \<open>job\<close> of the keys the task reads.
\<close>

datatype task_error = TaskFetch fetch_error | TaskRender render_error | TaskValidation validation_error

record job =
  job_render :: bool
  job_country :: "pystr option"
  job_language :: "pystr option"
  job_source :: "pystr option"

text \<open>The module level of \<^verbatim>\<open>workers/tasks.py\<close>: the broker URL read from the
  environment at import, and the Celery app, which exists only when \<open>celery\<close> can be
  imported; the task \<open>crawl_url\<close> is defined under \<open>if app:\<close>, so only then.\<close>

definition BROKER_URL :: "(pystr \<Rightarrow> pystr option) \<Rightarrow> pystr" where
  "BROKER_URL getenv =
     (case getenv (py ''CELERY_BROKER_URL'') of None \<Rightarrow> py ''redis://localhost:6379/0'' | Some u \<Rightarrow> u)"

record celery_app =
  app_main :: pystr
  app_broker :: pystr

definition tasks_app :: "bool \<Rightarrow> (pystr \<Rightarrow> pystr option) \<Rightarrow> celery_app option" where
  "tasks_app celery_importable getenv =
     (if celery_importable then Some \<lparr>app_main = py ''crawler'', app_broker = BROKER_URL getenv\<rparr> else None)"

definition assemble ::
  "(pystr \<Rightarrow> (pystr option \<times> pystr option) option) \<Rightarrow> job \<Rightarrow> pystr \<Rightarrow> pystr \<Rightarrow> task_error + article" where
  "assemble ext jb url html =
     (case to_article ext url html (job_country jb) (job_language jb) (job_source jb) of
        Inl e \<Rightarrow> Inl (TaskValidation e)
      | Inr art \<Rightarrow> Inr art)"

definition crawl_url_run ::
  "(pystr \<Rightarrow> (pystr option \<times> pystr option) option) \<Rightarrow> job \<Rightarrow> pystr \<Rightarrow> 'a render_net_scheme \<Rightarrow>
   ((task_error + article) \<times> 'a render_net_scheme) option" where
  "crawl_url_run ext jb url s =
     (case http_client s of
        (c, s1) \<Rightarrow>
          (if job_render jb then
             (case render_html url True s1 of
                (Inl RenderNotAvailable, s2) \<Rightarrow>
                  (case fetch url (Some c) s2 of
                     None \<Rightarrow> None
                   | Some (Inl e, s3) \<Rightarrow> Some (Inl (TaskFetch e), s3)
                   | Some (Inr r, s3) \<Rightarrow> Some (assemble ext jb url (response_text r), s3))
              | (Inl e, s2) \<Rightarrow> Some (Inl (TaskRender e), s2)
              | (Inr html, s2) \<Rightarrow> Some (assemble ext jb url html, s2))
           else
             (case fetch url (Some c) s1 of
                None \<Rightarrow> None
              | Some (Inl e, s2) \<Rightarrow> Some (Inl (TaskFetch e), s2)
              | Some (Inr r, s2) \<Rightarrow> Some (assemble ext jb url (response_text r), s2))))"

text \<open>\<open>autoretry_for\<close> with \<open>n\<close> retries left.\<close>

fun celery_retry :: "nat \<Rightarrow> ('s \<Rightarrow> (('e + 'a) \<times> 's) option) \<Rightarrow> 's \<Rightarrow> (('e + 'a) \<times> 's) option" where
  "celery_retry 0 run s = run s"
| "celery_retry (Suc n) run s =
     (case run s of
        None \<Rightarrow> None
      | Some (Inl e, s') \<Rightarrow> celery_retry n run s'
      | Some (Inr a, s') \<Rightarrow> Some (Inr a, s'))"

definition CELERY_MAX_RETRIES :: nat where
  "CELERY_MAX_RETRIES = 5"

definition crawl_url ::
  "(pystr \<Rightarrow> (pystr option \<times> pystr option) option) \<Rightarrow> job \<Rightarrow> pystr \<Rightarrow> 'a render_net_scheme \<Rightarrow>
   ((task_error + article) \<times> 'a render_net_scheme) option" where
  "crawl_url ext jb url s = celery_retry CELERY_MAX_RETRIES (crawl_url_run ext jb url) s"

text \<open>The task body without the \<open>except RenderNotAvailable\<close> branch.\<close>

definition crawl_url_run_direct ::
  "(pystr \<Rightarrow> (pystr option \<times> pystr option) option) \<Rightarrow> job \<Rightarrow> pystr \<Rightarrow> 'a render_net_scheme \<Rightarrow>
   ((task_error + article) \<times> 'a render_net_scheme) option" where
  "crawl_url_run_direct ext jb url s =
     (case http_client s of
        (c, s1) \<Rightarrow>
          (if job_render jb then
             (case render_html url True s1 of
                (Inl e, s2) \<Rightarrow> Some (Inl (TaskRender e), s2)
              | (Inr html, s2) \<Rightarrow> Some (assemble ext jb url html, s2))
           else
             (case fetch url (Some c) s1 of
                None \<Rightarrow> None
              | Some (Inl e, s2) \<Rightarrow> Some (Inl (TaskFetch e), s2)
              | Some (Inr r, s2) \<Rightarrow> Some (assemble ext jb url (response_text r), s2))))"

subsection \<open>The retry decorator\<close>

lemma celery_retry_bound:
  assumes "\<And>s. \<exists>y. run s = Some y \<and> f (snd y) \<le> f s + m"
  shows "\<exists>y. celery_retry n run s = Some y \<and> f (snd y) \<le> f s + Suc n * m"
proof (induction n arbitrary: s)
  case 0
  then show ?case using assms by simp
next
  case (Suc n)
  obtain r s' where r: "run s = Some (r, s')" "f s' \<le> f s + m"
    using assms by (metis prod.collapse)
  show ?case
  proof (cases r)
    case (Inl e)
    from Suc.IH [of s'] obtain y where "celery_retry n run s' = Some y" "f (snd y) \<le> f s' + Suc n * m"
      by blast
    with r Inl show ?thesis by auto
  next
    case (Inr a)
    with r show ?thesis by auto
  qed
qed

lemma celery_retry_all_fail:
  assumes "\<And>s. \<exists>e s'. run s = Some (Inl e, s') \<and> f s' = Suc (f s) \<and> g s < g s'"
  shows "\<exists>e s'. celery_retry n run s = Some (Inl e, s') \<and> f s' = f s + Suc n \<and> g s + Suc n \<le> g s'"
proof (induction n arbitrary: s)
  case 0
  then show ?case using assms by fastforce
next
  case (Suc n)
  obtain e s' where r: "run s = Some (Inl e, s')" "f s' = Suc (f s)" "g s < g s'"
    using assms by blast
  with Suc.IH [of s'] show ?case by fastforce
qed

subsection \<open>One run of the task body\<close>

lemma fetch_client_effect:
  "\<exists>res s'. fetch url (Some c) s = Some (res, s') \<and> clients s' = clients s \<and>
     length (requested s') \<le> length (requested s) + MAX_TRIES \<and> length (requested s) < length (requested s')"
proof -
  obtain res s' where g: "get url s = Some (res, s')"
    by (metis get_eq_loop_spec prod.collapse)
  from get_effect [OF g] show ?thesis
    by (auto simp: fetch_def g)
qed

lemma crawl_url_run_requests:
  "\<exists>y. crawl_url_run ext jb url s = Some y \<and>
     length (requested (snd y)) \<le> length (requested s) + MAX_TRIES"
proof (cases "job_render jb")
  case True
  obtain r s2 where h: "render_html url True (snd (http_client s)) = (r, s2)"
    by fastforce
  have "r \<noteq> Inl RenderNotAvailable"
    using render_html_no_rna [of url "snd (http_client s)"] h by simp
  moreover have "length (requested s2) \<le> Suc (length (requested s))"
    using render_html_requested [of url True "snd (http_client s)"] h by (simp add: http_client_def)
  moreover have "1 \<le> MAX_TRIES" by (simp add: MAX_TRIES_def)
  ultimately show ?thesis
    using True h by (cases r rule: sum.exhaust; auto simp: crawl_url_run_def split: prod.split render_error.split)
next
  case False
  obtain res s' where "fetch url (Some (fst (http_client s))) (snd (http_client s)) = Some (res, s')"
    "length (requested s') \<le> length (requested (snd (http_client s))) + MAX_TRIES"
    using fetch_client_effect by blast
  with False show ?thesis
    by (cases res) (auto simp: crawl_url_run_def http_client_def split: prod.split)
qed

lemma crawl_url_run_invalid:
  assumes "job_country jb = None" and "\<not> job_render jb"
  shows "\<exists>e s'. crawl_url_run ext jb url s = Some (Inl e, s') \<and> clients s' = Suc (clients s) \<and>
           length (requested s) < length (requested s')"
proof -
  obtain res s' where f: "fetch url (Some (fst (http_client s))) (snd (http_client s)) = Some (res, s')"
    "clients s' = clients (snd (http_client s))" "length (requested (snd (http_client s))) < length (requested s')"
    using fetch_client_effect by blast
  have "assemble ext jb url html = Inl (TaskValidation ValidationError)" for html
    using assms(1) by (simp add: assemble_def to_article_def Let_def)
  with f assms(2) show ?thesis
    by (cases res) (auto simp: crawl_url_run_def http_client_def split: prod.split)
qed

subsection \<open>Properties of \<open>crawl_url\<close>\<close>

text \<open>C14. The \<open>except RenderNotAvailable\<close> branch of the task is dead: since
  \<open>render_html\<close> is called with its default \<open>fallback_to_fetch=True\<close>, the task body
  behaves exactly as the body without that branch.\<close>

theorem crawl_url_run_direct_eq: "crawl_url_run ext jb url s = crawl_url_run_direct ext jb url s"
proof -
  have "fst (render_html url True (snd (http_client s))) \<noteq> Inl RenderNotAvailable"
    by (rule render_html_no_rna)
  then show ?thesis
    by (auto simp: crawl_url_run_def crawl_url_run_direct_def split: prod.split sum.split render_error.split)
qed

text \<open>C13. \<open>crawl_url\<close> always returns, after at most six runs of its body, and sends at
  most 30 requests: five tries of the Fetch Engine in each of the six runs.\<close>

theorem crawl_url_bounded:
  "\<exists>y. crawl_url ext jb url s = Some y \<and> length (requested (snd y)) \<le> length (requested s) + 30"
  using celery_retry_bound [of "crawl_url_run ext jb url" "\<lambda>s. length (requested s)" MAX_TRIES
      CELERY_MAX_RETRIES s, OF crawl_url_run_requests]
  by (simp add: crawl_url_def CELERY_MAX_RETRIES_def MAX_TRIES_def)

text \<open>C18. A job without a country can never succeed (the \<open>Article\<close> needs one), yet the
  task retries it: it runs its body six times, opening a client and fetching the URL
  again each time, and then fails.\<close>

theorem crawl_url_invalid_job_retried:
  assumes "job_country jb = None" and "\<not> job_render jb"
  shows "\<exists>e s'. crawl_url ext jb url s = Some (Inl e, s') \<and> clients s' = clients s + 6 \<and>
           length (requested s) + 6 \<le> length (requested s')"
  using celery_retry_all_fail [of "crawl_url_run ext jb url" clients "\<lambda>s. length (requested s)"
      CELERY_MAX_RETRIES s, OF crawl_url_run_invalid [OF assms]]
  by (simp add: crawl_url_def CELERY_MAX_RETRIES_def)

theorem crawl_url_invalid_job_retried_witness:
  "\<exists>e s'. crawl_url no_extractor \<lparr>job_render = False, job_country = None, job_language = None,
       job_source = Some (py ''example-news'')\<rparr> (py ''https://example.com/x'')
       \<lparr>replies = \<lambda>_. Reply ok_response, requested = [], rng = \<lambda>_. 0, draws = 0, slept = [], clients = 0,
        playwright_importable = False, render_replies = \<lambda>_. RenderFailed, rendered = []\<rparr> = Some (Inl e, s') \<and>
     clients s' = 6 \<and> 6 \<le> length (requested s')"
  using crawl_url_invalid_job_retried [of "\<lparr>job_render = False, job_country = None, job_language = None,
       job_source = Some (py ''example-news'')\<rparr>" no_extractor "py ''https://example.com/x''"
       "\<lparr>replies = \<lambda>_. Reply ok_response, requested = [], rng = \<lambda>_. 0, draws = 0, slept = [], clients = 0,
        playwright_importable = False, render_replies = \<lambda>_. RenderFailed, rendered = []\<rparr>"]
  by simp

end
