(* ===== verification/Scheduler.thy ===== *)
theory Scheduler
  imports Logging PyStr
begin

text \<open>
  \<open>start_scheduler\<close> of \<^verbatim>\<open>ops/scheduler.py\<close>: one cron job per catalog entry. The
  world \<open>sched_world\<close> holds whether APScheduler and PyYAML can be imported, the
  \<open>sources\<close> list of the catalog (the keys \<open>start_scheduler\<close> reads, as strings; a
  missing key is \<open>None\<close>), and the effective level of the \<open>crawler.scheduler\<close> logger
  (the root level: \<open>start_scheduler\<close> does not configure logging). The scheduler is
  the job store from job ids to jobs (\<open>add_job(..., replace_existing=True)\<close> replaces a
  job with the same id) and the \<open>started\<close> flag. The three log calls with
  \<open>extra={"message": ...}\<close> raise \<open>KeyError\<close> when their level is enabled (Logging).
  What a job does when it fires is \<open>fire_job\<close> of SchedJob.
\<close>

record sched_entry =
  sch_name :: "pystr option"
  sch_country :: "pystr option"
  sch_schedule :: "pystr option"
  sch_max_pages :: "int option"

record sched_job =
  sjob_source :: pystr
  sjob_country :: pystr
  sjob_max_pages :: int
  cron_minute :: pystr
  cron_hour :: pystr
  cron_day :: pystr
  cron_month :: pystr
  cron_day_of_week :: pystr

record sched_state =
  sched_jobs :: "pystr \<Rightarrow> sched_job option"
  started :: bool

record sched_world =
  apscheduler_available :: bool
  sched_yaml_available :: bool
  sched_sources :: "sched_entry list"
  sched_level :: nat

datatype sched_exc = SchedLogError log_error | SchedRuntimeError

text \<open>Truthiness of an optional string read from the catalog.\<close>

definition truthy :: "pystr option \<Rightarrow> bool" where
  "truthy v = (case v of None \<Rightarrow> False | Some s \<Rightarrow> s \<noteq> [])"

definition job_id :: "pystr \<Rightarrow> pystr \<Rightarrow> pystr" where
  "job_id source country = source @ py '':'' @ country"

text \<open>The loop body for one entry: skip an entry without name, country or schedule,
  split the schedule into five fields (a \<open>ValueError\<close> is caught and warned about),
  add the job and log it.\<close>

fun add_jobs :: "nat \<Rightarrow> sched_entry list \<Rightarrow> sched_state \<Rightarrow> sched_exc + sched_state" where
  "add_jobs lvl [] st = Inr st"
| "add_jobs lvl (e # es) st =
     (if \<not> (truthy (sch_name e) \<and> truthy (sch_country e) \<and> truthy (sch_schedule e)) then add_jobs lvl es st
      else
        (let source = the (sch_name e); country = the (sch_country e);
             mx = (case sch_max_pages e of None \<Rightarrow> 50 | Some n \<Rightarrow> n) in
         case py_split_ws (the (sch_schedule e)) of
           [mi, h, d, mo, dw] \<Rightarrow>
             (let st' = st\<lparr>sched_jobs := (sched_jobs st)(job_id source country \<mapsto>
                    \<lparr>sjob_source = source, sjob_country = country, sjob_max_pages = mx, cron_minute = mi,
                     cron_hour = h, cron_day = d, cron_month = mo, cron_day_of_week = dw\<rparr>)\<rparr> in
              case log_extra lvl INFO of Some x \<Rightarrow> Inl (SchedLogError x) | None \<Rightarrow> add_jobs lvl es st')
         | _ \<Rightarrow> (case log_extra lvl WARNING of Some x \<Rightarrow> Inl (SchedLogError x) | None \<Rightarrow> add_jobs lvl es st)))"

text \<open>The result is the exception raised, or what is returned: \<open>None\<close> or the
  scheduler.\<close>

definition start_scheduler :: "sched_world \<Rightarrow> sched_exc + sched_state option" where
  "start_scheduler w =
     (if \<not> apscheduler_available w then
        (case log_extra (sched_level w) ERROR of Some x \<Rightarrow> Inl (SchedLogError x) | None \<Rightarrow> Inr None)
      else if \<not> sched_yaml_available w then Inl SchedRuntimeError
      else
        (case add_jobs (sched_level w) (sched_sources w) \<lparr>sched_jobs = Map.empty, started = False\<rparr> of
           Inl x \<Rightarrow> Inl x
         | Inr st \<Rightarrow>
             (let st' = st\<lparr>started := True\<rparr> in
              case log_extra (sched_level w) INFO of Some x \<Rightarrow> Inl (SchedLogError x) | None \<Rightarrow> Inr (Some st'))))"

text \<open>What the loop of \<open>start_scheduler\<close> is meant to compute: the entries with a
  name, a country and a five-field schedule, and the job each of them describes.\<close>

definition valid_entry :: "sched_entry \<Rightarrow> bool" where
  "valid_entry e \<longleftrightarrow> truthy (sch_name e) \<and> truthy (sch_country e) \<and> truthy (sch_schedule e) \<and>
     length (py_split_ws (the (sch_schedule e))) = 5"

definition entry_job :: "sched_entry \<Rightarrow> pystr \<times> sched_job" where
  "entry_job e =
     (let f = py_split_ws (the (sch_schedule e)) in
      (job_id (the (sch_name e)) (the (sch_country e)),
       \<lparr>sjob_source = the (sch_name e), sjob_country = the (sch_country e),
        sjob_max_pages = (case sch_max_pages e of None \<Rightarrow> 50 | Some n \<Rightarrow> n),
        cron_minute = f ! 0, cron_hour = f ! 1, cron_day = f ! 2, cron_month = f ! 3, cron_day_of_week = f ! 4\<rparr>))"

text \<open>The catalog of \<^verbatim>\<open>test_scheduler.py\<close>: one valid entry and one with an invalid
  schedule, with the logger at level \<open>lvl\<close>.\<close>

definition test_sched_world :: "nat \<Rightarrow> sched_world" where
  "test_sched_world lvl =
     \<lparr>apscheduler_available = True, sched_yaml_available = True,
      sched_sources = [\<lparr>sch_name = Some (py ''src1''), sch_country = Some (py ''MZ''),
                          sch_schedule = Some (py ''0 * * * *''), sch_max_pages = Some 5\<rparr>,
                        \<lparr>sch_name = Some (py ''bad''), sch_country = Some (py ''MZ''),
                          sch_schedule = Some (py ''invalid''), sch_max_pages = None\<rparr>],
      sched_level = lvl\<rparr>"

lemma length_5_cases: "length xs = 5 \<longleftrightarrow> (\<exists>a b c d e. xs = [a, b, c, d, e])"
  by (auto simp: numeral_eq_Suc length_Suc_conv)

lemma add_jobs_Inr:
  "add_jobs lvl es st = Inr st' \<Longrightarrow>
   sched_jobs st' = sched_jobs st ++ map_of (rev (map entry_job (filter valid_entry es))) \<and> started st' = started st"
proof (induction es arbitrary: st)
  case Nil
  then show ?case by simp
next
  case (Cons e es)
  show ?case
  proof (cases "truthy (sch_name e) \<and> truthy (sch_country e) \<and> truthy (sch_schedule e)")
    case False
    then have "\<not> valid_entry e" by (auto simp: valid_entry_def)
    moreover have "add_jobs lvl es st = Inr st'" using Cons.prems False by simp
    ultimately show ?thesis using Cons.IH by simp
  next
    case t: True
    show ?thesis
    proof (cases "length (py_split_ws (the (sch_schedule e))) = 5")
      case True
      then obtain a b c d f where sp: "py_split_ws (the (sch_schedule e)) = [a, b, c, d, f]"
        by (auto simp: length_5_cases)
      have v: "valid_entry e" using t True by (simp add: valid_entry_def)
      let ?st1 = "st\<lparr>sched_jobs := (sched_jobs st)(fst (entry_job e) \<mapsto> snd (entry_job e))\<rparr>"
      have "log_extra lvl INFO = None \<and> add_jobs lvl es ?st1 = Inr st'"
        using Cons.prems t sp
        by (cases "log_extra lvl INFO") (simp_all add: Let_def entry_job_def)
      with Cons.IH [of ?st1] v show ?thesis
        by (simp add: map_of_append) (simp add: fun_upd_def)
    next
      case False
      then have "\<not> (\<exists>a b c d f. py_split_ws (the (sch_schedule e)) = [a, b, c, d, f])"
        by (auto simp: length_5_cases)
      then have "add_jobs lvl (e # es) st =
          (case log_extra lvl WARNING of Some x \<Rightarrow> Inl (SchedLogError x) | None \<Rightarrow> add_jobs lvl es st)"
        using t by (simp add: Let_def split: list.split)
      with Cons.prems have "add_jobs lvl es st = Inr st'"
        by (cases "log_extra lvl WARNING") simp_all
      moreover have "\<not> valid_entry e" using False by (simp add: valid_entry_def)
      ultimately show ?thesis using Cons.IH by simp
    qed
  qed
qed

lemma add_jobs_invalid:
  assumes "is_enabled lvl WARNING"
    and "\<exists>e\<in>set es. truthy (sch_name e) \<and> truthy (sch_country e) \<and> truthy (sch_schedule e) \<and>
           length (py_split_ws (the (sch_schedule e))) \<noteq> 5"
  shows "add_jobs lvl es st = Inl (SchedLogError KeyError)"
  using assms(2)
proof (induction es arbitrary: st)
  case Nil
  then show ?case by simp
next
  case (Cons e es)
  show ?case
  proof (cases "truthy (sch_name e) \<and> truthy (sch_country e) \<and> truthy (sch_schedule e)")
    case False
    with Cons show ?thesis by auto
  next
    case t: True
    show ?thesis
    proof (cases "length (py_split_ws (the (sch_schedule e))) = 5")
      case True
      then obtain a b c d f where sp: "py_split_ws (the (sch_schedule e)) = [a, b, c, d, f]"
        by (auto simp: length_5_cases)
      from Cons.prems True have "\<exists>e\<in>set es. truthy (sch_name e) \<and> truthy (sch_country e) \<and>
          truthy (sch_schedule e) \<and> length (py_split_ws (the (sch_schedule e))) \<noteq> 5"
        by auto
      note ih = Cons.IH [OF this]
      show ?thesis
        using t sp ih by (cases "log_extra lvl INFO") (auto simp: Let_def log_extra_def split: if_splits)
    next
      case False
      then have "\<not> (\<exists>a b c d f. py_split_ws (the (sch_schedule e)) = [a, b, c, d, f])"
        by (auto simp: length_5_cases)
      with t assms(1) show ?thesis
        by (simp add: Let_def log_extra_def split: list.split)
    qed
  qed
qed

lemmas sched_eval = start_scheduler_def test_sched_world_def truthy_def py_split_ws_def job_id_def
  log_extra_def is_enabled_def INFO_def WARNING_def ERROR_def Let_def py_isspace_def

subsection \<open>Properties of \<open>start_scheduler\<close>\<close>

text \<open>C15. A scheduler that \<open>start_scheduler\<close> returns is started and holds exactly one
  job per id \<open>source:country\<close> of the entries with a name, a country and a five-field
  cron schedule: the job of the last such entry with that id, with its cron fields and
  \<open>max_pages\<close> (default 50).\<close>

theorem start_scheduler_jobs:
  assumes "start_scheduler w = Inr (Some st)"
  shows "sched_jobs st = map_of (rev (map entry_job (filter valid_entry (sched_sources w)))) \<and> started st"
proof -
  obtain st0 where a: "apscheduler_available w" "sched_yaml_available w"
    "add_jobs (sched_level w) (sched_sources w) \<lparr>sched_jobs = Map.empty, started = False\<rparr> = Inr st0"
    "st = st0\<lparr>started := True\<rparr>"
    using assms
    by (auto simp: start_scheduler_def Let_def split: if_splits sum.splits option.splits)
  from add_jobs_Inr [OF a(3)] a(4) show ?thesis
    by simp
qed

theorem start_scheduler_jobs_witness:
  "\<exists>st. start_scheduler (test_sched_world 50) = Inr (Some st) \<and>
     dom (sched_jobs st) = {py ''src1:MZ''} \<and> started st"
proof -
  obtain st where st: "start_scheduler (test_sched_world 50) = Inr (Some st)"
    by (simp add: sched_eval)
  have "dom (map_of (rev (map entry_job (filter valid_entry (sched_sources (test_sched_world 50)))))) =
        {py ''src1:MZ''}"
    by (simp add: sched_eval valid_entry_def entry_job_def)
  with start_scheduler_jobs [OF st] st show ?thesis
    by auto
qed

text \<open>C19. With warnings enabled (the root level is \<open>WARNING\<close> unless configured), one
  catalog entry with an invalid schedule makes \<open>start_scheduler\<close> raise
  \<open>KeyError\<close> instead of skipping that entry, and no scheduler is started: the
  warning passes \<open>extra={"message": ...}\<close>. The test of the scheduler only passes
  because it patches \<open>Logger.makeRecord\<close>.\<close>

theorem start_scheduler_invalid_cron_raises:
  assumes "is_enabled (sched_level w) WARNING" and "apscheduler_available w" and "sched_yaml_available w"
    and "\<exists>e\<in>set (sched_sources w). truthy (sch_name e) \<and> truthy (sch_country e) \<and> truthy (sch_schedule e) \<and>
           length (py_split_ws (the (sch_schedule e))) \<noteq> 5"
  shows "start_scheduler w = Inl (SchedLogError KeyError)"
  using add_jobs_invalid [OF assms(1,4)] assms(2,3) by (simp add: start_scheduler_def)

theorem start_scheduler_invalid_cron_raises_witness:
  "start_scheduler (test_sched_world 30) = Inl (SchedLogError KeyError)"
proof (rule start_scheduler_invalid_cron_raises)
  show "\<exists>e\<in>set (sched_sources (test_sched_world 30)). truthy (sch_name e) \<and> truthy (sch_country e) \<and>
      truthy (sch_schedule e) \<and> length (py_split_ws (the (sch_schedule e))) \<noteq> 5"
    by (simp add: sched_eval)
qed (simp_all add: sched_eval)

text \<open>Without APScheduler, \<open>start_scheduler\<close> does not log a message and return
  \<open>None\<close>, as its docstring says, unless errors are filtered out: its \<open>log.error\<close>
  passes \<open>extra\<close> and raises \<open>KeyError\<close>.\<close>

theorem start_scheduler_missing_raises:
  assumes "\<not> apscheduler_available w"
  shows "start_scheduler w = (if is_enabled (sched_level w) ERROR then Inl (SchedLogError KeyError) else Inr None)"
  using assms by (simp add: start_scheduler_def log_extra_def)

theorem start_scheduler_missing_raises_witness:
  "start_scheduler ((test_sched_world 30)\<lparr>apscheduler_available := False\<rparr>) = Inl (SchedLogError KeyError)"
  using start_scheduler_missing_raises [of "(test_sched_world 30)\<lparr>apscheduler_available := False\<rparr>"]
  by (simp add: sched_eval)

end
