(* ===== verification/JsonLog.thy ===== *)
theory JsonLog
  imports Logging Dedup
begin

text \<open>
  The \<open>JsonFormatter\<close> of \<^verbatim>\<open>ops/logging.py\<close> and the stream the handler of
  \<open>configure_logging\<close> writes. A record is the part of a \<open>logging.LogRecord\<close> the
  formatter reads: its level number, the logger name, \<open>getMessage()\<close>, the attributes
  set on it (by \<open>extra\<close> or \<open>setattr\<close>; only \<open>job_id\<close>, \<open>source\<close> and \<open>country\<close>
  are read, as strings) and the text \<open>formatException\<close> gives for its
  \<open>exc_info\<close>. \<open>json.dumps(log, ensure_ascii=False)\<close> is CPython 3.11's encoder on a
  dict of strings: \<open>py_encode_basestring\<close> (the two-character escapes and
  \<open>\u00XX\<close> below U+0020, every other code point kept), the separators \<open>", "\<close> and
  \<open>": "\<close>, insertion order. The decoder \<open>json_loads_obj\<close> is \<open>json.loads\<close> (the
  scanner of \<^verbatim>\<open>json/decoder.py\<close>) on an object whose values are strings, the only
  values this formatter writes; anything else is \<open>None\<close>, the \<open>JSONDecodeError\<close>.
\<close>

subsection \<open>The encoder\<close>

text \<open>\<open>ESCAPE_DCT\<close> of \<^verbatim>\<open>json/encoder.py\<close>: the escape of one code point.\<close>

definition json_escape_char :: "nat \<Rightarrow> pystr" where
  "json_escape_char c =
     (if c = 92 then [92, 92] else if c = 34 then [92, 34]
      else if c = 8 then [92, 98] else if c = 12 then [92, 102] else if c = 10 then [92, 110]
      else if c = 13 then [92, 114] else if c = 9 then [92, 116]
      else if c < 32 then [92, 117, 48, 48, hex_lower (c div 16), hex_lower (c mod 16)]
      else [c])"

text \<open>\<open>py_encode_basestring\<close>: the string between double quotes.\<close>

definition json_str :: "pystr \<Rightarrow> pystr" where
  "json_str s = [34] @ concat (map json_escape_char s) @ [34]"

text \<open>\<open>json.dumps\<close> of a dict from strings to strings, in insertion order.\<close>

definition member_str :: "pystr \<times> pystr \<Rightarrow> pystr" where
  "member_str = (\<lambda>(k, v). json_str k @ py '': '' @ json_str v)"

definition json_dumps_obj :: "(pystr \<times> pystr) list \<Rightarrow> pystr" where
  "json_dumps_obj kvs = [123] @ py_join (py '', '') (map member_str kvs) @ [125]"

subsection \<open>The decoder\<close>

definition json_ws :: "nat \<Rightarrow> bool" where
  "json_ws c \<longleftrightarrow> c = 32 \<or> c = 9 \<or> c = 10 \<or> c = 13"

definition json_skip_ws :: "pystr \<Rightarrow> pystr" where
  "json_skip_ws s = dropWhile json_ws s"

text \<open>\<open>BACKSLASH\<close> of \<^verbatim>\<open>json/decoder.py\<close>: the one-character escapes.\<close>

definition json_backslash :: "(nat \<times> nat) list" where
  "json_backslash = [(34, 34), (92, 92), (47, 47), (98, 8), (102, 12), (110, 10), (114, 13), (116, 9)]"

definition hex4 :: "pystr \<Rightarrow> nat" where
  "hex4 ds = foldl (\<lambda>a d. 16 * a + hex_value d) 0 ds"

definition is_hex4 :: "pystr \<Rightarrow> bool" where
  "is_hex4 ds \<longleftrightarrow> length ds = 4 \<and> list_all hex_digit ds"

text \<open>\<open>py_scanstring\<close> after the opening quote: the decoded string and what follows
  the closing quote. A control character is refused (\<open>strict=True\<close>); a high
  surrogate escape followed by a low surrogate escape is one code point.\<close>

fun json_scanstring :: "pystr \<Rightarrow> (pystr \<times> pystr) option" where
  "json_scanstring [] = None"
| "json_scanstring (c # cs) =
     (if c = 34 then Some ([], cs)
      else if c < 32 then None
      else if c \<noteq> 92 then map_option (apfst (Cons c)) (json_scanstring cs)
      else (case cs of
              [] \<Rightarrow> None
            | e # cs' \<Rightarrow>
                (if e = 117 then
                   (if \<not> is_hex4 (take 4 cs') then None
                    else (let u = hex4 (take 4 cs'); r = drop 4 cs' in
                          if 55296 \<le> u \<and> u \<le> 56319 \<and> take 2 r = [92, 117] \<and> is_hex4 (take 4 (drop 2 r)) \<and>
                             56320 \<le> hex4 (take 4 (drop 2 r)) \<and> hex4 (take 4 (drop 2 r)) \<le> 57343
                          then map_option (apfst (Cons (65536 + (u - 55296) * 1024 + (hex4 (take 4 (drop 2 r)) - 56320))))
                                 (json_scanstring (drop 6 r))
                          else map_option (apfst (Cons u)) (json_scanstring r)))
                 else (case map_of json_backslash e of
                         None \<Rightarrow> None
                       | Some d \<Rightarrow> map_option (apfst (Cons d)) (json_scanstring cs')))))"

text \<open>A string value: whitespace, then a quoted string.\<close>

definition json_string :: "pystr \<Rightarrow> (pystr \<times> pystr) option" where
  "json_string s = (case json_skip_ws s of c # cs \<Rightarrow> if c = 34 then json_scanstring cs else None | [] \<Rightarrow> None)"

text \<open>One member of \<open>JSONObject\<close>: key, colon, value, and the whitespace after it.\<close>

definition json_pair :: "pystr \<Rightarrow> ((pystr \<times> pystr) \<times> pystr) option" where
  "json_pair s =
     (case json_string s of
        None \<Rightarrow> None
      | Some (k, r) \<Rightarrow>
          (case json_skip_ws r of
             c # r' \<Rightarrow>
               (if c \<noteq> 58 then None
                else (case json_string r' of None \<Rightarrow> None | Some (v, r'') \<Rightarrow> Some ((k, v), json_skip_ws r'')))
           | [] \<Rightarrow> None))"

text \<open>The members of an object up to its closing brace.\<close>

function json_members :: "pystr \<Rightarrow> ((pystr \<times> pystr) list \<times> pystr) option" where
  "json_members s =
     (case json_pair s of
        None \<Rightarrow> None
      | Some (kv, r) \<Rightarrow>
          (case r of
             c # r' \<Rightarrow>
               (if c = 125 then Some ([kv], r')
                else if c = 44 then map_option (apfst (Cons kv)) (json_members r')
                else None)
           | [] \<Rightarrow> None))"
  by pat_completeness auto
termination
proof (relation "measure length")
  have scan: "json_scanstring s = Some (x, r) \<Longrightarrow> length r < length s" for s x r
  proof (induction s arbitrary: x rule: json_scanstring.induct)
    case (2 c cs)
    then show ?case
      by (auto simp: Let_def split: if_splits list.splits option.splits) fastforce+
  qed simp
  have ws: "length (json_skip_ws s) \<le> length s" for s
    by (simp add: json_skip_ws_def length_dropWhile_le)
  have str: "json_string s = Some (x, r) \<Longrightarrow> length r < length s" for s x r
    using scan ws [of s] by (fastforce simp: json_string_def split: list.splits if_splits)
  have "length r < length s" if a: "json_pair s = Some (kv, r)" for s kv r
  proof -
    obtain k r1 c r2 v r3 where p: "json_string s = Some (k, r1)" "json_skip_ws r1 = c # r2"
        "json_string r2 = Some (v, r3)" "r = json_skip_ws r3"
      using a by (auto simp: json_pair_def split: option.splits list.splits if_splits)
    show ?thesis
      using str [OF p(1)] str [OF p(3)] ws [of r1] ws [of r3] p(2,4) by simp
  qed
  then show "\<And>s x xa y xb x21 x22. json_pair s = Some x \<Longrightarrow> (xa, y) = x \<Longrightarrow> y = x21 # x22 \<Longrightarrow>
      \<not> x21 = 125 \<Longrightarrow> x21 = 44 \<Longrightarrow> (x22, s) \<in> measure length"
    by fastforce
qed simp

text \<open>\<open>json.loads\<close> of a document: whitespace, an object, whitespace and nothing else
  (\<open>Extra data\<close> otherwise).\<close>

definition json_loads_obj :: "pystr \<Rightarrow> (pystr \<times> pystr) list option" where
  "json_loads_obj s =
     (case json_skip_ws s of
        c # r \<Rightarrow>
          (if c \<noteq> 123 then None
           else (case json_skip_ws r of
                   d # r' \<Rightarrow>
                     (if d = 125 then (if json_skip_ws r' = [] then Some [] else None)
                      else (case json_members r of
                              None \<Rightarrow> None
                            | Some (kvs, r'') \<Rightarrow> if json_skip_ws r'' = [] then Some kvs else None))
                 | [] \<Rightarrow> None))
      | [] \<Rightarrow> None)"

text \<open>The value of a key in the decoded dict: the last member with that key.\<close>

definition json_get :: "(pystr \<times> pystr) list \<Rightarrow> pystr \<Rightarrow> pystr option" where
  "json_get kvs k = map_of (rev kvs) k"

subsection \<open>The formatter\<close>

record log_rec =
  rec_levelno :: nat
  rec_name :: pystr
  rec_message :: pystr
  rec_attrs :: "pystr \<Rightarrow> pystr option"
  rec_exc_text :: "pystr option"

text \<open>\<open>logging.getLevelName\<close> of a level number: \<open>_levelToName\<close>, or \<open>"Level %s"\<close>.\<close>

definition level_to_name :: "(nat \<times> pystr) list" where
  "level_to_name = [(50, py ''CRITICAL''), (40, py ''ERROR''), (30, py ''WARNING''), (20, py ''INFO''),
     (10, py ''DEBUG''), (0, py ''NOTSET'')]"

definition get_level_name :: "nat \<Rightarrow> pystr" where
  "get_level_name l = (case map_of level_to_name l of Some n \<Rightarrow> n | None \<Rightarrow> py ''Level '' @ str_nat l)"

definition context_keys :: "pystr list" where
  "context_keys = [py ''job_id'', py ''source'', py ''country'']"

text \<open>The dict \<open>JsonFormatter.format\<close> builds, in insertion order.\<close>

definition format_fields :: "log_rec \<Rightarrow> (pystr \<times> pystr) list" where
  "format_fields r =
     [(py ''level'', get_level_name (rec_levelno r)), (py ''message'', rec_message r), (py ''logger'', rec_name r)] @
     concat (map (\<lambda>k. case rec_attrs r k of None \<Rightarrow> [] | Some v \<Rightarrow> [(k, v)]) context_keys) @
     (case rec_exc_text r of None \<Rightarrow> [] | Some t \<Rightarrow> [(py ''exc_info'', t)])"

definition json_format :: "log_rec \<Rightarrow> pystr" where
  "json_format r = json_dumps_obj (format_fields r)"

text \<open>What the \<open>StreamHandler\<close> of \<open>configure_logging\<close> writes for a sequence of
  emitted records: each formatted record followed by the terminator \<open>"\n"\<close>.\<close>

definition handler_stream :: "log_rec list \<Rightarrow> pystr" where
  "handler_stream rs = concat (map (\<lambda>r. json_format r @ [10]) rs)"

subsection \<open>Round trip of the encoder\<close>

lemma hex_lower_digit: "d < 16 \<Longrightarrow> hex_digit (hex_lower d) \<and> hex_value (hex_lower d) = d"
  by (auto simp: hex_lower_def hex_digit_def hex_value_def ascii_digit_def)

lemma json_scan_escape:
  "json_scanstring (json_escape_char c @ t) = map_option (apfst (Cons c)) (json_scanstring t)"
proof (cases "c < 32 \<and> c \<notin> {8, 9, 10, 12, 13}")
  case True
  have "c div 16 < 16" "c mod 16 < 16" using True by auto
  then have h: "is_hex4 [48, 48, hex_lower (c div 16), hex_lower (c mod 16)]"
      "hex4 [48, 48, hex_lower (c div 16), hex_lower (c mod 16)] = c"
    using hex_lower_digit by (auto simp: is_hex4_def hex4_def hex_digit_def ascii_digit_def hex_value_def)
  show ?thesis using True h by (simp add: json_escape_char_def Let_def)
next
  case False
  then show ?thesis
    by (auto simp: json_escape_char_def json_backslash_def)
qed

lemma json_scan_str: "json_scanstring (concat (map json_escape_char s) @ 34 # rest) = Some (s, rest)"
  by (induction s) (simp_all add: json_scan_escape)

lemma json_skip_ws_quote [simp]: "json_skip_ws (34 # s) = 34 # s"
  by (simp add: json_skip_ws_def json_ws_def)

lemma json_string_str: "json_string (json_str s @ rest) = Some (s, rest)"
  by (simp add: json_string_def json_str_def json_scan_str)

lemma json_skip_ws_Nil [simp]: "json_skip_ws [] = []"
  by (simp add: json_skip_ws_def)

lemma json_skip_ws_ne [simp]: "\<not> json_ws c \<Longrightarrow> json_skip_ws (c # s) = c # s"
  by (simp add: json_skip_ws_def)

lemma json_string_space [simp]: "json_string (32 # s) = json_string s"
  by (simp add: json_string_def json_skip_ws_def json_ws_def)

lemma json_pair_space [simp]: "json_pair (32 # s) = json_pair s"
  by (simp add: json_pair_def)

lemma json_pair_str:
  "json_pair (json_str k @ py '': '' @ json_str v @ rest) = Some ((k, v), json_skip_ws rest)"
  by (simp add: json_pair_def json_string_str json_ws_def json_string_str [of k "py '': '' @ json_str v @ rest", simplified])

lemma json_members_join:
  "kvs \<noteq> [] \<Longrightarrow> json_members (py_join (py '', '') (map member_str kvs) @ 125 # rest) = Some (kvs, rest)"
proof (induction kvs)
  case Nil
  then show ?case by simp
next
  case (Cons kv kvs)
  obtain k v where kv: "kv = (k, v)" by fastforce
  show ?case
  proof (cases kvs)
    case Nil
    then show ?thesis
      using json_pair_str [of k v "125 # rest"]
      by (subst json_members.simps) (simp add: kv member_str_def json_ws_def)
  next
    case (Cons kv' kvs')
    then have ih: "json_members (py_join (py '', '') (map member_str kvs) @ 125 # rest) = Some (kvs, rest)"
      using Cons.IH by simp
    show ?thesis
      using json_pair_str [of k v "py '', '' @ py_join (py '', '') (map member_str kvs) @ 125 # rest"] ih Cons
      by (subst json_members.simps) (simp add: kv member_str_def json_ws_def)
  qed
qed

lemma json_loads_dumps: "json_loads_obj (json_dumps_obj kvs) = Some kvs"
proof (cases kvs)
  case Nil
  then show ?thesis by (simp add: json_loads_obj_def json_dumps_obj_def json_ws_def json_skip_ws_def)
next
  case (Cons a list)
  obtain k v where "a = (k, v)" by fastforce
  let ?b = "py_join (py '', '') (map member_str kvs)"
  have m: "json_members (?b @ [125]) = Some (kvs, [])"
    using json_members_join [of kvs "[]"] Cons by simp
  have "?b = json_str k @ drop (length (json_str k)) ?b"
    using Cons \<open>a = (k, v)\<close> by (cases list) (simp_all add: member_str_def)
  then have "json_skip_ws (?b @ [125]) = ?b @ [125]"
    by (metis append_assoc json_skip_ws_quote json_str_def append_Cons append_Nil)
  moreover have "hd (?b @ [125]) = 34"
    using \<open>?b = json_str k @ _\<close> by (metis append_Cons hd_append2 json_str_def append_Nil list.sel(1) list.distinct(1) Nil_is_append_conv)
  ultimately show ?thesis
    using m by (cases "?b @ [125]") (auto simp: json_loads_obj_def json_dumps_obj_def json_ws_def)
qed


lemma set_py_join: "set (py_join sep xs) \<subseteq> set sep \<union> \<Union> (set ` set xs)"
  by (induction sep xs rule: py_join.induct) auto

lemma json_escape_char_no_nl: "10 \<notin> set (json_escape_char c)"
  by (auto simp: json_escape_char_def hex_lower_def)

lemma json_str_no_nl: "10 \<notin> set (json_str s)"
  using json_escape_char_no_nl by (auto simp: json_str_def)

lemma json_dumps_no_nl: "10 \<notin> set (json_dumps_obj kvs)"
proof -
  have "10 \<notin> set (member_str kv)" for kv
    using json_str_no_nl by (auto simp: member_str_def split: prod.split)
  then show ?thesis
    using set_py_join [of "py '', ''" "map member_str kvs"] by (auto simp: json_dumps_obj_def)
qed

text \<open>C21. A record formatted by \<open>JsonFormatter\<close> reads back through \<open>json.loads\<close> as
  the dict the formatter built: the level name, the message, the logger name, the three
  context attributes when set and the formatted exception when there is one, whatever
  characters (quotes, backslashes, control characters) they hold.\<close>

theorem json_format_roundtrip:
  "json_loads_obj (json_format r) = Some (format_fields r) \<and>
   json_get (format_fields r) (py ''level'') = Some (get_level_name (rec_levelno r)) \<and>
   json_get (format_fields r) (py ''message'') = Some (rec_message r) \<and>
   json_get (format_fields r) (py ''logger'') = Some (rec_name r) \<and>
   json_get (format_fields r) (py ''job_id'') = rec_attrs r (py ''job_id'') \<and>
   json_get (format_fields r) (py ''source'') = rec_attrs r (py ''source'') \<and>
   json_get (format_fields r) (py ''country'') = rec_attrs r (py ''country'') \<and>
   json_get (format_fields r) (py ''exc_info'') = rec_exc_text r"
  by (simp add: json_format_def json_loads_dumps json_get_def format_fields_def context_keys_def
      split: option.split)

text \<open>C22. The log stream is JSON lines: split at its newlines, the output of any sequence
  of records is exactly one formatted record per line (a message or traceback with
  newlines in it is escaped, never broken across lines).\<close>

theorem handler_stream_lines: "py_split 10 (handler_stream rs) = map json_format rs @ [[]]"
  by (induction rs) (simp_all add: handler_stream_def json_format_def py_split_append_sep json_dumps_no_nl)

end
