(* ===== verification/Tracing.thy ===== *)
theory Tracing
  imports Prelude
begin

text \<open>
  \<^verbatim>\<open>ops/tracing.py\<close>: the OpenTelemetry shim. Whether \<open>opentelemetry\<close> can be
  imported is the flag \<open>otel_available\<close>; the spans the SDK ends are the list
  \<open>finished_spans\<close>, each with its name and whether it ended without an exception
  (\<open>start_as_current_span\<close> records an exception that leaves the block, sets the
  status to error and re-raises it). Without the library \<open>get_tracer\<close> gives the
  \<open>_NoopTracer\<close>, whose span does nothing and whose \<open>__exit__\<close> returns \<open>False\<close>,
  so an exception of the block propagates. A block run inside \<open>with span(name)\<close> is
  a state transformer with an exception or a value as result; nothing under
  \<^verbatim>\<open>src/\<close> calls \<open>span\<close> yet, so the block is a parameter.
\<close>

record trace_world =
  otel_available :: bool
  finished_spans :: "(pystr \<times> bool) list"

datatype tracer = NoopTracer | OtelTracer pystr

definition get_tracer :: "trace_world \<Rightarrow> pystr \<Rightarrow> tracer" where
  "get_tracer t name = (if \<not> otel_available t then NoopTracer else OtelTracer name)"

text \<open>\<open>with span(name) as s: body\<close>: the result of the body, exception included, with
  the span the real tracer ends.\<close>

definition span :: "pystr \<Rightarrow> ('s \<Rightarrow> ('e + 'a) \<times> 's) \<Rightarrow> trace_world \<times> 's \<Rightarrow> ('e + 'a) \<times> trace_world \<times> 's" where
  "span name body ts =
     (case ts of
        (t, s) \<Rightarrow>
          (case get_tracer t (py ''crawler'') of
             NoopTracer \<Rightarrow> (case body s of (r, s') \<Rightarrow> (r, t, s'))
           | OtelTracer _ \<Rightarrow>
               (case body s of (r, s') \<Rightarrow> (r, t\<lparr>finished_spans := finished_spans t @ [(name, \<not> isl r)]\<rparr>, s'))))"

text \<open>A span is transparent: the block's result, its exception included, and its
  effect on the state are those of the block alone; with OpenTelemetry one span with
  the name ends, marked failed exactly when the block raised, and without it nothing
  is recorded.\<close>

theorem span_transparent:
  "fst (span name body (t, s)) = fst (body s) \<and>
   snd (snd (span name body (t, s))) = snd (body s) \<and>
   finished_spans (fst (snd (span name body (t, s)))) =
     finished_spans t @ (if otel_available t then [(name, \<not> isl (fst (body s)))] else [])"
  by (simp add: span_def get_tracer_def split: prod.split)

end
