(* ===== verification/Curated.thy ===== *)
theory Curated
  imports Article Storage
begin









end
