(* ===== verification/SchedJob.thy ===== *)
theory SchedJob
  imports Scheduler RunSource
begin

text \<open>
  The job \<open>start_scheduler\<close> registers for a catalog entry (\<^verbatim>\<open>ops/scheduler.py\<close>,
  the inner \<open>async def job\<close>), with \<open>run_source\<close> of \<^verbatim>\<open>cli.py\<close> as the
  \<open>run_source_coro\<close> the crawler passes: it awaits
  \<open>run_source(source, country, max_pages)\<close> (so \<open>write_raw=False\<close>) and catches any
  exception, logging \<open>scheduled_run_error\<close> with \<open>exc_info\<close> at \<open>ERROR\<close> on the
  \<open>crawler.scheduler\<close> logger, whose level is the root level the run set. A firing
  returns the world the run leaves; it never raises.
\<close>

definition fire_job :: "run_env \<Rightarrow> sched_job \<Rightarrow> cli_world \<Rightarrow> cli_world option" where
  "fire_job env j w =
     (case run_source env (sjob_source j) (sjob_country j) (sjob_max_pages j) False None w of
        None \<Rightarrow> None
      | Some (Inl _, w') \<Rightarrow> Some (w'\<lparr>log := log_record (log_level w') ERROR LogScheduledRunError (log w')\<rparr>)
      | Some (Inr _, w') \<Rightarrow> Some w')"

text \<open>The job the scheduler registers for the catalog entry of the test batch.\<close>

definition demo_job :: sched_job where
  "demo_job = \<lparr>sjob_source = py ''example-news'', sjob_country = py ''MZ'', sjob_max_pages = 50,
     cron_minute = py ''0'', cron_hour = py ''*'', cron_day = py ''*'', cron_month = py ''*'',
     cron_day_of_week = py ''*''\<rparr>"

text \<open>A scheduled run always completes and never raises out of the job: when the run
  of \<open>run_source\<close> raises, the job logs \<open>scheduled_run_error\<close> after what the run
  logged, and otherwise it leaves the world the run left.\<close>

theorem fire_job_never_raises:
  "\<exists>w'. fire_job env j w = Some w' \<and>
     (case the (run_source env (sjob_source j) (sjob_country j) (sjob_max_pages j) False None w) of
        (Inl _, w1) \<Rightarrow> w' = w1\<lparr>log := log_record (log_level w1) ERROR LogScheduledRunError (log w1)\<rparr>
      | (Inr _, w1) \<Rightarrow> w' = w1)"
  using run_source_not_None [of env "sjob_source j" "sjob_country j" "sjob_max_pages j" False None w]
  by (auto simp: fire_job_def split: option.split prod.split sum.split)

text \<open>At the default level the scheduled run of the test catalog ends in
  \<open>scheduled_run_error\<close>: the first page's \<open>info\<close> call raises \<open>KeyError\<close> inside the
  loop's \<open>try\<close> (a \<open>run_error\<close>), the warning for the refused second URL raises it
  out of \<open>run_source\<close>, and the job catches it.\<close>

lemma fire_job_demo_default_level:
  "map_option log (fire_job demo_env demo_job (demo_start None)) = Some [LogRunError, LogScheduledRunError]"
  by (simp add: fire_job_def demo_job_def run_eval)

end
