(* ===== verification/Spec2Isabelle.thy ===== *)
theory Spec2Isabelle
  imports Fetch DedupIdem Robots RunSource Tasks Scheduler JsonLog Tracing Curated SchedJob
begin

text \<open>
  \<^bold>\<open>A verification library for the volector crawler\<close> (\<^verbatim>\<open>src/crawler\<close>).

  \<^bold>\<open>The program.\<close> A caller gives URLs (\<^verbatim>\<open>cli.py\<close>: \<open>crawl_once\<close> for a list,
  \<open>run_source\<close> for a catalog entry; \<^verbatim>\<open>workers/tasks.py\<close>: the Celery task
  \<open>crawl_url\<close>). For each URL the batch loop asks the Politeness Gate
  (\<^verbatim>\<open>core/robots.py\<close>: \<open>allowed\<close>, over an \<open>lru_cache\<close> of \<open>RobotFileParser\<close>s per
  host), fetches it with the Fetch Engine (\<^verbatim>\<open>core/fetch.py\<close>: \<open>fetch\<close>, \<open>_get\<close>
  with the \<open>backoff\<close> retry decorator and a politeness sleep), turns the page into an
  \<open>Article\<close> (\<^verbatim>\<open>pipelines/article.py\<close>: \<open>to_article\<close>, with \<^verbatim>\<open>core/parse.py\<close>
  extracting title and text and \<^verbatim>\<open>core/dedup.py\<close> fingerprinting it with SHA-256),
  counts it in the metrics and optionally writes the raw page to object storage. The
  components interact by calls only; the state they share is the network, the
  process-wide robots cache, the metrics counters and the log.

  \<^bold>\<open>The model.\<close> Every theory is a shallow embedding of one component:
  \<^item> \<open>Prelude\<close>: the types of Python values (\<open>pystr\<close>, a list of code points;
    \<open>bytes\<close>, a list of naturals below 256; \<open>pyval\<close>, the values of
    \<open>model_dump()\<close> dicts), literal conversion \<open>py\<close>, the lemma collections.
  \<^item> \<open>PyStr\<close>: the \<open>str\<close> methods the code and the standard library call
    (\<open>strip\<close>, \<open>lower\<close>, \<open>partition\<close>, \<open>split\<close>, \<open>splitlines\<close>, \<open>join\<close>),
    after CPython 3.11.
  \<^item> \<open>Utf8\<close>: \<open>str.encode('utf-8')\<close> with \<open>errors='strict'\<close> and \<open>'ignore'\<close>,
    \<open>bytes.decode('utf-8')\<close> with \<open>'strict'\<close> and \<open>'replace'\<close> (CPython's maximal
    subpart rule), and their round trips.
  \<^item> \<open>UrlParse\<close>: \<open>urllib.parse\<close> of CPython 3.11.10 as \<open>dedup.py\<close> and
    \<open>robots.py\<close> call it: \<open>urlsplit\<close> (with the \<open>ipaddress\<close> checks of bracketed
    hosts and the NFKC check of the netloc), \<open>urlunsplit\<close>, \<open>urlparse\<close>,
    \<open>quote_plus\<close>, \<open>unquote_plus\<close>, \<open>urlencode\<close>, \<open>parse_qsl\<close>; errors are
    values of \<open>url_error\<close>. \<open>UrlCodec\<close> proves the percent-encoding round trips.
  \<^item> \<open>Sha256\<close>: FIPS 180-4 SHA-256 over \<open>32 word\<close>, the digest of \<open>hashlib.sha256\<close>.
  \<^item> \<open>Fetch\<close> (\<^verbatim>\<open>core/fetch.py\<close>): the world state \<open>net\<close> holds the network as an
    oracle (\<open>replies\<close>: the reply to the \<open>n\<close>-th \<open>client.get\<close>; \<open>rng\<close>: the stream of
    \<open>random.random()\<close>) and logs requests, sleeps and opened clients. \<open>get_once\<close> is
    the body of \<open>_get\<close>; \<open>on_exception_get\<close> is the \<open>backoff.on_exception\<close> loop,
    a \<open>partial_function (option)\<close> because the decorator's loop need not stop for
    every configuration; \<open>get\<close> instantiates it with \<open>max_tries = 5\<close>; \<open>fetch\<close>
    opens an ephemeral client when none is given.
  \<^item> \<open>Dedup\<close> (\<^verbatim>\<open>core/dedup.py\<close>): \<open>canonical\<close> and \<open>content_hash\<close>, composed
    from the library models exactly as the source composes them. \<open>DedupIdem\<close>
    proves that \<open>canonical\<close> is idempotent (\<open>urlsplit\<close> reparses what
    \<open>urlunsplit\<close> writes for a canonical URL).
  \<^item> \<open>Robots\<close> (\<^verbatim>\<open>core/robots.py\<close>): \<open>allowed\<close> and \<open>robots_for\<close> with its
    \<open>lru_cache(maxsize=1024)\<close>, over the process state \<open>robots_world\<close> (the replies of
    \<open>urlopen\<close> as an oracle, the robots.txt request log, \<open>time.time()\<close>, the cache as
    a list from least to most recently used), and \<^verbatim>\<open>urllib.robotparser\<close>
    (\<open>read\<close>, \<open>parse\<close> as a fold of \<open>parse_line\<close> over the lines, \<open>can_fetch\<close>).
  \<^item> \<open>Parse\<close> (\<^verbatim>\<open>core/parse.py\<close>): \<open>_TitleTextParser\<close> as the record \<open>tt_state\<close>
    with one definition per handler, fed by \<open>html_tok\<close>, a model of \<open>html.parser\<close>'s
    \<open>goahead\<close> (tags, data, the raw content of \<open>script\<close>/\<open>style\<close>, the input it keeps
    buffered when \<open>close\<close> is not called); \<open>parse_article\<close> takes the optional
    readability/bs4 extractor as a parameter.
  \<^item> \<open>Article\<close> (\<^verbatim>\<open>pipelines/article.py\<close>, \<^verbatim>\<open>models/schemas.py\<close>): the
    \<open>Article\<close>, \<open>CrawlJob\<close> and \<open>PageRaw\<close> records with their defaults, and
    \<open>to_article\<close>, whose pydantic validation error is a value.
  \<^item> \<open>Storage\<close> (\<^verbatim>\<open>core/storage.py\<close>): the object store as a map from keys to
    objects, \<open>_client\<close> (\<open>storage_client\<close>), \<open>put_gz\<close>, and \<open>write_parquet\<close>
    writing the column table \<open>pa.Table.from_pydict\<close> builds (\<open>parquet_table\<close>,
    \<open>row.get(k)\<close> per cell), with their \<open>RuntimeError\<close> when the optional
    libraries (imported all or nothing) are missing, and the \<open>ArrowInvalid\<close> that
    \<open>from_pydict\<close> raises for a cell it cannot convert (\<open>arrow_value\<close>).
  \<^item> \<open>Curated\<close> (\<^verbatim>\<open>pipelines/article.py\<close>): \<open>model_dump\<close> of an article and
    \<open>write_curated_articles\<close>, the batch as a table at the curated path;
    \<open>model_dump\<close> keeps the URL as the pydantic \<open>Url\<close> object (\<open>PyUrl\<close>).
  \<^item> \<open>Logging\<close> (\<^verbatim>\<open>ops/logging.py\<close> and the \<open>logging\<close> rules it relies on):
    \<open>configure_logging\<close> from \<open>LOG_LEVEL\<close>, level filtering, and the \<open>KeyError\<close>
    \<open>Logger.makeRecord\<close> raises for \<open>extra={"message": ...}\<close>, which every log call
    of \<^verbatim>\<open>cli.py\<close> with \<open>extra\<close> passes.
  \<^item> \<open>JsonLog\<close> (\<^verbatim>\<open>ops/logging.py\<close>: \<open>JsonFormatter\<close>): the formatted record over a
    model of \<open>json.dumps\<close> (CPython 3.11's string escapes), the stream the handler
    writes, and \<open>json.loads\<close> on objects of strings (\<open>py_scanstring\<close> and
    \<open>JSONObject\<close>; \<open>json_members\<close> is a \<open>function\<close> whose termination by the
    length of the input is proved).
  \<^item> \<open>Metrics\<close> (\<^verbatim>\<open>ops/metrics.py\<close>): a counter is the Prometheus counter or the
    \<open>_NoopCounter\<close> fallback; \<open>counter_inc\<close> is \<open>labels(...).inc(n)\<close>, and
    \<open>inc_counter\<close>, which the batch drivers use on the counter values in their world,
    is its Prometheus case; \<open>start_metrics_server\<close> over \<open>start_http_server\<close>.
  \<^item> \<open>Tracing\<close> (\<^verbatim>\<open>ops/tracing.py\<close>): \<open>get_tracer\<close> and \<open>span\<close> as a wrapper
    of a block, with the ended spans of the OpenTelemetry SDK as a list.
  \<^item> \<open>Cli\<close> (\<^verbatim>\<open>cli.py\<close>: \<open>crawl_once\<close>): the world \<open>cli_world\<close> composes the
    network, the robots state, the store, the log level, the three counters of
    \<^verbatim>\<open>ops/metrics.py\<close>, the emitted log records and the metrics server state of
    Metrics (\<open>metricsw\<close>); \<open>crawl_loop\<close> is the loop as a
    function; \<open>gate_decisions\<close> reads off the answers \<open>allowed\<close> gives along a
    batch, so that the requests of each URL are tied to the gate's decision on it.
  \<^item> \<open>RunSource\<close> (\<^verbatim>\<open>cli.py\<close>: \<open>run_source\<close>): the catalog environment
    \<open>run_env\<close>, the slice \<open>base_urls[:max_pages]\<close>, the numbered loop \<open>run_loop\<close>,
    the raw write \<open>write_raw_page\<close> and its key \<open>raw_key\<close>, the call
    \<open>if metrics_port: start_metrics_server(metrics_port)\<close> (\<open>run_metrics\<close>) on the
    metrics part of the world; \<open>cli_main\<close> is
    \<open>main\<close> after argument parsing.
  \<^item> \<open>Render\<close> (\<^verbatim>\<open>core/render.py\<close>): \<open>render_html\<close> over \<open>render_net\<close>, the
    network of Fetch extended with Playwright's importability and the outcome of
    rendering a URL (oracles); its fallback is one request on that network.
  \<^item> \<open>Tasks\<close> (\<^verbatim>\<open>workers/tasks.py\<close>): the module level (\<open>BROKER_URL\<close>, the
    app only when Celery is importable), the body of the Celery task \<open>crawl_url\<close>
    (\<open>crawl_url_run\<close>) and the \<open>autoretry_for\<close> decorator (\<open>celery_retry\<close>, five
    retries).
  \<^item> \<open>Scheduler\<close> (\<^verbatim>\<open>ops/scheduler.py\<close>): \<open>start_scheduler\<close>'s loop
    \<open>add_jobs\<close> over the catalog entries into a job store keyed by
    \<open>source:country\<close>. \<open>SchedJob\<close>: a job firing (\<open>fire_job\<close>), which runs
    \<open>run_source\<close> of RunSource with the entry's arguments and catches its exception.

  \<^bold>\<open>What is proved.\<close>
  \<^item> Fetch Engine: \<open>get\<close> returns for every network behaviour and refines the
    closed-form contract \<open>get_spec\<close>; the retry behaviours the spec and the tests name
    follow from it: retry then success, HTTP errors not retried, giving up after five
    tries with back-off 1, 2, 4, 8 s, other transport errors not retried, between one
    and five requests with the last outcome as the result, the politeness delay in
    [0.15, 0.6] s after every success.
  \<^item> Canonicalizer: \<open>canonical\<close> depends only on scheme, lower-cased host, path
    without trailing slashes and the multiset of kept parameters; \<open>parse_qsl\<close> reads
    back what \<open>urlencode\<close> writes; \<open>canonical\<close> is idempotent on every URL it
    accepts; the spec's example; \<open>canonical\<close> raises on a malformed netloc. \<open>content_hash\<close> is always 64 lower-case hex digits.
  \<^item> Politeness Gate: every \<open>allowed\<close> keeps the cache an LRU cache (keys distinct,
    at most 1024); the first contact with a host requests robots.txt once and decides by
    the reply; a cached host is decided without a new request; an unreachable
    robots.txt refuses the host for the life of its cache entry (the gate fails closed,
    against the spec); first-match rule precedence; every URL whose path holds a lone
    surrogate is allowed by a host whose robots.txt was read, whatever its rules; \<open>allowed\<close> raising \<open>ValueError\<close>; the cache keyed by the netloc
    string; the spec's robots.txt example.
  \<^item> Parser and assembler: title and text are \<open>None\<close> or non-empty stripped strings;
    the first non-empty title wins; script content counts as text; text buffered at
    the end of the input is lost; \<open>to_article\<close>'s contract and the spec's example.
  \<^item> \<open>crawl_once\<close>: it returns for every behaviour of the model's oracles
    (\<open>crawl_once_not_None\<close>; \<open>urlopen\<close> is an oracle that always answers); a batch that ends normally requests its URLs
    in order, one to five times each URL the gate allows and never a URL it refuses,
    with one client; at the default level \<open>INFO\<close> every URL counts a fetch error
    (the \<open>info\<close> call raises inside the \<open>try\<close>) and the first refused URL ends the
    batch; with both calls filtered out the crawled and error counters grow by the
    number of URLs the gate allowed; an exception of the gate
    ends the batch.
  \<^item> \<open>run_source\<close>: it visits exactly \<open>base_urls[:max_pages]\<close>, requesting the
    URLs the gate allows one to five times and the others never; it writes the
    store only under the raw keys of its pages, and never at the default level; the
    early returns raise \<open>KeyError\<close>; a successful raw write and the byte counter; a
    failed raw write is swallowed; the page number reads back from the key.
  \<^item> Render and task: without Playwright the fallback is a single request without
    retry; the task's \<open>except RenderNotAvailable\<close> branch is dead (the body equals the
    body without it); \<open>crawl_url\<close> returns after at most six runs and 30 requests; a
    job without a country is run six times before it fails.
  \<^item> Scheduler: a returned scheduler holds exactly the jobs of the valid entries
    (the last entry winning per id); an invalid schedule and a missing APScheduler
    raise \<open>KeyError\<close> at the default level. A fired job always completes and never
    raises; at the default level the test catalog's run ends in \<open>scheduled_run_error\<close>.
  \<^item> Logging output: a formatted record reads back through \<open>json.loads\<close> as the
    dict the formatter built, whatever its strings hold; the handler's stream is one
    record per line.
  \<^item> Curated layer: with the storage libraries installed every non-empty batch
    raises \<open>ArrowInvalid\<close> and the store is unchanged, because the \<open>url\<close> cell is
    a \<open>Url\<close> object; in \<open>write_parquet\<close> a record missing a key reads back with
    \<open>None\<close> there.
  \<^item> Metrics and tracing: a counter sums its increments per label tuple (nothing
    with the fallback); \<open>start_metrics_server\<close> never raises and binds exactly a free
    port in range; a span is transparent for its block's result and effect and ends
    one span with OpenTelemetry. The metrics server is confined: a run with
    \<open>--metrics-port\<close> gives the result and world of the run without it, except the
    metrics state, which only \<open>run_metrics\<close> changes (frame lemmas
    \<open>run_once_try_metrics\<close>, \<open>run_loop_metrics\<close>).

  \<^bold>\<open>Bounds and fuel.\<close> The retry loop has no fuel: its termination for
  \<open>max_tries = 5\<close> is a theorem. The random stream is a parameter; the delay
  bound assumes \<open>0 \<le> random() \<le> 1\<close>, which CPython guarantees. Python strings
  hold code points below \<open>0x110000\<close> (\<open>valid_str\<close>), the hypothesis of the round
  trips.

  \<^bold>\<open>Bounds of the task.\<close> The task's bound of 30 requests is five tries of the
  Fetch Engine in each of at most six runs (\<open>max_retries=5\<close>); a rendered page costs
  one request (the fallback) per run.

  \<^bold>\<open>Plan, in order.\<close> (1) The log stream of a batch through the formatter
  (events of \<open>cli_world\<close> as records). (2) \<open>robots.py\<close>'s \<open>urlopen\<close> without a
  timeout, as a reply that may never come.

  \<^bold>\<open>Not modelled.\<close> The exporters behind Prometheus and OpenTelemetry (a scrape
  is \<open>counter_value\<close>, an exported span an entry of \<open>finished_spans\<close>), YAML parsing (its result is the catalog
  parameter), the gzip and Parquet byte formats, the readability/BeautifulSoup extractor
  (a parameter), character-reference unescaping in \<open>html.parser\<close> (data is the raw
  text between tags), the browser behind Playwright (an oracle), the Celery broker and
  retry countdowns, when APScheduler fires a job (the firing itself is modelled),
  argparse, environment-variable parsing of the configuration (the defaults are
  modelled), pyarrow's type inference for a column of mixed types (only the refusal of
  an object it cannot convert is modelled), what \<open>s3fs\<close> leaves at the path when a
  write fails inside \<open>fs.open\<close>, a \<open>urlopen\<close> that never answers (the oracle always
  answers). The
  batch drivers' counters are \<open>prometheus_client\<close>'s values; with the fallback
  they are not observable (\<open>counter_value\<close> is \<open>None\<close>).
\<close>

end
